theory Spec2Isabelle
  imports Main "HOL-Library.Word"
begin

unbundle bit_operations_syntax

section \<open>The call object of the surface layer (src/core/lib/surface/call.c)\<close>

text \<open>
  The theory follows call.c function by function. A function of call.c that mutates the
  call takes the call record and returns the updated one. What call.c hands to its
  collaborators (the filter stack, the call combiner, the completion queue, a closure, a
  child call) is appended to the field \<open>trace\<close> of the call, in program order. A failed
  \<open>GPR_ASSERT\<close> (the process aborts) and a dereferenced null pointer are the result
  \<open>None\<close>. Reference counts of errors, slices and metadata elements are not modelled.
\<close>

subsection \<open>Status codes and errors\<close>

type_synonym slice = string

text \<open>The values of \<open>grpc_status_code\<close> (grpc/status.h) that call.c names.\<close>

type_synonym grpc_status_code = int

abbreviation GRPC_STATUS_OK :: grpc_status_code where "GRPC_STATUS_OK \<equiv> 0"
abbreviation GRPC_STATUS_CANCELLED :: grpc_status_code where "GRPC_STATUS_CANCELLED \<equiv> 1"
abbreviation GRPC_STATUS_UNKNOWN :: grpc_status_code where "GRPC_STATUS_UNKNOWN \<equiv> 2"
abbreviation GRPC_STATUS_UNIMPLEMENTED :: grpc_status_code where "GRPC_STATUS_UNIMPLEMENTED \<equiv> 12"
abbreviation GRPC_STATUS_INTERNAL :: grpc_status_code where "GRPC_STATUS_INTERNAL \<equiv> 13"

text \<open>
  The error library (lib/iomgr/error.c) is not among the sources. An error value is the
  term that builds it: the two special errors, the creation macros, and the setters that
  call.c applies. How a status is read off an error (\<open>grpc_error_get_status\<close>,
  \<open>grpc_error_has_clear_grpc_status\<close>) is a parameter, see \<open>call_env\<close>.
\<close>

datatype grpc_error_ints = GRPC_ERROR_INT_GRPC_STATUS

datatype grpc_error_strs = GRPC_ERROR_STR_GRPC_MESSAGE

datatype grpc_error =
    GRPC_ERROR_NONE
  | GRPC_ERROR_CANCELLED
  | GRPC_ERROR_CREATE string
  | GRPC_ERROR_CREATE_REFERENCING string "grpc_error list"
  | grpc_error_set_int grpc_error grpc_error_ints int
  | grpc_error_set_str grpc_error grpc_error_strs slice
  | grpc_error_add_child grpc_error grpc_error

datatype gpr_timespec = Time int | Inf_future

datatype status_source =
    STATUS_FROM_API_OVERRIDE
  | STATUS_FROM_WIRE
  | STATUS_FROM_CORE
  | STATUS_FROM_SURFACE
  | STATUS_FROM_SERVER_STATUS

text \<open>The sources in the order of the enum, as \<open>for (i = 0; i < STATUS_SOURCE_COUNT; i++)\<close> visits them.\<close>

definition status_sources :: "status_source list" where
  "status_sources = [STATUS_FROM_API_OVERRIDE, STATUS_FROM_WIRE, STATUS_FROM_CORE,
     STATUS_FROM_SURFACE, STATUS_FROM_SERVER_STATUS]"

record received_status =
  is_set :: bool
  error :: grpc_error

text \<open>
  The packed atomic word: 0 is \<open>None\<close>, \<open>1 | error\<close> is \<open>Some error\<close>.
\<close>

definition pack_received_status :: "received_status \<Rightarrow> grpc_error option" where
  "pack_received_status r = (if is_set r then Some (error r) else None)"

definition unpack_received_status :: "grpc_error option \<Rightarrow> received_status" where
  "unpack_received_status atm =
     (case atm of
        None \<Rightarrow> \<lparr>is_set = False, error = GRPC_ERROR_NONE\<rparr>
      | Some e \<Rightarrow> \<lparr>is_set = True, error = e\<rparr>)"


subsection \<open>Faults\<close>

datatype fault = Assert_failed | Null_dereference | Index_out_of_bounds

definition bind :: "fault + 'a \<Rightarrow> ('a \<Rightarrow> fault + 'b) \<Rightarrow> fault + 'b" where
  "bind m f = (case m of Inl x \<Rightarrow> Inl x | Inr a \<Rightarrow> f a)"

definition GPR_ASSERT :: "bool \<Rightarrow> 'a \<Rightarrow> fault + 'a" where
  "GPR_ASSERT b a = (if b then Inr a else Inl Assert_failed)"

subsection \<open>Metadata\<close>

datatype user_data_key = destroy_status | destroy_encodings_accepted_by_peer

text \<open>
  A metadata element: key, value, and the user data slot, which holds a pointer-sized
  number under the destroy function that stored it.
\<close>

record grpc_mdelem =
  GRPC_MDKEY :: slice
  GRPC_MDVALUE :: slice
  user_data :: "(user_data_key \<times> nat) option"

text \<open>A \<open>void *\<close> as a number, \<open>NULL\<close> being 0.\<close>

definition grpc_mdelem_get_user_data :: "grpc_mdelem \<Rightarrow> user_data_key \<Rightarrow> nat" where
  "grpc_mdelem_get_user_data md k =
     (case user_data md of None \<Rightarrow> 0 | Some (k', p) \<Rightarrow> if k' = k then p else 0)"

text \<open>
  Modelled from the spec: \<open>grpc_mdelem_set_user_data\<close> (transport/metadata.c) is not among
  the sources; the spec has the value cached as user data on the element for subsequent
  lookups. A slot that is already filled keeps its content.
\<close>

definition grpc_mdelem_set_user_data :: "grpc_mdelem \<Rightarrow> user_data_key \<Rightarrow> nat \<Rightarrow> grpc_mdelem" where
  "grpc_mdelem_set_user_data md k p =
     (case user_data md of None \<Rightarrow> md\<lparr>user_data := Some (k, p)\<rparr> | Some _ \<Rightarrow> md)"

text \<open>
  Modelled from the spec: \<open>grpc_mdelem_eq\<close> (transport/metadata.c) is not among the
  sources; the fast paths of the spec are for the tokens, so elements are compared by
  key and value.
\<close>

definition grpc_mdelem_eq :: "grpc_mdelem \<Rightarrow> grpc_mdelem \<Rightarrow> bool" where
  "grpc_mdelem_eq a b \<longleftrightarrow> GRPC_MDKEY a = GRPC_MDKEY b \<and> GRPC_MDVALUE a = GRPC_MDVALUE b"

definition GRPC_MDELEM_GRPC_STATUS_0 :: grpc_mdelem where
  "GRPC_MDELEM_GRPC_STATUS_0 = \<lparr>GRPC_MDKEY = ''grpc-status'', GRPC_MDVALUE = ''0'', user_data = None\<rparr>"

definition GRPC_MDELEM_GRPC_STATUS_1 :: grpc_mdelem where
  "GRPC_MDELEM_GRPC_STATUS_1 = \<lparr>GRPC_MDKEY = ''grpc-status'', GRPC_MDVALUE = ''1'', user_data = None\<rparr>"

definition GRPC_MDELEM_GRPC_STATUS_2 :: grpc_mdelem where
  "GRPC_MDELEM_GRPC_STATUS_2 = \<lparr>GRPC_MDKEY = ''grpc-status'', GRPC_MDVALUE = ''2'', user_data = None\<rparr>"

text \<open>The application's view of a metadata element: key and value.\<close>

type_synonym grpc_metadata = "slice \<times> slice"

text \<open>
  Modelled from the spec: the transport metadata batch (transport/metadata_batch.c) is
  not among the sources. It is an ordered list with a named index and a deadline; the
  entry \<open>idx.named.k\<close> is the element of the list with key \<open>k\<close>, \<open>NULL\<close> when there is none.
\<close>

record grpc_metadata_batch =
  mdlist :: "grpc_mdelem list"
  deadline :: gpr_timespec

definition named :: "slice \<Rightarrow> grpc_metadata_batch \<Rightarrow> grpc_mdelem option" where
  "named k b = find (\<lambda>l. GRPC_MDKEY l = k) (mdlist b)"

definition grpc_metadata_batch_remove :: "grpc_metadata_batch \<Rightarrow> grpc_mdelem \<Rightarrow> grpc_metadata_batch" where
  "grpc_metadata_batch_remove b l = b\<lparr>mdlist := remove1 l (mdlist b)\<rparr>"

definition grpc_metadata_batch_clear :: "grpc_metadata_batch \<Rightarrow> grpc_metadata_batch" where
  "grpc_metadata_batch_clear b = \<lparr>mdlist = [], deadline = Inf_future\<rparr>"

subsection \<open>What call.c is linked with\<close>

type_synonym grpc_compression_level = nat
type_synonym grpc_compression_algorithm = nat

text \<open>
  Constants of the public headers and functions of other translation units, none of
  them among the sources. A function that returns an error is given by that error;
  a function that returns a flag and an out-parameter is given by an option.
\<close>

record call_env =
  grpc_error_has_clear_grpc_status :: "grpc_error \<Rightarrow> bool"
  grpc_error_get_status :: "grpc_error \<Rightarrow> gpr_timespec \<Rightarrow> grpc_status_code \<times> slice"
  GRPC_WRITE_USED_MASK :: "32 word"
  GRPC_WRITE_INTERNAL_USED_MASK :: "32 word"
  GRPC_WRITE_INTERNAL_COMPRESS :: "32 word"
  GRPC_INITIAL_METADATA_USED_MASK :: "32 word"
  GRPC_INITIAL_METADATA_IDEMPOTENT_REQUEST :: "32 word"
  GRPC_PROPAGATE_DEADLINE :: "32 word"
  GRPC_PROPAGATE_CENSUS_STATS_CONTEXT :: "32 word"
  GRPC_PROPAGATE_CENSUS_TRACING_CONTEXT :: "32 word"
  GRPC_PROPAGATE_CANCELLATION :: "32 word"
  grpc_validate_header_key_is_legal :: "slice \<Rightarrow> grpc_error"
  grpc_is_binary_header :: "slice \<Rightarrow> bool"
  grpc_validate_header_nonbin_value_is_legal :: "slice \<Rightarrow> grpc_error"
  grpc_metadata_batch_link_tail :: "grpc_metadata_batch \<Rightarrow> grpc_mdelem \<Rightarrow> grpc_error"
  grpc_parse_slice_to_uint32 :: "slice \<Rightarrow> 32 word option"
  GRPC_MESSAGE_COMPRESS_ALGORITHMS_COUNT :: nat
  GRPC_STREAM_COMPRESS_ALGORITHMS_COUNT :: nat
  GRPC_COMPRESS_ALGORITHMS_COUNT :: nat
  grpc_message_compression_algorithm_from_slice :: "slice \<Rightarrow> nat"
  grpc_stream_compression_algorithm_from_slice :: "slice \<Rightarrow> nat"
  grpc_message_compression_algorithm_parse :: "slice \<Rightarrow> 32 word option"
  grpc_stream_compression_algorithm_parse :: "slice \<Rightarrow> 32 word option"
  grpc_slice_split_without_space :: "slice \<Rightarrow> string \<Rightarrow> slice list"
  grpc_compression_bitset_from_message_stream_compression_bitset :: "32 word \<Rightarrow> 32 word \<Rightarrow> 32 word"
  grpc_compression_algorithm_from_message_stream_compression_algorithm ::
    "nat \<Rightarrow> nat \<Rightarrow> grpc_compression_algorithm option"
  grpc_compression_algorithm_for_level :: "grpc_compression_level \<Rightarrow> 32 word \<Rightarrow> grpc_compression_algorithm"
  grpc_compression_algorithm_slice :: "grpc_compression_algorithm \<Rightarrow> slice"
  grpc_compression_algorithm_name :: "grpc_compression_algorithm \<Rightarrow> string"
  grpc_compression_options_is_algorithm_enabled :: "grpc_compression_algorithm \<Rightarrow> bool"
  default_level :: "grpc_compression_level option"
  grpc_channel_get_reffed_status_elem :: "grpc_status_code \<Rightarrow> grpc_mdelem"
  grpc_cq_begin_op :: "nat \<Rightarrow> bool"

abbreviation GRPC_COMPRESS_NONE :: nat where "GRPC_COMPRESS_NONE \<equiv> 0"
abbreviation GRPC_MESSAGE_COMPRESS_NONE :: nat where "GRPC_MESSAGE_COMPRESS_NONE \<equiv> 0"
abbreviation GRPC_STREAM_COMPRESS_NONE :: nat where "GRPC_STREAM_COMPRESS_NONE \<equiv> 0"
abbreviation GRPC_COMPRESS_LEVEL_NONE :: nat where "GRPC_COMPRESS_LEVEL_NONE \<equiv> 0"

definition INT_MAX :: nat where
  "INT_MAX = 2147483647"


subsection \<open>Byte streams and byte buffers\<close>

record grpc_byte_buffer =
  compression :: grpc_compression_algorithm
  slice_buffer :: "slice list"

definition slice_buffer_length :: "grpc_byte_buffer \<Rightarrow> nat" where
  "slice_buffer_length bb = sum_list (map length (slice_buffer bb))"

definition grpc_raw_compressed_byte_buffer_create :: "grpc_compression_algorithm \<Rightarrow> grpc_byte_buffer" where
  "grpc_raw_compressed_byte_buffer_create algo = \<lparr>compression = algo, slice_buffer = []\<rparr>"

definition grpc_raw_byte_buffer_create :: grpc_byte_buffer where
  "grpc_raw_byte_buffer_create = grpc_raw_compressed_byte_buffer_create GRPC_COMPRESS_NONE"

text \<open>
  Modelled from the spec: a byte stream has a length, flags, \<open>next\<close>, which says whether
  data is ready now, and \<open>pull\<close>, which gives a slice or an error. The stream is given
  with what it will answer to the calls of \<open>next\<close>: \<open>None\<close> when no data is ready (the
  closure is kept for later), or the result of the \<open>pull\<close> that follows. A stream with no
  answer left is not ready.
\<close>

record grpc_byte_stream =
  stream_length :: nat
  stream_flags :: "32 word"
  answers :: "(grpc_error + slice) option list"

subsection \<open>Surface operations\<close>

datatype grpc_op_type =
    GRPC_OP_SEND_INITIAL_METADATA
  | GRPC_OP_SEND_MESSAGE
  | GRPC_OP_SEND_CLOSE_FROM_CLIENT
  | GRPC_OP_SEND_STATUS_FROM_SERVER
  | GRPC_OP_RECV_INITIAL_METADATA
  | GRPC_OP_RECV_MESSAGE
  | GRPC_OP_RECV_STATUS_ON_CLIENT
  | GRPC_OP_RECV_CLOSE_ON_SERVER

datatype grpc_call_error =
    GRPC_CALL_OK
  | GRPC_CALL_ERROR
  | GRPC_CALL_ERROR_INVALID_FLAGS
  | GRPC_CALL_ERROR_INVALID_METADATA
  | GRPC_CALL_ERROR_INVALID_MESSAGE
  | GRPC_CALL_ERROR_NOT_ON_CLIENT
  | GRPC_CALL_ERROR_NOT_ON_SERVER
  | GRPC_CALL_ERROR_TOO_MANY_OPERATIONS

text \<open>
  The members of the union \<open>data\<close> of an op, side by side. A pointer to a location of
  the application is the content of the location, \<open>None\<close> for a null pointer. An array
  and its count are a list: the count is the length of the list.
\<close>

record grpc_op_data =
  send_initial_metadata_metadata :: "grpc_metadata list"
  maybe_compression_level :: "grpc_compression_level option"
  send_message_send_message :: "grpc_byte_buffer option"
  trailing_metadata :: "grpc_metadata list"
  send_status :: grpc_status_code
  send_status_details :: "slice option"
  recv_initial_metadata_recv_initial_metadata :: "grpc_metadata list option"
  recv_message_recv_message :: "grpc_byte_buffer option option"
  recv_status_trailing_metadata :: "grpc_metadata list option"
  recv_status_status :: "grpc_status_code option"
  recv_status_status_details :: "slice option"
  recv_close_cancelled :: "int option"

record grpc_op =
  op :: grpc_op_type
  flags :: "32 word"
  reserved :: bool
  data :: grpc_op_data

subsection \<open>Batches\<close>

record grpc_transport_stream_op_batch =
  send_initial_metadata :: bool
  send_message :: bool
  send_trailing_metadata :: bool
  recv_initial_metadata :: bool
  recv_message :: bool
  recv_trailing_metadata :: bool
  collect_stats :: bool
  cancel_stream :: bool

definition zero_op :: grpc_transport_stream_op_batch where
  "zero_op = \<lparr>send_initial_metadata = False, send_message = False,
     send_trailing_metadata = False, recv_initial_metadata = False, recv_message = False,
     recv_trailing_metadata = False, collect_stats = False, cancel_stream = False\<rparr>"

abbreviation MAX_ERRORS_PER_BATCH :: nat where "MAX_ERRORS_PER_BATCH \<equiv> 4"

text \<open>
  \<open>bctl_call\<close> is \<open>bctl->call != NULL\<close>: a batch control points to the call that owns
  its slot or to nothing. The array \<open>errors\<close> is a function of the index; the functions
  that index it check the index against \<open>MAX_ERRORS_PER_BATCH\<close>.
\<close>

record batch_control =
  bctl_call :: bool
  notify_tag :: nat
  is_closure :: bool
  steps_to_complete :: int
  errors :: "nat \<Rightarrow> grpc_error"
  num_errors :: nat
  bctl_op :: grpc_transport_stream_op_batch

text \<open>A batch control after \<open>memset(bctl, 0, sizeof(*bctl))\<close>; arena memory starts zeroed too.\<close>

definition zero_bctl :: batch_control where
  "zero_bctl = \<lparr>bctl_call = False, notify_tag = 0, is_closure = False, steps_to_complete = 0,
     errors = (\<lambda>_. GRPC_ERROR_NONE), num_errors = 0, bctl_op = zero_op\<rparr>"

text \<open>
  \<open>recv_state\<close>: 0, 1, or a pointer to a batch control. A batch control lives in its slot
  of \<open>active_batches\<close>, so a pointer to it is the number of the slot.
\<close>

datatype recv_state = RECV_NONE | RECV_INITIAL_METADATA_FIRST | Recv_bctl nat

subsection \<open>What the call hands to its collaborators\<close>

datatype batch_ref = Bctl nat | Cancel_state grpc_error

datatype cq_done = finish_batch_completion_of nat | free_no_op_completion

datatype event =
    Execute_batch batch_ref grpc_transport_stream_op_batch
  | Call_combiner_stop string
  | Call_combiner_cancel grpc_error
  | Cq_begin_op nat
  | Cq_end_op nat grpc_error cq_done
  | Closure_run nat grpc_error
  | Closure_sched nat grpc_error
  | Cancel_child nat
  | Entered string

datatype grpc_polling_entity = Pollent_empty | Pollent_pollset nat | Pollent_pollset_set nat

subsection \<open>The call\<close>

text \<open>
  \<open>parent_call_atm\<close> is the parent record, if allocated: the ring of children from
  \<open>first_child\<close> along \<open>sibling_next\<close>, each child with its \<open>cancellation_is_inherited\<close>
  (set at creation, never changed). \<open>child_call\<close> is the parent of the call, if any.
\<close>

record grpc_call =
  cq :: "nat option"
  pollent :: grpc_polling_entity
  parent_call_atm :: "(nat \<times> bool) list option"
  child_call :: "nat option"
  is_client :: bool
  cancellation_is_inherited :: bool
  sent_initial_metadata :: bool
  sending_message :: bool
  sent_final_op :: bool
  received_initial_metadata :: bool
  receiving_message :: bool
  requested_final_op :: bool
  any_ops_sent_atm :: nat
  received_final_op_atm :: nat
  active_batches :: "nat \<Rightarrow> batch_control option"
  send_initial_metadata_flags :: "32 word"
  metadata_batch :: "bool \<Rightarrow> bool \<Rightarrow> grpc_metadata_batch"
  buffered_metadata :: "bool \<Rightarrow> grpc_metadata list option"
  compression_md :: grpc_metadata
  status :: "status_source \<Rightarrow> grpc_error option"
  incoming_message_compression_algorithm :: nat
  incoming_stream_compression_algorithm :: nat
  encodings_accepted_by_peer :: "32 word"
  context_TRACING :: nat
  send_extra_metadata :: "nat \<Rightarrow> grpc_mdelem"
  send_extra_metadata_count :: int
  send_deadline :: gpr_timespec
  sending_stream :: "grpc_byte_stream option"
  receiving_stream :: "grpc_byte_stream option"
  receiving_buffer :: "grpc_byte_buffer option option"
  test_only_last_message_flags :: "32 word"
  final_op_client_status :: "grpc_status_code option"
  final_op_client_status_details :: "slice option"
  final_op_server_cancelled :: "int option"
  recv_state :: recv_state
  trace :: "event list"


subsection \<open>Call creation errors, dispatch and cancellation\<close>

definition add_init_error :: "grpc_error \<Rightarrow> grpc_error \<Rightarrow> grpc_error" where
  "add_init_error composite new =
     (if new = GRPC_ERROR_NONE then composite
      else grpc_error_add_child
             (if composite = GRPC_ERROR_NONE then GRPC_ERROR_CREATE ''Call creation failed''
              else composite) new)"

text \<open>\<open>execute_batch\<close> enters the call combiner with the batch; the filter stack gets it from there.\<close>

definition execute_batch :: "grpc_call \<Rightarrow> batch_ref \<Rightarrow> grpc_transport_stream_op_batch \<Rightarrow> grpc_call" where
  "execute_batch call r batch = call\<lparr>trace := trace call @ [Execute_batch r batch]\<rparr>"

definition set_status_from_error :: "grpc_call \<Rightarrow> status_source \<Rightarrow> grpc_error \<Rightarrow> grpc_call" where
  "set_status_from_error call source err =
     (if status call source = pack_received_status \<lparr>is_set = False, error = GRPC_ERROR_NONE\<rparr>
      then call\<lparr>status := (status call)(source := pack_received_status \<lparr>is_set = True, error = err\<rparr>)\<rparr>
      else call)"

definition cancel_with_error :: "grpc_call \<Rightarrow> status_source \<Rightarrow> grpc_error \<Rightarrow> grpc_call" where
  "cancel_with_error c source err =
     (let c1 = c\<lparr>trace := trace c @ [Call_combiner_cancel err]\<rparr>;
          c2 = set_status_from_error c1 source err
      in execute_batch c2 (Cancel_state err) (zero_op\<lparr>cancel_stream := True\<rparr>))"

definition error_from_status :: "grpc_status_code \<Rightarrow> string \<Rightarrow> grpc_error" where
  "error_from_status st description =
     grpc_error_set_int
       (grpc_error_set_str (GRPC_ERROR_CREATE description) GRPC_ERROR_STR_GRPC_MESSAGE description)
       GRPC_ERROR_INT_GRPC_STATUS st"

definition cancel_with_status :: "grpc_call \<Rightarrow> status_source \<Rightarrow> grpc_status_code \<Rightarrow> string \<Rightarrow> grpc_call" where
  "cancel_with_status c source st description =
     cancel_with_error c source (error_from_status st description)"

subsection \<open>Final status\<close>

text \<open>
  \<open>get_final_status_from\<close> returns false and writes nothing (\<open>None\<close>) or returns true after
  passing the code to \<open>set_value\<close> and storing the slice in \<open>details\<close>, if that is not null.
\<close>

definition get_final_status_from ::
  "call_env \<Rightarrow> gpr_timespec \<Rightarrow> grpc_error \<Rightarrow> bool \<Rightarrow> (grpc_status_code \<times> slice) option" where
  "get_final_status_from env dl err allow_ok_status =
     (case grpc_error_get_status env err dl of (code, sl) \<Rightarrow>
        if code = GRPC_STATUS_OK \<and> \<not> allow_ok_status then None else Some (code, sl))"

text \<open>The first inner loop: entries that are set and have a clear status.\<close>

fun search_clear ::
  "call_env \<Rightarrow> gpr_timespec \<Rightarrow> bool \<Rightarrow> received_status list \<Rightarrow> (grpc_status_code \<times> slice) option" where
  "search_clear env dl allow_ok_status [] = None"
| "search_clear env dl allow_ok_status (s # ss) =
     (if is_set s \<and> grpc_error_has_clear_grpc_status env (error s)
      then (case get_final_status_from env dl (error s) allow_ok_status of
              Some r \<Rightarrow> Some r
            | None \<Rightarrow> search_clear env dl allow_ok_status ss)
      else search_clear env dl allow_ok_status ss)"

text \<open>The second inner loop: any entry that is set.\<close>

fun search_any ::
  "call_env \<Rightarrow> gpr_timespec \<Rightarrow> bool \<Rightarrow> received_status list \<Rightarrow> (grpc_status_code \<times> slice) option" where
  "search_any env dl allow_ok_status [] = None"
| "search_any env dl allow_ok_status (s # ss) =
     (if is_set s
      then (case get_final_status_from env dl (error s) allow_ok_status of
              Some r \<Rightarrow> Some r
            | None \<Rightarrow> search_any env dl allow_ok_status ss)
      else search_any env dl allow_ok_status ss)"

text \<open>The outer loop over \<open>allow_ok_status\<close>.\<close>

fun search_passes ::
  "call_env \<Rightarrow> gpr_timespec \<Rightarrow> received_status list \<Rightarrow> bool list \<Rightarrow> (grpc_status_code \<times> slice) option" where
  "search_passes env dl st [] = None"
| "search_passes env dl st (allow_ok_status # rest) =
     (case search_clear env dl allow_ok_status st of
        Some r \<Rightarrow> Some r
      | None \<Rightarrow>
          (case search_any env dl allow_ok_status st of
             Some r \<Rightarrow> Some r
           | None \<Rightarrow> search_passes env dl st rest))"

text \<open>
  The result of \<open>get_final_status\<close>: the code that \<open>set_value\<close> receives, and the slice
  stored in \<open>details\<close> when \<open>details\<close> is not null (\<open>None\<close>: \<open>details\<close> is left as it was).
\<close>

definition get_final_status :: "call_env \<Rightarrow> grpc_call \<Rightarrow> grpc_status_code \<times> slice option" where
  "get_final_status env call =
     (let st = map (\<lambda>i. unpack_received_status (status call i)) status_sources
      in case search_passes env (send_deadline call) st [False, True] of
           Some (code, sl) \<Rightarrow> (code, Some sl)
         | None \<Rightarrow> (if is_client call then GRPC_STATUS_UNKNOWN else GRPC_STATUS_OK, None))"

definition set_status_value_directly :: "grpc_status_code \<Rightarrow> grpc_status_code" where
  "set_status_value_directly st = st"

definition set_cancelled_value :: "grpc_status_code \<Rightarrow> int" where
  "set_cancelled_value st = (if st \<noteq> GRPC_STATUS_OK then 1 else 0)"

text \<open>
  The selection as the specification words it: under \<open>allow_ok\<close>, the first source in
  priority order that is set, carries an explicit status and is acceptable; if there is
  none, the first source that is set and acceptable.
\<close>

definition acceptable :: "call_env \<Rightarrow> gpr_timespec \<Rightarrow> bool \<Rightarrow> grpc_error \<Rightarrow> bool" where
  "acceptable env dl allow_ok e \<longleftrightarrow> allow_ok \<or> fst (grpc_error_get_status env e dl) \<noteq> GRPC_STATUS_OK"

definition spec_select ::
  "call_env \<Rightarrow> gpr_timespec \<Rightarrow> (status_source \<Rightarrow> grpc_error option) \<Rightarrow> bool \<Rightarrow> grpc_error option" where
  "spec_select env dl slots allow_ok =
     (case find (\<lambda>e. grpc_error_has_clear_grpc_status env e \<and> acceptable env dl allow_ok e)
             (List.map_filter slots status_sources) of
        Some e \<Rightarrow> Some e
      | None \<Rightarrow> find (acceptable env dl allow_ok) (List.map_filter slots status_sources))"

definition spec_final_status ::
  "call_env \<Rightarrow> bool \<Rightarrow> gpr_timespec \<Rightarrow> (status_source \<Rightarrow> grpc_error option) \<Rightarrow> grpc_status_code \<times> slice option" where
  "spec_final_status env client dl slots =
     (case spec_select env dl slots False of
        Some e \<Rightarrow> map_prod id Some (grpc_error_get_status env e dl)
      | None \<Rightarrow>
          (case spec_select env dl slots True of
             Some e \<Rightarrow> map_prod id Some (grpc_error_get_status env e dl)
           | None \<Rightarrow> (if client then GRPC_STATUS_UNKNOWN else GRPC_STATUS_OK, None)))"

subsection \<open>Compression and metadata filters\<close>

definition set_incoming_message_compression_algorithm ::
  "call_env \<Rightarrow> grpc_call \<Rightarrow> nat \<Rightarrow> fault + grpc_call" where
  "set_incoming_message_compression_algorithm env call algo =
     GPR_ASSERT (algo < GRPC_MESSAGE_COMPRESS_ALGORITHMS_COUNT env)
       (call\<lparr>incoming_message_compression_algorithm := algo\<rparr>)"

definition set_incoming_stream_compression_algorithm ::
  "call_env \<Rightarrow> grpc_call \<Rightarrow> nat \<Rightarrow> fault + grpc_call" where
  "set_incoming_stream_compression_algorithm env call algo =
     GPR_ASSERT (algo < GRPC_STREAM_COMPRESS_ALGORITHMS_COUNT env)
       (call\<lparr>incoming_stream_compression_algorithm := algo\<rparr>)"

definition compression_algorithm_for_level_locked ::
  "call_env \<Rightarrow> grpc_call \<Rightarrow> grpc_compression_level \<Rightarrow> grpc_compression_algorithm" where
  "compression_algorithm_for_level_locked env call level =
     grpc_compression_algorithm_for_level env level (encodings_accepted_by_peer call)"

definition GPR_BITSET :: "32 word \<Rightarrow> 32 word \<Rightarrow> 32 word" where
  "GPR_BITSET i n = i OR push_bit (unat n) 1"

text \<open>The loop of \<open>set_encodings_accepted_by_peer\<close> over the parts of the header value.\<close>

fun accept_encoding_parts :: "call_env \<Rightarrow> bool \<Rightarrow> slice list \<Rightarrow> 32 word \<Rightarrow> 32 word" where
  "accept_encoding_parts env stream_encoding [] acc = acc"
| "accept_encoding_parts env stream_encoding (entry # entries) acc =
     (case (if \<not> stream_encoding then grpc_message_compression_algorithm_parse env entry
            else grpc_stream_compression_algorithm_parse env entry) of
        Some algorithm \<Rightarrow> accept_encoding_parts env stream_encoding entries (GPR_BITSET acc algorithm)
      | None \<Rightarrow> accept_encoding_parts env stream_encoding entries acc)"

text \<open>The result is \<open>*encodings_accepted_by_peer\<close> and the element with its user data.\<close>

definition set_encodings_accepted_by_peer ::
  "call_env \<Rightarrow> grpc_mdelem \<Rightarrow> bool \<Rightarrow> 32 word \<times> grpc_mdelem" where
  "set_encodings_accepted_by_peer env mdel stream_encoding =
     (let accepted_user_data = grpc_mdelem_get_user_data mdel destroy_encodings_accepted_by_peer
      in if accepted_user_data \<noteq> 0 then (of_nat (accepted_user_data - 1), mdel)
         else
           let parts = grpc_slice_split_without_space env (GRPC_MDVALUE mdel) '','';
               accepted = accept_encoding_parts env stream_encoding parts (GPR_BITSET 0 0)
           in (accepted,
               grpc_mdelem_set_user_data mdel destroy_encodings_accepted_by_peer (unat accepted + 1)))"

definition grpc_mdelem_from_grpc_metadata :: "grpc_metadata \<Rightarrow> grpc_mdelem" where
  "grpc_mdelem_from_grpc_metadata md = \<lparr>GRPC_MDKEY = fst md, GRPC_MDVALUE = snd md, user_data = None\<rparr>"

text \<open>The validation of one element in the first loop of \<open>prepare_application_metadata\<close>.\<close>

definition md_is_legal :: "call_env \<Rightarrow> grpc_metadata \<Rightarrow> bool" where
  "md_is_legal env md \<longleftrightarrow>
     grpc_validate_header_key_is_legal env (fst md) = GRPC_ERROR_NONE \<and>
     (grpc_is_binary_header env (fst md) \<or>
      grpc_validate_header_nonbin_value_is_legal env (snd md) = GRPC_ERROR_NONE)"

text \<open>Linking elements at the tail; an element whose link fails is dropped.\<close>

fun link_tail_all :: "call_env \<Rightarrow> grpc_metadata_batch \<Rightarrow> grpc_mdelem list \<Rightarrow> grpc_metadata_batch" where
  "link_tail_all env b [] = b"
| "link_tail_all env b (l # ls) =
     link_tail_all env
       (if grpc_metadata_batch_link_tail env b l = GRPC_ERROR_NONE
        then b\<lparr>mdlist := mdlist b @ [l]\<rparr> else b) ls"

definition prepare_application_metadata ::
  "call_env \<Rightarrow> grpc_call \<Rightarrow> grpc_metadata list \<Rightarrow> bool \<Rightarrow> bool \<Rightarrow> grpc_metadata list \<Rightarrow> bool \<times> grpc_call" where
  "prepare_application_metadata env call mds is_trailing prepend_extra_metadata additional_metadata =
     (let batch = metadata_batch call False is_trailing
      in if \<not> list_all (md_is_legal env) (mds @ additional_metadata) then (False, call)
         else
           let batch1 =
                 (if prepend_extra_metadata \<and> send_extra_metadata_count call \<noteq> 0
                  then link_tail_all env batch
                         (map (send_extra_metadata call) [0 ..< nat (send_extra_metadata_count call)])
                  else batch);
               batch2 = link_tail_all env batch1
                          (map grpc_mdelem_from_grpc_metadata (mds @ additional_metadata))
           in (True,
               call\<lparr>metadata_batch := (metadata_batch call)
                       (False := (metadata_batch call False)(is_trailing := batch2)),
                     send_extra_metadata_count := 0\<rparr>))"

abbreviation STATUS_OFFSET :: "32 word" where "STATUS_OFFSET \<equiv> 1"

text \<open>The result is the status and the element with its user data.\<close>

definition decode_status :: "call_env \<Rightarrow> grpc_mdelem \<Rightarrow> 32 word \<times> grpc_mdelem" where
  "decode_status env md =
     (if grpc_mdelem_eq md GRPC_MDELEM_GRPC_STATUS_0 then (0, md)
      else if grpc_mdelem_eq md GRPC_MDELEM_GRPC_STATUS_1 then (1, md)
      else if grpc_mdelem_eq md GRPC_MDELEM_GRPC_STATUS_2 then (2, md)
      else
        let ud = grpc_mdelem_get_user_data md destroy_status
        in if ud \<noteq> 0 then (of_nat ud - STATUS_OFFSET, md)
           else
             let st = (case grpc_parse_slice_to_uint32 env (GRPC_MDVALUE md) of
                         Some n \<Rightarrow> n
                       | None \<Rightarrow> word_of_int GRPC_STATUS_UNKNOWN)
             in (st, grpc_mdelem_set_user_data md destroy_status (unat (st + STATUS_OFFSET))))"

definition decode_message_compression :: "call_env \<Rightarrow> grpc_mdelem \<Rightarrow> nat" where
  "decode_message_compression env md =
     (let algorithm = grpc_message_compression_algorithm_from_slice env (GRPC_MDVALUE md)
      in if algorithm = GRPC_MESSAGE_COMPRESS_ALGORITHMS_COUNT env then GRPC_MESSAGE_COMPRESS_NONE
         else algorithm)"

definition decode_stream_compression :: "call_env \<Rightarrow> grpc_mdelem \<Rightarrow> nat" where
  "decode_stream_compression env md =
     (let algorithm = grpc_stream_compression_algorithm_from_slice env (GRPC_MDVALUE md)
      in if algorithm = GRPC_STREAM_COMPRESS_ALGORITHMS_COUNT env then GRPC_STREAM_COMPRESS_NONE
         else algorithm)"

definition publish_app_metadata :: "grpc_call \<Rightarrow> grpc_metadata_batch \<Rightarrow> bool \<Rightarrow> fault + grpc_call" where
  "publish_app_metadata call b is_trailing =
     (if mdlist b = [] then Inr call
      else case buffered_metadata call is_trailing of
             None \<Rightarrow> Inl Null_dereference
           | Some dest \<Rightarrow>
               Inr (call\<lparr>buffered_metadata := (buffered_metadata call)
                      (is_trailing := Some (dest @ map (\<lambda>l. (GRPC_MDKEY l, GRPC_MDVALUE l)) (mdlist b)))\<rparr>))"

text \<open>
  The two filters work on the batch they are given by pointer; they return the call and
  the batch, and the caller stores the batch back into \<open>metadata_batch\<close>.
\<close>

definition recv_initial_filter ::
  "call_env \<Rightarrow> grpc_call \<Rightarrow> grpc_metadata_batch \<Rightarrow> fault + (grpc_call \<times> grpc_metadata_batch)" where
  "recv_initial_filter env call0 b0 =
     (let call = call0\<lparr>trace := trace call0 @ [Entered ''recv_initial_filter'']\<rparr> in
      bind (case named ''content-encoding'' b0 of
              None \<Rightarrow> Inr (call, b0)
            | Some l \<Rightarrow>
                bind (set_incoming_stream_compression_algorithm env call (decode_stream_compression env l))
                  (\<lambda>c. Inr (c, grpc_metadata_batch_remove b0 l)))
        (\<lambda>(call1, b1).
      bind (case named ''grpc-encoding'' b1 of
              None \<Rightarrow> Inr (call1, b1)
            | Some l \<Rightarrow>
                bind (set_incoming_message_compression_algorithm env call1 (decode_message_compression env l))
                  (\<lambda>c. Inr (c, grpc_metadata_batch_remove b1 l)))
        (\<lambda>(call2, b2).
      let (message_encodings_accepted_by_peer, b3) =
            (case named ''grpc-accept-encoding'' b2 of
               None \<Rightarrow> (1, b2)
             | Some l \<Rightarrow> (fst (set_encodings_accepted_by_peer env l False),
                          grpc_metadata_batch_remove b2 l));
          (stream_encodings_accepted_by_peer, b4) =
            (case named ''accept-encoding'' b3 of
               None \<Rightarrow> (1, b3)
             | Some l \<Rightarrow> (fst (set_encodings_accepted_by_peer env l True),
                          grpc_metadata_batch_remove b3 l));
          call3 = call2\<lparr>encodings_accepted_by_peer :=
                    grpc_compression_bitset_from_message_stream_compression_bitset env
                      message_encodings_accepted_by_peer stream_encodings_accepted_by_peer\<rparr>
      in bind (publish_app_metadata call3 b4 False) (\<lambda>c. Inr (c, b4)))))"

definition recv_trailing_filter ::
  "call_env \<Rightarrow> grpc_call \<Rightarrow> grpc_metadata_batch \<Rightarrow> fault + (grpc_call \<times> grpc_metadata_batch)" where
  "recv_trailing_filter env call b =
     (let (call2, b2) =
            (case named ''grpc-status'' b of
               None \<Rightarrow> (call, b)
             | Some status_md \<Rightarrow>
                 let status_code = fst (decode_status env status_md);
                     err = (if status_code = word_of_int GRPC_STATUS_OK then GRPC_ERROR_NONE
                            else grpc_error_set_int (GRPC_ERROR_CREATE ''Error received from peer'')
                                   GRPC_ERROR_INT_GRPC_STATUS (uint status_code));
                     (err1, b1) =
                       (case named ''grpc-message'' b of
                          Some message_md \<Rightarrow>
                            (grpc_error_set_str err GRPC_ERROR_STR_GRPC_MESSAGE (GRPC_MDVALUE message_md),
                             grpc_metadata_batch_remove b message_md)
                        | None \<Rightarrow>
                            (if err \<noteq> GRPC_ERROR_NONE
                             then grpc_error_set_str err GRPC_ERROR_STR_GRPC_MESSAGE []
                             else err, b))
                 in (set_status_from_error call STATUS_FROM_WIRE err1,
                     grpc_metadata_batch_remove b1 status_md))
      in bind (publish_app_metadata call2 b2 True) (\<lambda>c. Inr (c, b2)))"

subsection \<open>Batch API implementation\<close>

definition are_write_flags_valid :: "call_env \<Rightarrow> 32 word \<Rightarrow> bool" where
  "are_write_flags_valid env fl =
     (let allowed_write_positions = GRPC_WRITE_USED_MASK env OR GRPC_WRITE_INTERNAL_USED_MASK env;
          invalid_positions = NOT allowed_write_positions
      in fl AND invalid_positions = 0)"

definition are_initial_metadata_flags_valid :: "call_env \<Rightarrow> 32 word \<Rightarrow> bool \<Rightarrow> bool" where
  "are_initial_metadata_flags_valid env fl client =
     (let invalid_positions = NOT (GRPC_INITIAL_METADATA_USED_MASK env);
          invalid_positions1 = (if \<not> client
                                then invalid_positions OR GRPC_INITIAL_METADATA_IDEMPOTENT_REQUEST env
                                else invalid_positions)
      in fl AND invalid_positions1 = 0)"

fun batch_slot_for_op :: "grpc_op_type \<Rightarrow> nat" where
  "batch_slot_for_op GRPC_OP_SEND_INITIAL_METADATA = 0"
| "batch_slot_for_op GRPC_OP_SEND_MESSAGE = 1"
| "batch_slot_for_op GRPC_OP_SEND_CLOSE_FROM_CLIENT = 2"
| "batch_slot_for_op GRPC_OP_SEND_STATUS_FROM_SERVER = 2"
| "batch_slot_for_op GRPC_OP_RECV_INITIAL_METADATA = 3"
| "batch_slot_for_op GRPC_OP_RECV_MESSAGE = 4"
| "batch_slot_for_op GRPC_OP_RECV_CLOSE_ON_SERVER = 5"
| "batch_slot_for_op GRPC_OP_RECV_STATUS_ON_CLIENT = 5"

text \<open>
  The result is the call and the batch control, \<open>None\<close> for \<open>NULL\<close>. The caller passes
  at least one op.
\<close>

definition allocate_batch_control :: "grpc_call \<Rightarrow> grpc_op list \<Rightarrow> grpc_call \<times> nat option" where
  "allocate_batch_control call ops =
     (let slot = batch_slot_for_op (op (hd ops));
          call1 = (if active_batches call slot = None
                   then call\<lparr>active_batches := (active_batches call)(slot := Some zero_bctl)\<rparr>
                   else call)
      in case active_batches call1 slot of
           None \<Rightarrow> (call1, None)
         | Some bctl \<Rightarrow>
             if bctl_call bctl then (call1, None)
             else (call1\<lparr>active_batches := (active_batches call1)
                           (slot := Some (zero_bctl\<lparr>bctl_call := True\<rparr>))\<rparr>, Some slot))"

definition finish_batch_completion :: "nat \<Rightarrow> grpc_call \<Rightarrow> fault + grpc_call" where
  "finish_batch_completion bctlp call =
     (case active_batches call bctlp of
        None \<Rightarrow> Inl Null_dereference
      | Some bctl \<Rightarrow>
          Inr (call\<lparr>active_batches := (active_batches call)(bctlp := Some (bctl\<lparr>bctl_call := False\<rparr>))\<rparr>))"

text \<open>The result is the error and the batch control with the entries it has given away.\<close>

definition consolidate_batch_errors :: "batch_control \<Rightarrow> fault + (grpc_error \<times> batch_control)" where
  "consolidate_batch_errors bctl =
     (let n = num_errors bctl
      in if n = 0 then Inr (GRPC_ERROR_NONE, bctl)
         else if n = 1
         then Inr (errors bctl 0, bctl\<lparr>errors := (errors bctl)(0 := GRPC_ERROR_NONE)\<rparr>)
         else if MAX_ERRORS_PER_BATCH < n then Inl Index_out_of_bounds
         else Inr (GRPC_ERROR_CREATE_REFERENCING ''Call batch failed'' (map (errors bctl) [0 ..< n]),
                   bctl\<lparr>errors := (\<lambda>i. if i < n then GRPC_ERROR_NONE else errors bctl i)\<rparr>))"

text \<open>The loop of \<open>post_batch_completion\<close> over the children of the call.\<close>

fun cancel_children :: "(nat \<times> bool) list \<Rightarrow> grpc_call \<Rightarrow> grpc_call" where
  "cancel_children [] call = call"
| "cancel_children ((child, inherited) # ring) call =
     cancel_children ring
       (if inherited then call\<lparr>trace := trace call @ [Cancel_child child]\<rparr> else call)"

text \<open>
  The two blocks of \<open>post_batch_completion\<close> under \<open>if (bctl->op.recv_trailing_metadata)\<close>
  that follow the filter: the propagation of the cancellation to the children, and the
  call of \<open>get_final_status\<close> with the output locations of the final op.
\<close>

definition propagate_cancellation :: "grpc_call \<Rightarrow> grpc_call" where
  "propagate_cancellation call =
     (case parent_call_atm call of
        None \<Rightarrow> call
      | Some ring \<Rightarrow> cancel_children ring call)"

definition report_final_status :: "call_env \<Rightarrow> grpc_call \<Rightarrow> fault + grpc_call" where
  "report_final_status env call =
     (case get_final_status env call of (code, details) \<Rightarrow>
        if is_client call
        then (case final_op_client_status call of
                None \<Rightarrow> Inl Null_dereference
              | Some _ \<Rightarrow>
                  Inr (call\<lparr>final_op_client_status := Some (set_status_value_directly code),
                            final_op_client_status_details :=
                              (case (final_op_client_status_details call, details) of
                                 (Some _, Some sl) \<Rightarrow> Some sl
                               | _ \<Rightarrow> final_op_client_status_details call)\<rparr>))
        else (case final_op_server_cancelled call of
                None \<Rightarrow> Inl Null_dereference
              | Some _ \<Rightarrow>
                  Inr (call\<lparr>final_op_server_cancelled := Some (set_cancelled_value code)\<rparr>)))"

text \<open>
  \<open>grpc_metadata_batch_destroy\<close> releases the elements of a batch and leaves the batch as
  it is.
\<close>

definition post_batch_completion :: "call_env \<Rightarrow> nat \<Rightarrow> grpc_call \<Rightarrow> fault + grpc_call" where
  "post_batch_completion env bctlp call0 =
     (case active_batches call0 bctlp of
        None \<Rightarrow> Inl Null_dereference
      | Some bctl0 \<Rightarrow>
          if \<not> bctl_call bctl0 then Inl Null_dereference
          else
            bind (consolidate_batch_errors bctl0) (\<lambda>(err, bctl).
            let call1 = call0\<lparr>active_batches := (active_batches call0)(bctlp := Some bctl)\<rparr>;
                call2 = (if send_message (bctl_op bctl) then call1\<lparr>sending_message := False\<rparr> else call1)
            in
            bind (if recv_trailing_metadata (bctl_op bctl)
                  then
                    bind (recv_trailing_filter env call2 (metadata_batch call2 True True)) (\<lambda>(c, md).
                    bind (report_final_status env
                            (propagate_cancellation
                               (c\<lparr>metadata_batch := (metadata_batch c)
                                      (True := (metadata_batch c True)(True := md)),
                                    received_final_op_atm := 1\<rparr>)))
                      (\<lambda>c3. Inr (c3, GRPC_ERROR_NONE)))
                  else Inr (call2, err))
              (\<lambda>(call5, err1).
                 if is_closure bctl
                 then Inr (call5\<lparr>active_batches := (active_batches call5)
                                    (bctlp := Some (bctl\<lparr>bctl_call := False\<rparr>)),
                                  trace := trace call5 @ [Closure_run (notify_tag bctl) err1]\<rparr>)
                 else Inr (call5\<lparr>trace := trace call5 @
                             [Cq_end_op (notify_tag bctl) err1 (finish_batch_completion_of bctlp)]\<rparr>))))"

text \<open>
  Modelled from the spec: \<open>gpr_unref\<close> (support/sync.c) is not among the sources; the
  step decrements the remaining steps of the batch and posts the completion at zero.
\<close>

definition finish_batch_step :: "call_env \<Rightarrow> nat \<Rightarrow> grpc_call \<Rightarrow> fault + grpc_call" where
  "finish_batch_step env bctlp call =
     (case active_batches call bctlp of
        None \<Rightarrow> Inl Null_dereference
      | Some bctl \<Rightarrow>
          let bctl1 = bctl\<lparr>steps_to_complete := steps_to_complete bctl - 1\<rparr>;
              call1 = call\<lparr>active_batches := (active_batches call)(bctlp := Some bctl1)\<rparr>
          in if steps_to_complete bctl1 = 0 then post_batch_completion env bctlp call1
             else Inr call1)"

text \<open>
  The loop of \<open>continue_receiving_slices\<close>; the third argument is what the receiving stream
  has left to answer.
\<close>

fun continue_receiving_slices_loop ::
  "call_env \<Rightarrow> nat \<Rightarrow> (grpc_error + slice) option list \<Rightarrow> grpc_call \<Rightarrow> fault + grpc_call" where
  "continue_receiving_slices_loop env bctlp ans call =
     (case receiving_stream call of
        None \<Rightarrow> Inl Null_dereference
      | Some rs \<Rightarrow>
          (case receiving_buffer call of
             None \<Rightarrow> Inl Null_dereference
           | Some None \<Rightarrow> Inl Null_dereference
           | Some (Some bb) \<Rightarrow>
               let remaining = (of_nat (stream_length rs) - of_nat (slice_buffer_length bb) :: 64 word)
               in if remaining = 0
                  then finish_batch_step env bctlp
                         (call\<lparr>receiving_message := False, receiving_stream := None\<rparr>)
                  else
                    (case ans of
                       [] \<Rightarrow> Inr call
                     | None # rest \<Rightarrow> Inr (call\<lparr>receiving_stream := Some (rs\<lparr>answers := rest\<rparr>)\<rparr>)
                     | Some (Inr sl) # rest \<Rightarrow>
                         continue_receiving_slices_loop env bctlp rest
                           (call\<lparr>receiving_stream := Some (rs\<lparr>answers := rest\<rparr>),
                                 receiving_buffer :=
                                   Some (Some (bb\<lparr>slice_buffer := slice_buffer bb @ [sl]\<rparr>))\<rparr>)
                     | Some (Inl e) # rest \<Rightarrow>
                         finish_batch_step env bctlp
                           (call\<lparr>receiving_stream := None, receiving_buffer := Some None,
                                 receiving_message := False\<rparr>))))"

definition continue_receiving_slices :: "call_env \<Rightarrow> nat \<Rightarrow> grpc_call \<Rightarrow> fault + grpc_call" where
  "continue_receiving_slices env bctlp call =
     (case active_batches call bctlp of
        None \<Rightarrow> Inl Null_dereference
      | Some bctl \<Rightarrow>
          if \<not> bctl_call bctl then Inl Null_dereference
          else (case receiving_stream call of
                  None \<Rightarrow> Inl Null_dereference
                | Some rs \<Rightarrow> continue_receiving_slices_loop env bctlp (answers rs) call))"

text \<open>
  The closure that the byte stream calls when data has become available; \<open>pulled\<close> is
  what \<open>grpc_byte_stream_pull\<close> returns then.
\<close>

definition receiving_slice_ready ::
  "call_env \<Rightarrow> nat \<Rightarrow> grpc_error \<Rightarrow> grpc_error + slice \<Rightarrow> grpc_call \<Rightarrow> fault + grpc_call" where
  "receiving_slice_ready env bctlp err pulled call =
     (case active_batches call bctlp of
        None \<Rightarrow> Inl Null_dereference
      | Some bctl \<Rightarrow>
          if \<not> bctl_call bctl then Inl Null_dereference
          else
            (case receiving_stream call of
               None \<Rightarrow> Inl Null_dereference
             | Some bs \<Rightarrow>
                 (case (if err = GRPC_ERROR_NONE then pulled else Inl err) of
                    Inr sl \<Rightarrow>
                      (case receiving_buffer call of
                         None \<Rightarrow> Inl Null_dereference
                       | Some None \<Rightarrow> Inl Null_dereference
                       | Some (Some bb) \<Rightarrow>
                           continue_receiving_slices env bctlp
                             (call\<lparr>receiving_buffer :=
                                     Some (Some (bb\<lparr>slice_buffer := slice_buffer bb @ [sl]\<rparr>))\<rparr>))
                  | Inl e \<Rightarrow>
                      (case receiving_buffer call of
                         None \<Rightarrow> Inl Null_dereference
                       | Some _ \<Rightarrow>
                           finish_batch_step env bctlp
                             (call\<lparr>receiving_stream := None, receiving_buffer := Some None,
                                   receiving_message := False\<rparr>)))))"

definition process_data_after_md :: "call_env \<Rightarrow> nat \<Rightarrow> grpc_call \<Rightarrow> fault + grpc_call" where
  "process_data_after_md env bctlp call0 =
     (let call = call0\<lparr>trace := trace call0 @ [Entered ''process_data_after_md'']\<rparr> in
      case active_batches call bctlp of
        None \<Rightarrow> Inl Null_dereference
      | Some bctl \<Rightarrow>
          if \<not> bctl_call bctl then Inl Null_dereference
          else
            (case receiving_buffer call of
               None \<Rightarrow> Inl Null_dereference
             | Some _ \<Rightarrow>
                 (case receiving_stream call of
                    None \<Rightarrow>
                      finish_batch_step env bctlp
                        (call\<lparr>receiving_buffer := Some None, receiving_message := False\<rparr>)
                  | Some rs \<Rightarrow>
                      let call1 = call\<lparr>test_only_last_message_flags := stream_flags rs\<rparr> in
                      bind (if stream_flags rs AND GRPC_WRITE_INTERNAL_COMPRESS env \<noteq> 0 \<and>
                               incoming_message_compression_algorithm call1 > GRPC_MESSAGE_COMPRESS_NONE
                            then
                              (case grpc_compression_algorithm_from_message_stream_compression_algorithm env
                                      (incoming_message_compression_algorithm call1) 0 of
                                 None \<Rightarrow> Inl Assert_failed
                               | Some algo \<Rightarrow>
                                   Inr (call1\<lparr>receiving_buffer :=
                                          Some (Some (grpc_raw_compressed_byte_buffer_create algo))\<rparr>))
                            else Inr (call1\<lparr>receiving_buffer := Some (Some grpc_raw_byte_buffer_create)\<rparr>))
                        (continue_receiving_slices env bctlp))))"

definition add_batch_error ::
  "nat \<Rightarrow> grpc_error \<Rightarrow> bool \<Rightarrow> grpc_call \<Rightarrow> fault + grpc_call" where
  "add_batch_error bctlp err has_cancelled call =
     (if err = GRPC_ERROR_NONE then Inr call
      else
        case active_batches call bctlp of
          None \<Rightarrow> Inl Null_dereference
        | Some bctl \<Rightarrow>
            let idx = num_errors bctl;
                bctl1 = bctl\<lparr>num_errors := idx + 1\<rparr>;
                call1 = call\<lparr>active_batches := (active_batches call)(bctlp := Some bctl1)\<rparr>
            in
            bind (if idx = 0 \<and> \<not> has_cancelled
                  then (if bctl_call bctl1 then Inr (cancel_with_error call1 STATUS_FROM_CORE err)
                        else Inl Null_dereference)
                  else Inr call1)
              (\<lambda>call2.
                 if idx < MAX_ERRORS_PER_BATCH
                 then Inr (call2\<lparr>active_batches := (active_batches call2)
                             (bctlp := Some (bctl1\<lparr>errors := (errors bctl1)(idx := err)\<rparr>))\<rparr>)
                 else Inl Index_out_of_bounds))"

definition receiving_stream_ready ::
  "call_env \<Rightarrow> nat \<Rightarrow> grpc_error \<Rightarrow> grpc_call \<Rightarrow> fault + grpc_call" where
  "receiving_stream_ready env bctlp err call =
     (case active_batches call bctlp of
        None \<Rightarrow> Inl Null_dereference
      | Some bctl \<Rightarrow>
          if \<not> bctl_call bctl then Inl Null_dereference
          else
            bind (if err \<noteq> GRPC_ERROR_NONE
                  then
                    bind (add_batch_error bctlp err True (call\<lparr>receiving_stream := None\<rparr>))
                      (\<lambda>c. Inr (cancel_with_error c STATUS_FROM_SURFACE err))
                  else Inr call)
              (\<lambda>call1.
                 if err \<noteq> GRPC_ERROR_NONE \<or> receiving_stream call1 = None
                 then process_data_after_md env bctlp call1
                 else if recv_state call1 = RECV_NONE
                 then Inr (call1\<lparr>recv_state := Recv_bctl bctlp\<rparr>)
                 else process_data_after_md env bctlp call1))"

definition receiving_stream_ready_in_call_combiner ::
  "call_env \<Rightarrow> nat \<Rightarrow> grpc_error \<Rightarrow> grpc_call \<Rightarrow> fault + grpc_call" where
  "receiving_stream_ready_in_call_combiner env bctlp err call =
     (case active_batches call bctlp of
        None \<Rightarrow> Inl Null_dereference
      | Some bctl \<Rightarrow>
          if \<not> bctl_call bctl then Inl Null_dereference
          else receiving_stream_ready env bctlp err
                 (call\<lparr>trace := trace call @ [Call_combiner_stop ''recv_message_ready'']\<rparr>))"

text \<open>\<open>%d\<close> of a number that is not negative.\<close>

fun decimal :: "nat \<Rightarrow> string" where
  "decimal n =
     (if n < 10 then [char_of (48 + n)] else decimal (n div 10) @ [char_of (48 + n mod 10)])"

definition validate_filtered_metadata :: "call_env \<Rightarrow> nat \<Rightarrow> grpc_call \<Rightarrow> fault + grpc_call" where
  "validate_filtered_metadata env bctlp call0 =
     (let call = call0\<lparr>trace := trace call0 @ [Entered ''validate_filtered_metadata'']\<rparr> in
      case active_batches call bctlp of
        None \<Rightarrow> Inl Null_dereference
      | Some bctl \<Rightarrow>
          if \<not> bctl_call bctl then Inl Null_dereference
          else if incoming_stream_compression_algorithm call \<noteq> GRPC_STREAM_COMPRESS_NONE \<and>
                  incoming_message_compression_algorithm call \<noteq> GRPC_MESSAGE_COMPRESS_NONE
          then Inr (cancel_with_status call STATUS_FROM_SURFACE GRPC_STATUS_INTERNAL
                      (''Incoming stream has both stream compression ('' @
                       decimal (incoming_stream_compression_algorithm call) @
                       '') and message compression ('' @
                       decimal (incoming_message_compression_algorithm call) @ '').''))
          else
            (case grpc_compression_algorithm_from_message_stream_compression_algorithm env
                    (incoming_message_compression_algorithm call)
                    (incoming_stream_compression_algorithm call) of
               None \<Rightarrow>
                 Inr (cancel_with_status call STATUS_FROM_SURFACE GRPC_STATUS_INTERNAL
                        (''Error in incoming message compression ('' @
                         decimal (incoming_stream_compression_algorithm call) @
                         '') or stream compression ('' @
                         decimal (incoming_message_compression_algorithm call) @ '').''))
             | Some compression_algorithm \<Rightarrow>
                 let call1 =
                       (if compression_algorithm \<ge> GRPC_COMPRESS_ALGORITHMS_COUNT env
                        then cancel_with_status call STATUS_FROM_SURFACE GRPC_STATUS_UNIMPLEMENTED
                               (''Invalid compression algorithm value '' @ [CHR 0x27] @
                                decimal compression_algorithm @ [CHR 0x27] @ ''.'')
                        else if \<not> grpc_compression_options_is_algorithm_enabled env compression_algorithm
                        then cancel_with_status call STATUS_FROM_SURFACE GRPC_STATUS_UNIMPLEMENTED
                               (''Compression algorithm '' @ [CHR 0x27] @
                                grpc_compression_algorithm_name env compression_algorithm @
                                [CHR 0x27] @ '' is disabled.'')
                        else call)
                 in GPR_ASSERT (encodings_accepted_by_peer call1 \<noteq> 0) call1))"

definition receiving_initial_metadata_ready ::
  "call_env \<Rightarrow> nat \<Rightarrow> grpc_error \<Rightarrow> grpc_call \<Rightarrow> fault + grpc_call" where
  "receiving_initial_metadata_ready env bctlp err call0 =
     (case active_batches call0 bctlp of
        None \<Rightarrow> Inl Null_dereference
      | Some bctl \<Rightarrow>
          if \<not> bctl_call bctl then Inl Null_dereference
          else
            bind (add_batch_error bctlp err False
                    (call0\<lparr>trace := trace call0 @ [Call_combiner_stop ''recv_initial_metadata_ready'']\<rparr>))
              (\<lambda>call1.
            bind (if err = GRPC_ERROR_NONE
                  then
                    bind (recv_initial_filter env call1 (metadata_batch call1 True False)) (\<lambda>(c, md).
                    bind (validate_filtered_metadata env bctlp
                            (c\<lparr>metadata_batch := (metadata_batch c)
                                  (True := (metadata_batch c True)(False := md))\<rparr>))
                      (\<lambda>c1. Inr (if deadline md \<noteq> Inf_future \<and> \<not> is_client c1
                                  then c1\<lparr>send_deadline := deadline md\<rparr> else c1)))
                  else Inr call1)
              (\<lambda>call2.
            bind (case recv_state call2 of
                    RECV_INITIAL_METADATA_FIRST \<Rightarrow> Inl Assert_failed
                  | RECV_NONE \<Rightarrow> Inr (call2\<lparr>recv_state := RECV_INITIAL_METADATA_FIRST\<rparr>)
                  | Recv_bctl rsr_bctlp \<Rightarrow> receiving_stream_ready env rsr_bctlp err call2)
              (finish_batch_step env bctlp))))"

definition finish_batch :: "call_env \<Rightarrow> nat \<Rightarrow> grpc_error \<Rightarrow> grpc_call \<Rightarrow> fault + grpc_call" where
  "finish_batch env bctlp err call =
     (case active_batches call bctlp of
        None \<Rightarrow> Inl Null_dereference
      | Some bctl \<Rightarrow>
          if \<not> bctl_call bctl then Inl Null_dereference
          else
            bind (add_batch_error bctlp err False
                    (call\<lparr>trace := trace call @ [Call_combiner_stop ''on_complete'']\<rparr>))
              (finish_batch_step env bctlp))"

subsection \<open>Starting a batch\<close>

text \<open>
  The cases of the switch in \<open>call_start_batch\<close>, one function each. They work on the
  call, on \<open>bctl->op\<close> and on \<open>num_completion_callbacks_needed\<close>. The result is the error
  with which the case jumps to \<open>done_with_error\<close>, or \<open>GRPC_CALL_OK\<close> when it breaks
  out of the switch, and the three as the case leaves them.
\<close>

type_synonym batch_state = "grpc_call_error \<times> grpc_call \<times> grpc_transport_stream_op_batch \<times> int"

text \<open>The key of the metadata element that requests an encoding (transport/static_metadata.h).\<close>

definition GRPC_MDSTR_GRPC_INTERNAL_ENCODING_REQUEST :: slice where
  "GRPC_MDSTR_GRPC_INTERNAL_ENCODING_REQUEST = ''grpc-internal-encoding-request''"

definition GRPC_MDSTR_GRPC_MESSAGE :: slice where
  "GRPC_MDSTR_GRPC_MESSAGE = ''grpc-message''"

text \<open>
  The block ``process compression level'' of the case SEND_INITIAL_METADATA: the call
  with its \<open>compression_md\<close>, and \<open>additional_metadata_count\<close>. \<open>level_set\<close> and
  \<open>effective_compression_level\<close> are one option: \<open>Some\<close> of the level when it is set.
\<close>

definition process_compression_level :: "call_env \<Rightarrow> grpc_op \<Rightarrow> grpc_call \<Rightarrow> grpc_call \<times> nat" where
  "process_compression_level env p call =
     (let call1 = call\<lparr>compression_md := ([], [])\<rparr>;
          effective_compression_level =
            (case maybe_compression_level (data p) of
               Some l \<Rightarrow> Some l
             | None \<Rightarrow> default_level env)
      in case effective_compression_level of
           None \<Rightarrow> (call1, 0)
         | Some l \<Rightarrow>
             if \<not> is_client call1
             then (call1\<lparr>compression_md :=
                           (GRPC_MDSTR_GRPC_INTERNAL_ENCODING_REQUEST,
                            grpc_compression_algorithm_slice env
                              (compression_algorithm_for_level_locked env call1 l))\<rparr>, 1)
             else (call1, 0))"

definition op_send_initial_metadata ::
  "call_env \<Rightarrow> grpc_op \<Rightarrow> grpc_call \<Rightarrow> grpc_transport_stream_op_batch \<Rightarrow> int \<Rightarrow> batch_state" where
  "op_send_initial_metadata env p call stream_op n =
     (if \<not> are_initial_metadata_flags_valid env (flags p) (is_client call)
      then (GRPC_CALL_ERROR_INVALID_FLAGS, call, stream_op, n)
      else if sent_initial_metadata call
      then (GRPC_CALL_ERROR_TOO_MANY_OPERATIONS, call, stream_op, n)
      else
        let call2 = fst (process_compression_level env p call);
            additional_metadata_count = snd (process_compression_level env p call)
        in if length (send_initial_metadata_metadata (data p)) + additional_metadata_count > INT_MAX
           then (GRPC_CALL_ERROR_INVALID_METADATA, call2, stream_op, n)
           else
             let stream_op1 = stream_op\<lparr>send_initial_metadata := True\<rparr>;
                 call3 = call2\<lparr>sent_initial_metadata := True\<rparr>;
                 prepared = prepare_application_metadata env call3
                              (send_initial_metadata_metadata (data p)) False (is_client call3)
                              (replicate additional_metadata_count (compression_md call3));
                 call4 = snd prepared
             in if \<not> fst prepared then (GRPC_CALL_ERROR_INVALID_METADATA, call4, stream_op1, n)
                else
                  let call5 =
                        (if is_client call4
                         then call4\<lparr>metadata_batch := (metadata_batch call4)
                                (False := (metadata_batch call4 False)
                                   (False := (metadata_batch call4 False False)
                                      \<lparr>deadline := send_deadline call4\<rparr>))\<rparr>
                         else call4)
                  in (GRPC_CALL_OK, call5\<lparr>send_initial_metadata_flags := flags p\<rparr>, stream_op1, n))"

text \<open>
  \<open>grpc_slice_buffer_stream_init\<close> (transport/byte_stream.c, not among the sources) makes
  a stream of the slices of the buffer; the length of a stream is a \<open>uint32_t\<close>.
\<close>

definition grpc_slice_buffer_stream_init :: "grpc_byte_buffer \<Rightarrow> 32 word \<Rightarrow> grpc_byte_stream" where
  "grpc_slice_buffer_stream_init bb fl =
     \<lparr>stream_length = slice_buffer_length bb mod 2 ^ 32, stream_flags = fl,
      answers = map (\<lambda>sl. Some (Inr sl)) (slice_buffer bb)\<rparr>"

definition op_send_message ::
  "call_env \<Rightarrow> grpc_op \<Rightarrow> grpc_call \<Rightarrow> grpc_transport_stream_op_batch \<Rightarrow> int \<Rightarrow> batch_state" where
  "op_send_message env p call stream_op n =
     (if \<not> are_write_flags_valid env (flags p)
      then (GRPC_CALL_ERROR_INVALID_FLAGS, call, stream_op, n)
      else
        case send_message_send_message (data p) of
          None \<Rightarrow> (GRPC_CALL_ERROR_INVALID_MESSAGE, call, stream_op, n)
        | Some bb \<Rightarrow>
            if sending_message call
            then (GRPC_CALL_ERROR_TOO_MANY_OPERATIONS, call, stream_op, n)
            else
              let st = grpc_slice_buffer_stream_init bb (flags p);
                  st1 = (if compression bb > GRPC_COMPRESS_NONE
                         then st\<lparr>stream_flags := stream_flags st OR GRPC_WRITE_INTERNAL_COMPRESS env\<rparr>
                         else st)
              in (GRPC_CALL_OK, call\<lparr>sending_message := True, sending_stream := Some st1\<rparr>,
                  stream_op\<lparr>send_message := True\<rparr>, n))"

definition op_send_close_from_client ::
  "grpc_op \<Rightarrow> grpc_call \<Rightarrow> grpc_transport_stream_op_batch \<Rightarrow> int \<Rightarrow> batch_state" where
  "op_send_close_from_client p call stream_op n =
     (if flags p \<noteq> 0 then (GRPC_CALL_ERROR_INVALID_FLAGS, call, stream_op, n)
      else if \<not> is_client call then (GRPC_CALL_ERROR_NOT_ON_SERVER, call, stream_op, n)
      else if sent_final_op call then (GRPC_CALL_ERROR_TOO_MANY_OPERATIONS, call, stream_op, n)
      else (GRPC_CALL_OK, call\<lparr>sent_final_op := True\<rparr>,
            stream_op\<lparr>send_trailing_metadata := True\<rparr>, n))"

text \<open>
  The status details go through a C string (\<open>grpc_slice_to_c_string\<close>, then
  \<open>grpc_slice_from_copied_string\<close>), which ends at the first zero byte.
\<close>

definition op_send_status_from_server ::
  "call_env \<Rightarrow> grpc_op \<Rightarrow> grpc_call \<Rightarrow> grpc_transport_stream_op_batch \<Rightarrow> int \<Rightarrow> fault + batch_state" where
  "op_send_status_from_server env p call stream_op n =
     (if flags p \<noteq> 0 then Inr (GRPC_CALL_ERROR_INVALID_FLAGS, call, stream_op, n)
      else if is_client call then Inr (GRPC_CALL_ERROR_NOT_ON_CLIENT, call, stream_op, n)
      else if sent_final_op call then Inr (GRPC_CALL_ERROR_TOO_MANY_OPERATIONS, call, stream_op, n)
      else if length (trailing_metadata (data p)) > INT_MAX
      then Inr (GRPC_CALL_ERROR_INVALID_METADATA, call, stream_op, n)
      else
        let stream_op1 = stream_op\<lparr>send_trailing_metadata := True\<rparr>;
            call1 = call\<lparr>sent_final_op := True\<rparr>
        in
        bind (GPR_ASSERT (send_extra_metadata_count call1 = 0) call1) (\<lambda>call2.
        let call3 = call2\<lparr>send_extra_metadata_count := 1,
                          send_extra_metadata := (send_extra_metadata call2)
                            (0 := grpc_channel_get_reffed_status_elem env (send_status (data p)))\<rparr>;
            override_error = (if send_status (data p) \<noteq> GRPC_STATUS_OK
                              then GRPC_ERROR_CREATE ''Error from server send status''
                              else GRPC_ERROR_NONE);
            call4 =
              (case send_status_details (data p) of
                 None \<Rightarrow> call3
               | Some details \<Rightarrow>
                   call3\<lparr>send_extra_metadata := (send_extra_metadata call3)
                            (1 := \<lparr>GRPC_MDKEY = GRPC_MDSTR_GRPC_MESSAGE, GRPC_MDVALUE = details,
                                   user_data = None\<rparr>),
                          send_extra_metadata_count := send_extra_metadata_count call3 + 1\<rparr>);
            override_error1 =
              (case send_status_details (data p) of
                 None \<Rightarrow> override_error
               | Some details \<Rightarrow>
                   grpc_error_set_str override_error GRPC_ERROR_STR_GRPC_MESSAGE
                     (takeWhile (\<lambda>ch. ch \<noteq> CHR 0x00) details));
            call5 = set_status_from_error call4 STATUS_FROM_API_OVERRIDE override_error1;
            prepared = prepare_application_metadata env call5 (trailing_metadata (data p))
                         True True [];
            call6 = snd prepared
        in if \<not> fst prepared
           then Inr (GRPC_CALL_ERROR_INVALID_METADATA, call6\<lparr>send_extra_metadata_count := 0\<rparr>,
                     stream_op1, n)
           else Inr (GRPC_CALL_OK, call6, stream_op1, n)))"

definition op_recv_initial_metadata ::
  "grpc_op \<Rightarrow> grpc_call \<Rightarrow> grpc_transport_stream_op_batch \<Rightarrow> int \<Rightarrow> batch_state" where
  "op_recv_initial_metadata p call stream_op n =
     (if flags p \<noteq> 0 then (GRPC_CALL_ERROR_INVALID_FLAGS, call, stream_op, n)
      else if received_initial_metadata call
      then (GRPC_CALL_ERROR_TOO_MANY_OPERATIONS, call, stream_op, n)
      else (GRPC_CALL_OK,
            call\<lparr>received_initial_metadata := True,
                 buffered_metadata := (buffered_metadata call)
                   (False := recv_initial_metadata_recv_initial_metadata (data p))\<rparr>,
            stream_op\<lparr>recv_initial_metadata := True\<rparr>, n + 1))"

definition op_recv_message ::
  "grpc_op \<Rightarrow> grpc_call \<Rightarrow> grpc_transport_stream_op_batch \<Rightarrow> int \<Rightarrow> batch_state" where
  "op_recv_message p call stream_op n =
     (if flags p \<noteq> 0 then (GRPC_CALL_ERROR_INVALID_FLAGS, call, stream_op, n)
      else if receiving_message call
      then (GRPC_CALL_ERROR_TOO_MANY_OPERATIONS, call, stream_op, n)
      else (GRPC_CALL_OK,
            call\<lparr>receiving_message := True,
                 receiving_buffer := recv_message_recv_message (data p)\<rparr>,
            stream_op\<lparr>recv_message := True\<rparr>, n + 1))"

definition op_recv_status_on_client ::
  "grpc_op \<Rightarrow> grpc_call \<Rightarrow> grpc_transport_stream_op_batch \<Rightarrow> int \<Rightarrow> batch_state" where
  "op_recv_status_on_client p call stream_op n =
     (if flags p \<noteq> 0 then (GRPC_CALL_ERROR_INVALID_FLAGS, call, stream_op, n)
      else if \<not> is_client call then (GRPC_CALL_ERROR_NOT_ON_SERVER, call, stream_op, n)
      else if requested_final_op call
      then (GRPC_CALL_ERROR_TOO_MANY_OPERATIONS, call, stream_op, n)
      else (GRPC_CALL_OK,
            call\<lparr>requested_final_op := True,
                 buffered_metadata := (buffered_metadata call)
                   (True := recv_status_trailing_metadata (data p)),
                 final_op_client_status := recv_status_status (data p),
                 final_op_client_status_details := recv_status_status_details (data p)\<rparr>,
            stream_op\<lparr>recv_trailing_metadata := True, collect_stats := True\<rparr>, n))"

definition op_recv_close_on_server ::
  "grpc_op \<Rightarrow> grpc_call \<Rightarrow> grpc_transport_stream_op_batch \<Rightarrow> int \<Rightarrow> batch_state" where
  "op_recv_close_on_server p call stream_op n =
     (if flags p \<noteq> 0 then (GRPC_CALL_ERROR_INVALID_FLAGS, call, stream_op, n)
      else if is_client call then (GRPC_CALL_ERROR_NOT_ON_CLIENT, call, stream_op, n)
      else if requested_final_op call
      then (GRPC_CALL_ERROR_TOO_MANY_OPERATIONS, call, stream_op, n)
      else (GRPC_CALL_OK,
            call\<lparr>requested_final_op := True,
                 final_op_server_cancelled := recv_close_cancelled (data p)\<rparr>,
            stream_op\<lparr>recv_trailing_metadata := True, collect_stats := True\<rparr>, n))"

text \<open>The body of the loop over the ops.\<close>

definition start_batch_op ::
  "call_env \<Rightarrow> grpc_op \<Rightarrow> grpc_call \<Rightarrow> grpc_transport_stream_op_batch \<Rightarrow> int \<Rightarrow> fault + batch_state" where
  "start_batch_op env p call stream_op n =
     (if reserved p then Inr (GRPC_CALL_ERROR, call, stream_op, n)
      else
        case op p of
          GRPC_OP_SEND_INITIAL_METADATA \<Rightarrow> Inr (op_send_initial_metadata env p call stream_op n)
        | GRPC_OP_SEND_MESSAGE \<Rightarrow> Inr (op_send_message env p call stream_op n)
        | GRPC_OP_SEND_CLOSE_FROM_CLIENT \<Rightarrow> Inr (op_send_close_from_client p call stream_op n)
        | GRPC_OP_SEND_STATUS_FROM_SERVER \<Rightarrow> op_send_status_from_server env p call stream_op n
        | GRPC_OP_RECV_INITIAL_METADATA \<Rightarrow> Inr (op_recv_initial_metadata p call stream_op n)
        | GRPC_OP_RECV_MESSAGE \<Rightarrow> Inr (op_recv_message p call stream_op n)
        | GRPC_OP_RECV_STATUS_ON_CLIENT \<Rightarrow> Inr (op_recv_status_on_client p call stream_op n)
        | GRPC_OP_RECV_CLOSE_ON_SERVER \<Rightarrow> Inr (op_recv_close_on_server p call stream_op n))"

text \<open>The loop over the ops: it stops at the first op that jumps to \<open>done_with_error\<close>.\<close>

fun start_batch_ops ::
  "call_env \<Rightarrow> grpc_op list \<Rightarrow> grpc_call \<Rightarrow> grpc_transport_stream_op_batch \<Rightarrow> int \<Rightarrow> fault + batch_state" where
  "start_batch_ops env [] call stream_op n = Inr (GRPC_CALL_OK, call, stream_op, n)"
| "start_batch_ops env (p # ps) call stream_op n =
     bind (start_batch_op env p call stream_op n) (\<lambda>(e, call1, stream_op1, n1).
       if e \<noteq> GRPC_CALL_OK then Inr (e, call1, stream_op1, n1)
       else start_batch_ops env ps call1 stream_op1 n1)"

text \<open>The code at the label \<open>done_with_error\<close>.\<close>

definition done_with_error :: "grpc_call \<Rightarrow> grpc_transport_stream_op_batch \<Rightarrow> grpc_call" where
  "done_with_error call stream_op =
     (let c1 = (if send_initial_metadata stream_op
                then call\<lparr>sent_initial_metadata := False,
                          metadata_batch := (metadata_batch call)
                            (False := (metadata_batch call False)
                               (False := grpc_metadata_batch_clear (metadata_batch call False False)))\<rparr>
                else call);
          c2 = (if send_message stream_op
                then c1\<lparr>sending_message := False, sending_stream := None\<rparr> else c1);
          c3 = (if send_trailing_metadata stream_op
                then c2\<lparr>sent_final_op := False,
                        metadata_batch := (metadata_batch c2)
                          (False := (metadata_batch c2 False)
                             (True := grpc_metadata_batch_clear (metadata_batch c2 False True)))\<rparr>
                else c2);
          c4 = (if recv_initial_metadata stream_op
                then c3\<lparr>received_initial_metadata := False\<rparr> else c3);
          c5 = (if recv_message stream_op then c4\<lparr>receiving_message := False\<rparr> else c4)
      in if recv_trailing_metadata stream_op then c5\<lparr>requested_final_op := False\<rparr> else c5)"

text \<open>
  During the loop \<open>bctl->op\<close> is held beside the call; it is stored into the batch control
  of the slot when the loop is left, on both ways out.
\<close>

definition call_start_batch ::
  "call_env \<Rightarrow> grpc_call \<Rightarrow> grpc_op list \<Rightarrow> nat \<Rightarrow> bool \<Rightarrow> fault + (grpc_call_error \<times> grpc_call)" where
  "call_start_batch env call ops tag is_notify_tag_closure =
     (if ops = []
      then
        (if \<not> is_notify_tag_closure
         then (case cq call of
                 None \<Rightarrow> Inl Null_dereference
               | Some _ \<Rightarrow>
                   bind (GPR_ASSERT (grpc_cq_begin_op env tag)
                           (call\<lparr>trace := trace call @
                              [Cq_begin_op tag, Cq_end_op tag GRPC_ERROR_NONE free_no_op_completion]\<rparr>))
                     (\<lambda>c. Inr (GRPC_CALL_OK, c)))
         else Inr (GRPC_CALL_OK, call\<lparr>trace := trace call @ [Closure_sched tag GRPC_ERROR_NONE]\<rparr>))
      else
        case allocate_batch_control call ops of
          (call1, None) \<Rightarrow> Inr (GRPC_CALL_ERROR_TOO_MANY_OPERATIONS, call1)
        | (call1, Some bctlp) \<Rightarrow>
            let bctl = (zero_bctl\<lparr>bctl_call := True, notify_tag := tag,
                                  is_closure := is_notify_tag_closure\<rparr>)
            in
            bind (start_batch_ops env ops call1 zero_op 1) (\<lambda>(e, call2, stream_op, n).
              if e \<noteq> GRPC_CALL_OK
              then Inr (e, done_with_error
                            (call2\<lparr>active_batches := (active_batches call2)
                                      (bctlp := Some (bctl\<lparr>bctl_op := stream_op\<rparr>))\<rparr>) stream_op)
              else
                bind (if \<not> is_notify_tag_closure
                      then (case cq call2 of
                              None \<Rightarrow> Inl Null_dereference
                            | Some _ \<Rightarrow>
                                GPR_ASSERT (grpc_cq_begin_op env tag)
                                  (call2\<lparr>trace := trace call2 @ [Cq_begin_op tag]\<rparr>))
                      else Inr call2)
                  (\<lambda>call3.
                     Inr (GRPC_CALL_OK,
                          execute_batch
                            (call3\<lparr>active_batches := (active_batches call3)
                                      (bctlp := Some (bctl\<lparr>bctl_op := stream_op,
                                                          steps_to_complete := n\<rparr>)),
                                    any_ops_sent_atm := 1\<rparr>)
                            (Bctl bctlp) stream_op))))"

definition grpc_call_start_batch ::
  "call_env \<Rightarrow> grpc_call \<Rightarrow> grpc_op list \<Rightarrow> nat \<Rightarrow> bool \<Rightarrow> fault + (grpc_call_error \<times> grpc_call)" where
  "grpc_call_start_batch env call ops tag reserved_arg =
     (if reserved_arg then Inr (GRPC_CALL_ERROR, call)
      else call_start_batch env call ops tag False)"

definition grpc_call_start_batch_and_execute ::
  "call_env \<Rightarrow> grpc_call \<Rightarrow> grpc_op list \<Rightarrow> nat \<Rightarrow> fault + (grpc_call_error \<times> grpc_call)" where
  "grpc_call_start_batch_and_execute env call ops closure =
     call_start_batch env call ops closure True"

definition grpc_call_cancel :: "grpc_call \<Rightarrow> bool \<Rightarrow> fault + (grpc_call_error \<times> grpc_call)" where
  "grpc_call_cancel call reserved_arg =
     bind (GPR_ASSERT (\<not> reserved_arg) call)
       (\<lambda>c. Inr (GRPC_CALL_OK, cancel_with_error c STATUS_FROM_API_OVERRIDE GRPC_ERROR_CANCELLED))"

definition grpc_call_cancel_with_status ::
  "grpc_call \<Rightarrow> grpc_status_code \<Rightarrow> string \<Rightarrow> bool \<Rightarrow> fault + (grpc_call_error \<times> grpc_call)" where
  "grpc_call_cancel_with_status c st description reserved_arg =
     bind (GPR_ASSERT (\<not> reserved_arg) c)
       (\<lambda>c1. Inr (GRPC_CALL_OK, cancel_with_status c1 STATUS_FROM_API_OVERRIDE st description))"

subsection \<open>Call creation\<close>

text \<open>
  The arguments of \<open>grpc_call_create\<close>. \<open>server_transport_data\<close> says whether the pointer
  is set; \<open>parent_call\<close> is the parent with its address; the array of additional
  initial metadata and its count are a list.
\<close>

record grpc_call_create_args =
  args_cq :: "nat option"
  pollset_set_alternative :: "nat option"
  server_transport_data :: bool
  add_initial_metadata :: "grpc_mdelem list"
  args_send_deadline :: gpr_timespec
  propagation_mask :: "32 word"
  parent_call :: "(nat \<times> grpc_call) option"

text \<open>The call as the zeroed arena holds it.\<close>

definition zero_call :: grpc_call where
  "zero_call =
     \<lparr>cq = None, pollent = Pollent_empty, parent_call_atm = None, child_call = None,
      is_client = False, cancellation_is_inherited = False,
      sent_initial_metadata = False, sending_message = False, sent_final_op = False,
      received_initial_metadata = False, receiving_message = False, requested_final_op = False,
      any_ops_sent_atm = 0, received_final_op_atm = 0,
      active_batches = (\<lambda>_. None), send_initial_metadata_flags = 0,
      metadata_batch = (\<lambda>_ _. \<lparr>mdlist = [], deadline = Time 0\<rparr>),
      buffered_metadata = (\<lambda>_. None), compression_md = ([], []),
      status = (\<lambda>_. None),
      incoming_message_compression_algorithm = 0, incoming_stream_compression_algorithm = 0,
      encodings_accepted_by_peer = 0, context_TRACING = 0,
      send_extra_metadata = (\<lambda>_. \<lparr>GRPC_MDKEY = [], GRPC_MDVALUE = [], user_data = None\<rparr>),
      send_extra_metadata_count = 0, send_deadline = Time 0,
      sending_stream = None, receiving_stream = None, receiving_buffer = None,
      test_only_last_message_flags = 0,
      final_op_client_status = None, final_op_client_status_details = None,
      final_op_server_cancelled = None,
      recv_state = RECV_NONE, trace = []\<rparr>"

fun gpr_time_min :: "gpr_timespec \<Rightarrow> gpr_timespec \<Rightarrow> gpr_timespec" where
  "gpr_time_min (Time a) (Time b) = Time (min a b)"
| "gpr_time_min (Time a) Inf_future = Time a"
| "gpr_time_min Inf_future b = b"

text \<open>The loop that stores the additional initial metadata of a client call.\<close>

fun store_extra_metadata :: "grpc_mdelem list \<Rightarrow> nat \<Rightarrow> grpc_call \<Rightarrow> grpc_call" where
  "store_extra_metadata [] i call = call"
| "store_extra_metadata (md # mds) i call =
     store_extra_metadata mds (i + 1)
       (call\<lparr>send_extra_metadata := (send_extra_metadata call)(i := md)\<rparr>)"

text \<open>
  The part of \<open>grpc_call_create\<close> under \<open>if (args->parent_call != NULL)\<close>. The result is
  the call, the parent, the init error so far, the send deadline and
  \<open>immediately_cancel\<close>. \<open>self\<close> is the address of the new call.
\<close>

definition attach_to_parent ::
  "call_env \<Rightarrow> grpc_call_create_args \<Rightarrow> nat \<Rightarrow> nat \<Rightarrow> grpc_call \<Rightarrow> grpc_call \<Rightarrow> gpr_timespec \<Rightarrow>
   fault + (grpc_call \<times> grpc_call \<times> grpc_error \<times> gpr_timespec \<times> bool)" where
  "attach_to_parent env args self parent_addr parent call0 send_deadline0 =
     (let call = call0\<lparr>child_call := Some parent_addr\<rparr> in
      bind (GPR_ASSERT (is_client call) ()) (\<lambda>_.
      bind (GPR_ASSERT (\<not> is_client parent) ()) (\<lambda>_.
      let ring = (case parent_call_atm parent of None \<Rightarrow> [] | Some r \<Rightarrow> r);
          send_deadline1 =
            (if propagation_mask args AND GRPC_PROPAGATE_DEADLINE env \<noteq> 0
             then gpr_time_min send_deadline0 (send_deadline parent) else send_deadline0);
          (err, call1) =
            (if propagation_mask args AND GRPC_PROPAGATE_CENSUS_TRACING_CONTEXT env \<noteq> 0
             then
               (if propagation_mask args AND GRPC_PROPAGATE_CENSUS_STATS_CONTEXT env = 0
                then add_init_error GRPC_ERROR_NONE
                       (GRPC_ERROR_CREATE
                          ''Census tracing propagation requested without Census context propagation'')
                else GRPC_ERROR_NONE,
                call\<lparr>context_TRACING := context_TRACING parent\<rparr>)
             else if propagation_mask args AND GRPC_PROPAGATE_CENSUS_STATS_CONTEXT env \<noteq> 0
             then (add_init_error GRPC_ERROR_NONE
                     (GRPC_ERROR_CREATE
                        ''Census context propagation requested without Census tracing propagation''),
                   call)
             else (GRPC_ERROR_NONE, call));
          (call2, immediately_cancel) =
            (if propagation_mask args AND GRPC_PROPAGATE_CANCELLATION env \<noteq> 0
             then (call1\<lparr>cancellation_is_inherited := True\<rparr>, received_final_op_atm parent \<noteq> 0)
             else (call1, False));
          parent1 = parent\<lparr>parent_call_atm :=
                      Some (ring @ [(self, cancellation_is_inherited call2)])\<rparr>
      in Inr (call2, parent1, err, send_deadline1, immediately_cancel))))"

text \<open>
  \<open>grpc_call_create\<close> in three parts: up to the attachment to the parent (the call in
  the arena, the side of the call, the additional initial metadata, the deadlines of the
  metadata batches), the attachment (above), and the rest. \<open>stack_init\<close> is the error
  that \<open>grpc_call_stack_init\<close> returns. The result is the returned error, the call
  stored in \<open>*out_call\<close>, and the parent.
\<close>

definition create_before_parent :: "grpc_call_create_args \<Rightarrow> fault + grpc_call" where
  "create_before_parent args =
     (let call0 = zero_call\<lparr>cq := args_cq args,
                    encodings_accepted_by_peer := GPR_BITSET 0 (of_nat GRPC_MESSAGE_COMPRESS_NONE),
                    is_client := \<not> server_transport_data args\<rparr>
      in
      bind (if is_client call0
            then GPR_ASSERT (length (add_initial_metadata args) < 3)
                   ((store_extra_metadata (add_initial_metadata args) 0 call0)
                      \<lparr>send_extra_metadata_count := int (length (add_initial_metadata args))\<rparr>)
            else GPR_ASSERT (length (add_initial_metadata args) = 0)
                   (call0\<lparr>send_extra_metadata_count := 0\<rparr>))
        (\<lambda>call1.
           Inr (call1\<lparr>metadata_batch :=
                  (\<lambda>i j. (metadata_batch call1 i j)\<lparr>deadline := Inf_future\<rparr>)\<rparr>)))"

definition create_after_parent ::
  "grpc_call_create_args \<Rightarrow> grpc_error \<Rightarrow> grpc_call \<Rightarrow> grpc_error \<Rightarrow> gpr_timespec \<Rightarrow> bool \<Rightarrow>
   fault + (grpc_error \<times> grpc_call)" where
  "create_after_parent args stack_init call3 err0 dl immediately_cancel =
     (let call4 = call3\<lparr>send_deadline := dl\<rparr>;
          err = add_init_error err0 stack_init;
          call5 = (if err \<noteq> GRPC_ERROR_NONE
                   then cancel_with_error call4 STATUS_FROM_SURFACE err else call4);
          call6 = (if immediately_cancel
                   then cancel_with_error call5 STATUS_FROM_API_OVERRIDE GRPC_ERROR_CANCELLED
                   else call5)
      in
      bind (case args_cq args of
              None \<Rightarrow> Inr call6
            | Some q \<Rightarrow>
                GPR_ASSERT (pollset_set_alternative args = None) (call6\<lparr>pollent := Pollent_pollset q\<rparr>))
        (\<lambda>call7.
           Inr (err, case pollset_set_alternative args of
                       None \<Rightarrow> call7
                     | Some ps \<Rightarrow> call7\<lparr>pollent := Pollent_pollset_set ps\<rparr>)))"

definition grpc_call_create ::
  "call_env \<Rightarrow> grpc_call_create_args \<Rightarrow> nat \<Rightarrow> grpc_error \<Rightarrow>
   fault + (grpc_error \<times> grpc_call \<times> (nat \<times> grpc_call) option)" where
  "grpc_call_create env args self stack_init =
     bind (create_before_parent args) (\<lambda>call2.
       case parent_call args of
         None \<Rightarrow>
           bind (create_after_parent args stack_init call2 GRPC_ERROR_NONE
                   (args_send_deadline args) False)
             (\<lambda>(err, call). Inr (err, call, None))
       | Some (parent_addr, parent) \<Rightarrow>
           bind (attach_to_parent env args self parent_addr parent call2 (args_send_deadline args))
             (\<lambda>(call3, parent1, err0, dl, immediately_cancel).
                bind (create_after_parent args stack_init call3 err0 dl immediately_cancel)
                  (\<lambda>(err, call). Inr (err, call, Some (parent_addr, parent1)))))"

subsection \<open>Reading the trace\<close>

text \<open>The number of batches handed to the filter stack.\<close>

fun is_execute_batch :: "event \<Rightarrow> bool" where
  "is_execute_batch (Execute_batch r b) = True"
| "is_execute_batch _ = False"

definition dispatched :: "event list \<Rightarrow> nat" where
  "dispatched evs = length (filter is_execute_batch evs)"

text \<open>The functions that the trace marks as entered, in the order of the trace.\<close>

fun entered :: "event list \<Rightarrow> string list" where
  "entered [] = []"
| "entered (Entered name # evs) = name # entered evs"
| "entered (_ # evs) = entered evs"

text \<open>The six flags of the call that the ops of a batch set.\<close>

definition op_flags :: "grpc_call \<Rightarrow> bool list" where
  "op_flags call = [sent_initial_metadata call, sending_message call, sent_final_op call,
     received_initial_metadata call, receiving_message call, requested_final_op call]"

fun flag_of_op :: "grpc_op_type \<Rightarrow> grpc_call \<Rightarrow> bool" where
  "flag_of_op GRPC_OP_SEND_INITIAL_METADATA call = sent_initial_metadata call"
| "flag_of_op GRPC_OP_SEND_MESSAGE call = sending_message call"
| "flag_of_op GRPC_OP_SEND_CLOSE_FROM_CLIENT call = sent_final_op call"
| "flag_of_op GRPC_OP_SEND_STATUS_FROM_SERVER call = sent_final_op call"
| "flag_of_op GRPC_OP_RECV_INITIAL_METADATA call = received_initial_metadata call"
| "flag_of_op GRPC_OP_RECV_MESSAGE call = receiving_message call"
| "flag_of_op GRPC_OP_RECV_STATUS_ON_CLIENT call = requested_final_op call"
| "flag_of_op GRPC_OP_RECV_CLOSE_ON_SERVER call = requested_final_op call"

subsection \<open>An environment and calls to evaluate the functions on\<close>

text \<open>
  One way to read a status off an error: the status set on it, the status of the
  special errors, otherwise the status of the first child that has one.
\<close>

fun carried_status :: "grpc_error \<Rightarrow> grpc_status_code option" where
  "carried_status GRPC_ERROR_NONE = Some GRPC_STATUS_OK"
| "carried_status GRPC_ERROR_CANCELLED = Some GRPC_STATUS_CANCELLED"
| "carried_status (GRPC_ERROR_CREATE d) = None"
| "carried_status (GRPC_ERROR_CREATE_REFERENCING d es) =
     (case filter (\<lambda>r. r \<noteq> None) (map carried_status es) of [] \<Rightarrow> None | r # _ \<Rightarrow> r)"
| "carried_status (grpc_error_set_int e k v) = Some v"
| "carried_status (grpc_error_set_str e k v) = carried_status e"
| "carried_status (grpc_error_add_child e c) =
     (case carried_status e of Some v \<Rightarrow> Some v | None \<Rightarrow> carried_status c)"

fun carried_message :: "grpc_error \<Rightarrow> slice" where
  "carried_message (grpc_error_set_str e k v) = v"
| "carried_message (grpc_error_set_int e k v) = carried_message e"
| "carried_message e = []"

fun parse_digits :: "string \<Rightarrow> nat \<Rightarrow> nat option" where
  "parse_digits [] acc = Some acc"
| "parse_digits (c # cs) acc =
     (if 48 \<le> (of_char c :: nat) \<and> (of_char c :: nat) \<le> 57
      then parse_digits cs (acc * 10 + (of_char c - 48)) else None)"

definition parse_uint32 :: "slice \<Rightarrow> 32 word option" where
  "parse_uint32 s =
     (if s = [] then None
      else case parse_digits s 0 of
             None \<Rightarrow> None
           | Some n \<Rightarrow> if n < 2 ^ 32 then Some (of_nat n) else None)"

definition test_env :: call_env where
  "test_env =
     \<lparr>grpc_error_has_clear_grpc_status = (\<lambda>e. carried_status e \<noteq> None),
      grpc_error_get_status =
        (\<lambda>e dl. (case carried_status e of Some v \<Rightarrow> v | None \<Rightarrow> GRPC_STATUS_UNKNOWN,
                  carried_message e)),
      GRPC_WRITE_USED_MASK = 0x3,
      GRPC_WRITE_INTERNAL_USED_MASK = 0x80000000,
      GRPC_WRITE_INTERNAL_COMPRESS = 0x80000000,
      GRPC_INITIAL_METADATA_USED_MASK = 0x1F0,
      GRPC_INITIAL_METADATA_IDEMPOTENT_REQUEST = 0x10,
      GRPC_PROPAGATE_DEADLINE = 1,
      GRPC_PROPAGATE_CENSUS_STATS_CONTEXT = 2,
      GRPC_PROPAGATE_CENSUS_TRACING_CONTEXT = 4,
      GRPC_PROPAGATE_CANCELLATION = 8,
      grpc_validate_header_key_is_legal =
        (\<lambda>k. if k = [] then GRPC_ERROR_CREATE ''Metadata keys cannot be zero length''
              else GRPC_ERROR_NONE),
      grpc_is_binary_header = (\<lambda>k. False),
      grpc_validate_header_nonbin_value_is_legal = (\<lambda>v. GRPC_ERROR_NONE),
      grpc_metadata_batch_link_tail = (\<lambda>b l. GRPC_ERROR_NONE),
      grpc_parse_slice_to_uint32 = parse_uint32,
      GRPC_MESSAGE_COMPRESS_ALGORITHMS_COUNT = 3,
      GRPC_STREAM_COMPRESS_ALGORITHMS_COUNT = 2,
      GRPC_COMPRESS_ALGORITHMS_COUNT = 4,
      grpc_message_compression_algorithm_from_slice =
        (\<lambda>s. if s = ''identity'' then 0 else if s = ''deflate'' then 1
              else if s = ''gzip'' then 2 else 3),
      grpc_stream_compression_algorithm_from_slice =
        (\<lambda>s. if s = ''identity'' then 0 else if s = ''gzip'' then 1 else 2),
      grpc_message_compression_algorithm_parse =
        (\<lambda>s. if s = ''identity'' then Some 0 else if s = ''deflate'' then Some 1
              else if s = ''gzip'' then Some 2 else None),
      grpc_stream_compression_algorithm_parse =
        (\<lambda>s. if s = ''identity'' then Some 0 else if s = ''gzip'' then Some 1 else None),
      grpc_slice_split_without_space = (\<lambda>s sep. [s]),
      grpc_compression_bitset_from_message_stream_compression_bitset = (\<lambda>m s. m),
      grpc_compression_algorithm_from_message_stream_compression_algorithm =
        (\<lambda>m s. if s = 0 \<and> m < 3 then Some m else if m = 0 \<and> s = 1 then Some 3 else None),
      grpc_compression_algorithm_for_level = (\<lambda>level accepted. 0),
      grpc_compression_algorithm_slice = (\<lambda>a. ''identity''),
      grpc_compression_algorithm_name = (\<lambda>a. ''identity''),
      grpc_compression_options_is_algorithm_enabled = (\<lambda>a. True),
      default_level = None,
      grpc_channel_get_reffed_status_elem =
        (\<lambda>st. \<lparr>GRPC_MDKEY = ''grpc-status'', GRPC_MDVALUE = decimal (nat st), user_data = None\<rparr>),
      grpc_cq_begin_op = (\<lambda>tag. True)\<rparr>"

text \<open>A client call and a server call with a completion queue and no parent.\<close>

definition client_call :: grpc_call where
  "client_call = zero_call\<lparr>cq := Some 0, pollent := Pollent_pollset 0, is_client := True,
     encodings_accepted_by_peer := 1,
     metadata_batch := (\<lambda>_ _. \<lparr>mdlist = [], deadline = Inf_future\<rparr>),
     send_deadline := Inf_future\<rparr>"

definition server_call :: grpc_call where
  "server_call = client_call\<lparr>is_client := False\<rparr>"

definition no_data :: grpc_op_data where
  "no_data = \<lparr>send_initial_metadata_metadata = [], maybe_compression_level = None,
     send_message_send_message = None, trailing_metadata = [], send_status = GRPC_STATUS_OK,
     send_status_details = None, recv_initial_metadata_recv_initial_metadata = Some [],
     recv_message_recv_message = Some None, recv_status_trailing_metadata = Some [],
     recv_status_status = Some GRPC_STATUS_OK, recv_status_status_details = Some [],
     recv_close_cancelled = Some 0\<rparr>"

definition plain_op :: "grpc_op_type \<Rightarrow> grpc_op" where
  "plain_op t = \<lparr>op = t, flags = 0, reserved = False, data = no_data\<rparr>"

subsection \<open>Notions for the statements about batches\<close>

text \<open>
  An op passes every check of its case in \<open>call_start_batch\<close> other than the check for a
  duplicate: \<open>reserved\<close> is null, the flags are valid, the op is on the right side, the
  message is there, the metadata is not too long and is legal. On a server the metadata
  of SEND_INITIAL_METADATA includes the element that requests the encoding, when a
  compression level is set.
\<close>

definition op_is_valid :: "call_env \<Rightarrow> grpc_call \<Rightarrow> grpc_op \<Rightarrow> bool" where
  "op_is_valid env call p \<longleftrightarrow>
     \<not> reserved p \<and>
     (case op p of
        GRPC_OP_SEND_INITIAL_METADATA \<Rightarrow>
          are_initial_metadata_flags_valid env (flags p) (is_client call) \<and>
          (let additional =
                 replicate (snd (process_compression_level env p call))
                   (compression_md (fst (process_compression_level env p call)))
           in length (send_initial_metadata_metadata (data p)) + length additional \<le> INT_MAX \<and>
              list_all (md_is_legal env) (send_initial_metadata_metadata (data p) @ additional))
      | GRPC_OP_SEND_MESSAGE \<Rightarrow>
          are_write_flags_valid env (flags p) \<and> send_message_send_message (data p) \<noteq> None
      | GRPC_OP_SEND_CLOSE_FROM_CLIENT \<Rightarrow> flags p = 0 \<and> is_client call
      | GRPC_OP_SEND_STATUS_FROM_SERVER \<Rightarrow>
          flags p = 0 \<and> \<not> is_client call \<and> length (trailing_metadata (data p)) \<le> INT_MAX \<and>
          list_all (md_is_legal env) (trailing_metadata (data p))
      | GRPC_OP_RECV_INITIAL_METADATA \<Rightarrow> flags p = 0
      | GRPC_OP_RECV_MESSAGE \<Rightarrow> flags p = 0
      | GRPC_OP_RECV_STATUS_ON_CLIENT \<Rightarrow> flags p = 0 \<and> is_client call
      | GRPC_OP_RECV_CLOSE_ON_SERVER \<Rightarrow> flags p = 0 \<and> \<not> is_client call)"

text \<open>
  Batches submitted one after the other, each with its tag and the kind of its tag; the
  codes they return are dropped.
\<close>

fun start_batches ::
  "call_env \<Rightarrow> (grpc_op list \<times> nat \<times> bool) list \<Rightarrow> grpc_call \<Rightarrow> fault + grpc_call" where
  "start_batches env [] call = Inr call"
| "start_batches env ((ops, tag, is_notify_tag_closure) # batches) call =
     bind (call_start_batch env call ops tag is_notify_tag_closure)
       (\<lambda>(e, call1). start_batches env batches call1)"

text \<open>
  What every case of the switch keeps: the code at \<open>done_with_error\<close> would give the
  flags the values it would have given before the case; the case hands nothing to a
  collaborator and does not touch the batch controls, the side of the call, its queue or
  the encodings accepted by the peer; a case that breaks out of the switch has set its
  flag; no flag is reset; and the additional metadata of the call is used up after a
  SEND_INITIAL_METADATA that succeeds, and stays used up.
\<close>

definition op_step_ok ::
  "grpc_op_type \<Rightarrow> grpc_call \<Rightarrow> grpc_transport_stream_op_batch \<Rightarrow> batch_state \<Rightarrow> bool" where
  "op_step_ok t c stream_op r \<longleftrightarrow>
     (case r of (e, c', stream_op', n') \<Rightarrow>
        op_flags (done_with_error c' stream_op') = op_flags (done_with_error c stream_op) \<and>
        trace c' = trace c \<and> active_batches c' = active_batches c \<and>
        is_client c' = is_client c \<and> cq c' = cq c \<and>
        encodings_accepted_by_peer c' = encodings_accepted_by_peer c \<and>
        (e = GRPC_CALL_OK \<longrightarrow> flag_of_op t c') \<and>
        list_all2 (\<longrightarrow>) (op_flags c) (op_flags c') \<and>
        (e = GRPC_CALL_OK \<longrightarrow>
           t = GRPC_OP_SEND_INITIAL_METADATA \<or> send_extra_metadata_count c = 0 \<longrightarrow>
           send_extra_metadata_count c' = 0))"

text \<open>The slot holds a batch control whose \<open>call\<close> field is not null.\<close>

definition slot_in_use :: "grpc_call \<Rightarrow> nat \<Rightarrow> bool" where
  "slot_in_use call slot =
     (case active_batches call slot of None \<Rightarrow> False | Some bctl \<Rightarrow> bctl_call bctl)"

text \<open>
  What \<open>recv_trailing_filter\<close> leaves of a batch: with \<open>grpc-status\<close> in the batch, the
  batch without \<open>grpc-message\<close> and \<open>grpc-status\<close>; the whole batch otherwise.
\<close>

definition trailing_remainder :: "grpc_metadata_batch \<Rightarrow> grpc_mdelem list" where
  "trailing_remainder b =
     (case named ''grpc-status'' b of
        None \<Rightarrow> mdlist b
      | Some status_md \<Rightarrow>
          remove1 status_md
            (case named ''grpc-message'' b of
               None \<Rightarrow> mdlist b
             | Some message_md \<Rightarrow> remove1 message_md (mdlist b)))"

subsection \<open>Notions for the statements about the callbacks of a batch\<close>

text \<open>
  The batch gives the transport \<open>&call->receiving_stream\<close> as the place of the message
  (\<open>call_start_batch\<close>, case RECV\_MESSAGE). The transport stores the byte stream there,
  or null when there is no message, and runs the closure \<open>call->receiving_stream_ready\<close>,
  which is \<open>receiving_stream_ready_in_call_combiner\<close>.
\<close>

definition message_ready ::
  "call_env \<Rightarrow> nat \<Rightarrow> grpc_byte_stream option \<Rightarrow> grpc_error \<Rightarrow> grpc_call \<Rightarrow> fault + grpc_call" where
  "message_ready env bctlp stream err call =
     receiving_stream_ready_in_call_combiner env bctlp err (call\<lparr>receiving_stream := stream\<rparr>)"

text \<open>
  The three closures of a batch that the filter stack runs: \<open>finish_batch\<close> as
  \<open>on_complete\<close>, \<open>receiving_initial_metadata_ready\<close>, and the closure for the message
  with what the transport has stored.
\<close>

datatype batch_callback =
    On_complete grpc_error
  | Recv_initial_metadata_ready grpc_error
  | Recv_message_ready "grpc_byte_stream option" grpc_error

fun callback_kind :: "batch_callback \<Rightarrow> nat" where
  "callback_kind (On_complete e) = 0"
| "callback_kind (Recv_initial_metadata_ready e) = 1"
| "callback_kind (Recv_message_ready stream e) = 2"

fun run_callback :: "call_env \<Rightarrow> nat \<Rightarrow> batch_callback \<Rightarrow> grpc_call \<Rightarrow> fault + grpc_call" where
  "run_callback env bctlp (On_complete e) call = finish_batch env bctlp e call"
| "run_callback env bctlp (Recv_initial_metadata_ready e) call =
     receiving_initial_metadata_ready env bctlp e call"
| "run_callback env bctlp (Recv_message_ready stream e) call =
     message_ready env bctlp stream e call"

text \<open>Callbacks that run one after the other; each runs to its end before the next.\<close>

fun run_callbacks ::
  "call_env \<Rightarrow> nat \<Rightarrow> batch_callback list \<Rightarrow> grpc_call \<Rightarrow> fault + grpc_call" where
  "run_callbacks env bctlp [] call = Inr call"
| "run_callbacks env bctlp (cb # cbs) call =
     bind (run_callback env bctlp cb call) (run_callbacks env bctlp cbs)"

text \<open>The number of errors of the batch control in a slot; none when the slot is empty.\<close>

definition errors_at :: "grpc_call \<Rightarrow> nat \<Rightarrow> nat" where
  "errors_at call slot =
     (case active_batches call slot of None \<Rightarrow> 0 | Some bctl \<Rightarrow> num_errors bctl)"

text \<open>
  From \<open>call\<close> to \<open>call'\<close> the functions \<open>names\<close> have been entered, in this order, and
  every batch control has got at most \<open>k\<close> more errors.
\<close>

definition advances :: "string list \<Rightarrow> nat \<Rightarrow> grpc_call \<Rightarrow> grpc_call \<Rightarrow> bool" where
  "advances names k call call' \<longleftrightarrow>
     entered (trace call') = entered (trace call) @ names \<and>
     (\<forall>slot. errors_at call' slot \<le> errors_at call slot + k)"

section \<open>Properties\<close>

subsection \<open>Faults\<close>

lemma bind_Inr [simp]: "bind (Inr a) f = f a"
  by (simp add: bind_def)

lemma bind_Inl [simp]: "bind (Inl x) f = Inl x"
  by (simp add: bind_def)

lemma bind_eq_Inr: "bind m f = Inr b \<longleftrightarrow> (\<exists>a. m = Inr a \<and> f a = Inr b)"
  by (cases m) simp_all

lemma bind_eq_Inl: "bind m f = Inl x \<longleftrightarrow> m = Inl x \<or> (\<exists>a. m = Inr a \<and> f a = Inl x)"
  by (cases m) simp_all

lemma GPR_ASSERT_True [simp]: "GPR_ASSERT True a = Inr a"
  by (simp add: GPR_ASSERT_def)

lemma GPR_ASSERT_False [simp]: "GPR_ASSERT False a = Inl Assert_failed"
  by (simp add: GPR_ASSERT_def)

lemma GPR_ASSERT_eq_Inr [simp]: "GPR_ASSERT b a = Inr c \<longleftrightarrow> b \<and> c = a"
  by (auto simp: GPR_ASSERT_def)

lemma GPR_ASSERT_eq_Inl [simp]: "GPR_ASSERT b a = Inl x \<longleftrightarrow> \<not> b \<and> x = Assert_failed"
  by (auto simp: GPR_ASSERT_def)

subsection \<open>The final status\<close>

lemma search_clear_find:
  "search_clear env dl a (map (\<lambda>i. unpack_received_status (slots i)) srcs) =
     map_option (\<lambda>e. grpc_error_get_status env e dl)
       (find (\<lambda>e. grpc_error_has_clear_grpc_status env e \<and> acceptable env dl a e)
          (List.map_filter slots srcs))"
  by (induction srcs)
     (auto simp: unpack_received_status_def List.map_filter_simps get_final_status_from_def
        acceptable_def split: option.splits prod.splits)

lemma search_any_find:
  "search_any env dl a (map (\<lambda>i. unpack_received_status (slots i)) srcs) =
     map_option (\<lambda>e. grpc_error_get_status env e dl)
       (find (acceptable env dl a) (List.map_filter slots srcs))"
  by (induction srcs)
     (auto simp: unpack_received_status_def List.map_filter_simps get_final_status_from_def
        acceptable_def split: option.splits prod.splits)

lemma get_final_status_refines:
  "get_final_status env call =
     spec_final_status env (is_client call) (send_deadline call) (status call)"
  unfolding get_final_status_def spec_final_status_def spec_select_def Let_def
  by (simp add: search_clear_find search_any_find split: option.splits prod.splits)

lemma spec_final_status_unset:
  "spec_final_status env client dl (\<lambda>_. None) =
     (if client then GRPC_STATUS_UNKNOWN else GRPC_STATUS_OK, None)"
  by (simp add: spec_final_status_def spec_select_def status_sources_def List.map_filter_simps)

lemma status_after_three_records:
  assumes "status call = (\<lambda>_. None)"
  shows "status (set_status_from_error
           (set_status_from_error
              (set_status_from_error call STATUS_FROM_SURFACE e_internal)
              STATUS_FROM_API_OVERRIDE e_cancelled)
           STATUS_FROM_WIRE e_ok) =
         (\<lambda>_. None)(STATUS_FROM_SURFACE := Some e_internal,
            STATUS_FROM_API_OVERRIDE := Some e_cancelled, STATUS_FROM_WIRE := Some e_ok)"
  using assms by (simp add: set_status_from_error_def pack_received_status_def)

lemma set_status_from_error_keeps [simp]:
  "is_client (set_status_from_error call src e) = is_client call"
  "send_deadline (set_status_from_error call src e) = send_deadline call"
  by (simp_all add: set_status_from_error_def)

text \<open>
  C1. \<open>get_final_status\<close> computes the selection of the specification: two passes, the
  first refusing OK; in each pass the sources in priority order, first those whose error
  carries an explicit status, then any that is set. With no slot set the result is
  UNKNOWN on a client and OK on a server. The result is a function of the slots (with
  the side of the call and its deadline), so asking again gives the same answer. After
  the records SURFACE = INTERNAL, API_OVERRIDE = CANCELLED (an error that carries its
  status) and WIRE = OK on a client call with no status yet, the final status is
  CANCELLED.
\<close>

theorem get_final_status_selection:
  "get_final_status env call =
     spec_final_status env (is_client call) (send_deadline call) (status call) \<and>
   (status call = (\<lambda>_. None) \<longrightarrow>
      get_final_status env call =
        (if is_client call then GRPC_STATUS_UNKNOWN else GRPC_STATUS_OK, None)) \<and>
   (status call' = status call \<and> is_client call' = is_client call \<and>
    send_deadline call' = send_deadline call \<longrightarrow>
      get_final_status env call' = get_final_status env call) \<and>
   (is_client call \<and> status call = (\<lambda>_. None) \<and>
    grpc_error_has_clear_grpc_status env e_cancelled \<and>
    fst (grpc_error_get_status env e_internal (send_deadline call)) = GRPC_STATUS_INTERNAL \<and>
    fst (grpc_error_get_status env e_cancelled (send_deadline call)) = GRPC_STATUS_CANCELLED \<and>
    fst (grpc_error_get_status env e_ok (send_deadline call)) = GRPC_STATUS_OK \<longrightarrow>
      fst (get_final_status env
             (set_status_from_error
                (set_status_from_error
                   (set_status_from_error call STATUS_FROM_SURFACE e_internal)
                   STATUS_FROM_API_OVERRIDE e_cancelled)
                STATUS_FROM_WIRE e_ok)) = GRPC_STATUS_CANCELLED)"
proof (intro conjI impI)
  show "get_final_status env call =
      spec_final_status env (is_client call) (send_deadline call) (status call)"
    by (rule get_final_status_refines)
next
  assume "status call = (\<lambda>_. None)"
  then show "get_final_status env call =
      (if is_client call then GRPC_STATUS_UNKNOWN else GRPC_STATUS_OK, None)"
    by (simp add: get_final_status_refines spec_final_status_unset)
next
  assume "status call' = status call \<and> is_client call' = is_client call \<and>
    send_deadline call' = send_deadline call"
  then show "get_final_status env call' = get_final_status env call"
    by (simp add: get_final_status_refines)
next
  assume h: "is_client call \<and> status call = (\<lambda>_. None) \<and>
    grpc_error_has_clear_grpc_status env e_cancelled \<and>
    fst (grpc_error_get_status env e_internal (send_deadline call)) = GRPC_STATUS_INTERNAL \<and>
    fst (grpc_error_get_status env e_cancelled (send_deadline call)) = GRPC_STATUS_CANCELLED \<and>
    fst (grpc_error_get_status env e_ok (send_deadline call)) = GRPC_STATUS_OK"
  then have st: "status (set_status_from_error
           (set_status_from_error
              (set_status_from_error call STATUS_FROM_SURFACE e_internal)
              STATUS_FROM_API_OVERRIDE e_cancelled)
           STATUS_FROM_WIRE e_ok) =
         (\<lambda>_. None)(STATUS_FROM_SURFACE := Some e_internal,
            STATUS_FROM_API_OVERRIDE := Some e_cancelled, STATUS_FROM_WIRE := Some e_ok)"
    by (simp add: status_after_three_records)
  from h show "fst (get_final_status env
             (set_status_from_error
                (set_status_from_error
                   (set_status_from_error call STATUS_FROM_SURFACE e_internal)
                   STATUS_FROM_API_OVERRIDE e_cancelled)
                STATUS_FROM_WIRE e_ok)) = GRPC_STATUS_CANCELLED"
    unfolding get_final_status_refines st
    by (simp add: spec_final_status_def spec_select_def status_sources_def
        List.map_filter_simps acceptable_def split: prod.splits)
qed

theorem get_final_status_selection_witness:
  "get_final_status test_env client_call = (GRPC_STATUS_UNKNOWN, None) \<and>
   get_final_status test_env server_call = (GRPC_STATUS_OK, None) \<and>
   fst (get_final_status test_env
          (set_status_from_error
             (set_status_from_error
                (set_status_from_error client_call STATUS_FROM_SURFACE
                   (error_from_status GRPC_STATUS_INTERNAL ''both compressions''))
                STATUS_FROM_API_OVERRIDE GRPC_ERROR_CANCELLED)
             STATUS_FROM_WIRE GRPC_ERROR_NONE)) = GRPC_STATUS_CANCELLED"
proof -
  note c = get_final_status_selection [of test_env client_call client_call GRPC_ERROR_CANCELLED
      "error_from_status GRPC_STATUS_INTERNAL ''both compressions''" GRPC_ERROR_NONE]
  note s = get_final_status_selection [of test_env server_call server_call GRPC_ERROR_CANCELLED
      GRPC_ERROR_NONE GRPC_ERROR_NONE]
  have u: "status client_call = (\<lambda>_. None)" "status server_call = (\<lambda>_. None)"
    "is_client client_call" "\<not> is_client server_call" "send_deadline client_call = Inf_future"
    by (simp_all add: client_call_def server_call_def zero_call_def)
  have 1: "get_final_status test_env client_call = (GRPC_STATUS_UNKNOWN, None)"
    using c [THEN conjunct2, THEN conjunct1] u by simp
  have 2: "get_final_status test_env server_call = (GRPC_STATUS_OK, None)"
    using s [THEN conjunct2, THEN conjunct1] u by simp
  have 3: "fst (get_final_status test_env
          (set_status_from_error
             (set_status_from_error
                (set_status_from_error client_call STATUS_FROM_SURFACE
                   (error_from_status GRPC_STATUS_INTERNAL ''both compressions''))
                STATUS_FROM_API_OVERRIDE GRPC_ERROR_CANCELLED)
             STATUS_FROM_WIRE GRPC_ERROR_NONE)) = GRPC_STATUS_CANCELLED"
    using c [THEN conjunct2, THEN conjunct2, THEN conjunct2] u
    by (simp add: test_env_def error_from_status_def)
  from 1 2 3 show ?thesis by simp
qed

subsection \<open>The trailing metadata filter\<close>

lemma named_key: "named k b = Some l \<Longrightarrow> GRPC_MDKEY l = k"
  by (auto simp: named_def dest: find_Some_iff [THEN iffD1])

lemma decode_status_fast:
  assumes "GRPC_MDKEY md = ''grpc-status''"
  shows "fst (decode_status env md) =
     (if GRPC_MDVALUE md = ''0'' then 0
      else if GRPC_MDVALUE md = ''1'' then 1
      else if GRPC_MDVALUE md = ''2'' then 2
      else if grpc_mdelem_get_user_data md destroy_status \<noteq> 0
      then of_nat (grpc_mdelem_get_user_data md destroy_status) - 1
      else case grpc_parse_slice_to_uint32 env (GRPC_MDVALUE md) of
             Some n \<Rightarrow> n | None \<Rightarrow> 2)"
  using assms
  by (simp add: decode_status_def grpc_mdelem_eq_def GRPC_MDELEM_GRPC_STATUS_0_def
      GRPC_MDELEM_GRPC_STATUS_1_def GRPC_MDELEM_GRPC_STATUS_2_def Let_def split: option.splits)

lemma publish_app_metadata_dest:
  assumes "buffered_metadata call True = Some dest"
  shows "\<exists>c. publish_app_metadata call b True = Inr c \<and>
     buffered_metadata c True =
       Some (dest @ map (\<lambda>l. (GRPC_MDKEY l, GRPC_MDVALUE l)) (mdlist b)) \<and>
     status c = status call"
  using assms by (auto simp: publish_app_metadata_def)



lemma recv_trailing_filter_unfold:
  assumes st: "named ''grpc-status'' b = Some status_md"
  shows "recv_trailing_filter env call b =
     bind (publish_app_metadata
             (set_status_from_error call STATUS_FROM_WIRE
                (if fst (decode_status env status_md) \<noteq> 0
                 then (grpc_error_set_str
                         (grpc_error_set_int (GRPC_ERROR_CREATE ''Error received from peer'')
                            GRPC_ERROR_INT_GRPC_STATUS (uint (fst (decode_status env status_md))))
                         GRPC_ERROR_STR_GRPC_MESSAGE
                         (case named ''grpc-message'' b of None \<Rightarrow> [] | Some m \<Rightarrow> GRPC_MDVALUE m))
                 else (case named ''grpc-message'' b of
                         None \<Rightarrow> GRPC_ERROR_NONE
                       | Some m \<Rightarrow> grpc_error_set_str GRPC_ERROR_NONE GRPC_ERROR_STR_GRPC_MESSAGE
                                     (GRPC_MDVALUE m))))
             (b\<lparr>mdlist := remove1 status_md
                   (case named ''grpc-message'' b of
                      None \<Rightarrow> mdlist b
                    | Some m \<Rightarrow> remove1 m (mdlist b))\<rparr>) True)
       (\<lambda>c. Inr (c, b\<lparr>mdlist := remove1 status_md
                   (case named ''grpc-message'' b of
                      None \<Rightarrow> mdlist b
                    | Some m \<Rightarrow> remove1 m (mdlist b))\<rparr>))"
proof (cases "named ''grpc-message'' b")
  case None
  then show ?thesis using st
    by (simp add: recv_trailing_filter_def Let_def grpc_metadata_batch_remove_def)
next
  case (Some m)
  then show ?thesis using st
    by (simp add: recv_trailing_filter_def Let_def grpc_metadata_batch_remove_def)
qed

lemma status_set_status_from_error:
  "status (set_status_from_error call src e) src' =
     (if src' = src \<and> status call src = None then Some e else status call src')"
  by (simp add: set_status_from_error_def pack_received_status_def)

lemma buffered_metadata_set_status_from_error [simp]:
  "buffered_metadata (set_status_from_error call src e) = buffered_metadata call"
  by (simp add: set_status_from_error_def)

lemma set_status_from_error_eq:
  "set_status_from_error call src e =
     call\<lparr>status := (status call)
       (src := (case status call src of None \<Rightarrow> Some e | Some e0 \<Rightarrow> Some e0))\<rparr>"
proof (cases "status call src")
  case None
  then show ?thesis by (simp add: set_status_from_error_def pack_received_status_def)
next
  case (Some e0)
  then have "(status call)(src := Some e0) = status call" by (rule fun_upd_idem)
  with Some show ?thesis by (simp add: set_status_from_error_def pack_received_status_def)
qed

lemma trailing_remainder_status:
  "named ''grpc-status'' b = Some status_md \<Longrightarrow>
   trailing_remainder b =
     remove1 status_md
       (case named ''grpc-message'' b of None \<Rightarrow> mdlist b | Some m \<Rightarrow> remove1 m (mdlist b))"
  by (simp add: trailing_remainder_def)

text \<open>
  C6. When \<open>grpc-status\<close> is present in a received trailing batch, the status is
  decoded with the fast paths for the tokens 0, 1 and 2, else from the cached user data,
  else by parsing the value (UNKNOWN when it does not parse). The error is recorded for
  the source WIRE (the slot is write-once: a slot that is set keeps its error); for a
  status that is not OK the error carries the status and the value of \<open>grpc-message\<close>
  (empty when absent). The named elements are removed from the batch. If nothing
  remains, the filter returns and publishes nothing. If elements remain, they are
  appended to the trailing metadata of the application when the call has a destination
  for them, and the filter follows the null pointer \<open>buffered_metadata[1]\<close> when it has
  none.
\<close>

theorem recv_trailing_filter_records_status:
  assumes st: "named ''grpc-status'' b = Some status_md"
  shows "fst (decode_status env status_md) =
       (if GRPC_MDVALUE status_md = ''0'' then 0
        else if GRPC_MDVALUE status_md = ''1'' then 1
        else if GRPC_MDVALUE status_md = ''2'' then 2
        else if grpc_mdelem_get_user_data status_md destroy_status \<noteq> 0
        then of_nat (grpc_mdelem_get_user_data status_md destroy_status) - 1
        else case grpc_parse_slice_to_uint32 env (GRPC_MDVALUE status_md) of
               Some n \<Rightarrow> n | None \<Rightarrow> 2) \<and>
     recv_trailing_filter env call b =
       (let err =
              (if fst (decode_status env status_md) \<noteq> 0
               then grpc_error_set_str
                      (grpc_error_set_int (GRPC_ERROR_CREATE ''Error received from peer'')
                         GRPC_ERROR_INT_GRPC_STATUS (uint (fst (decode_status env status_md))))
                      GRPC_ERROR_STR_GRPC_MESSAGE
                      (case named ''grpc-message'' b of None \<Rightarrow> [] | Some m \<Rightarrow> GRPC_MDVALUE m)
               else (case named ''grpc-message'' b of
                       None \<Rightarrow> GRPC_ERROR_NONE
                     | Some m \<Rightarrow> grpc_error_set_str GRPC_ERROR_NONE GRPC_ERROR_STR_GRPC_MESSAGE
                                   (GRPC_MDVALUE m)));
            call1 = call\<lparr>status := (status call)
                      (STATUS_FROM_WIRE :=
                         (case status call STATUS_FROM_WIRE of
                            None \<Rightarrow> Some err
                          | Some e0 \<Rightarrow> Some e0))\<rparr>
        in if trailing_remainder b = [] then Inr (call1, b\<lparr>mdlist := []\<rparr>)
           else case buffered_metadata call True of
                  None \<Rightarrow> Inl Null_dereference
                | Some dest \<Rightarrow>
                    Inr (call1\<lparr>buffered_metadata := (buffered_metadata call)
                           (True := Some (dest @ map (\<lambda>l. (GRPC_MDKEY l, GRPC_MDVALUE l))
                                                  (trailing_remainder b)))\<rparr>,
                         b\<lparr>mdlist := trailing_remainder b\<rparr>))"
proof (intro conjI)
  have key: "GRPC_MDKEY status_md = ''grpc-status''"
    using st by (rule named_key)
  show "fst (decode_status env status_md) =
       (if GRPC_MDVALUE status_md = ''0'' then 0
        else if GRPC_MDVALUE status_md = ''1'' then 1
        else if GRPC_MDVALUE status_md = ''2'' then 2
        else if grpc_mdelem_get_user_data status_md destroy_status \<noteq> 0
        then of_nat (grpc_mdelem_get_user_data status_md destroy_status) - 1
        else case grpc_parse_slice_to_uint32 env (GRPC_MDVALUE status_md) of
               Some n \<Rightarrow> n | None \<Rightarrow> 2)"
    by (rule decode_status_fast [OF key])
  show "recv_trailing_filter env call b =
       (let err =
              (if fst (decode_status env status_md) \<noteq> 0
               then grpc_error_set_str
                      (grpc_error_set_int (GRPC_ERROR_CREATE ''Error received from peer'')
                         GRPC_ERROR_INT_GRPC_STATUS (uint (fst (decode_status env status_md))))
                      GRPC_ERROR_STR_GRPC_MESSAGE
                      (case named ''grpc-message'' b of None \<Rightarrow> [] | Some m \<Rightarrow> GRPC_MDVALUE m)
               else (case named ''grpc-message'' b of
                       None \<Rightarrow> GRPC_ERROR_NONE
                     | Some m \<Rightarrow> grpc_error_set_str GRPC_ERROR_NONE GRPC_ERROR_STR_GRPC_MESSAGE
                                   (GRPC_MDVALUE m)));
            call1 = call\<lparr>status := (status call)
                      (STATUS_FROM_WIRE :=
                         (case status call STATUS_FROM_WIRE of
                            None \<Rightarrow> Some err
                          | Some e0 \<Rightarrow> Some e0))\<rparr>
        in if trailing_remainder b = [] then Inr (call1, b\<lparr>mdlist := []\<rparr>)
           else case buffered_metadata call True of
                  None \<Rightarrow> Inl Null_dereference
                | Some dest \<Rightarrow>
                    Inr (call1\<lparr>buffered_metadata := (buffered_metadata call)
                           (True := Some (dest @ map (\<lambda>l. (GRPC_MDKEY l, GRPC_MDVALUE l))
                                                  (trailing_remainder b)))\<rparr>,
                         b\<lparr>mdlist := trailing_remainder b\<rparr>))"
    unfolding recv_trailing_filter_unfold [OF st] trailing_remainder_status [OF st, symmetric]
      set_status_from_error_eq
    by (cases "buffered_metadata call True")
      (simp_all add: publish_app_metadata_def Let_def)
qed


theorem recv_trailing_filter_records_status_witness:
  "recv_trailing_filter test_env server_call
     \<lparr>mdlist = [\<lparr>GRPC_MDKEY = ''x'', GRPC_MDVALUE = ''y'', user_data = None\<rparr>,
                \<lparr>GRPC_MDKEY = ''grpc-status'', GRPC_MDVALUE = ''5'', user_data = None\<rparr>,
                \<lparr>GRPC_MDKEY = ''grpc-message'', GRPC_MDVALUE = ''boom'', user_data = None\<rparr>],
      deadline = Inf_future\<rparr> = Inl Null_dereference \<and>
   recv_trailing_filter test_env server_call
     \<lparr>mdlist = [\<lparr>GRPC_MDKEY = ''grpc-status'', GRPC_MDVALUE = ''5'', user_data = None\<rparr>],
      deadline = Inf_future\<rparr> =
     Inr (server_call\<lparr>status := (\<lambda>_. None)
            (STATUS_FROM_WIRE :=
               Some (grpc_error_set_str
                       (grpc_error_set_int (GRPC_ERROR_CREATE ''Error received from peer'')
                          GRPC_ERROR_INT_GRPC_STATUS 5)
                       GRPC_ERROR_STR_GRPC_MESSAGE []))\<rparr>,
          \<lparr>mdlist = [], deadline = Inf_future\<rparr>) \<and>
   recv_trailing_filter test_env (client_call\<lparr>buffered_metadata := (\<lambda>_. Some [])\<rparr>)
     \<lparr>mdlist = [\<lparr>GRPC_MDKEY = ''x'', GRPC_MDVALUE = ''y'', user_data = None\<rparr>,
                \<lparr>GRPC_MDKEY = ''grpc-status'', GRPC_MDVALUE = ''5'', user_data = None\<rparr>,
                \<lparr>GRPC_MDKEY = ''grpc-message'', GRPC_MDVALUE = ''boom'', user_data = None\<rparr>],
      deadline = Inf_future\<rparr> =
     Inr (client_call\<lparr>buffered_metadata := (\<lambda>_. Some [])(True := Some [(''x'', ''y'')]),
            status := (\<lambda>_. None)
            (STATUS_FROM_WIRE :=
               Some (grpc_error_set_str
                       (grpc_error_set_int (GRPC_ERROR_CREATE ''Error received from peer'')
                          GRPC_ERROR_INT_GRPC_STATUS 5)
                       GRPC_ERROR_STR_GRPC_MESSAGE ''boom''))\<rparr>,
          \<lparr>mdlist = [\<lparr>GRPC_MDKEY = ''x'', GRPC_MDVALUE = ''y'', user_data = None\<rparr>],
           deadline = Inf_future\<rparr>)"
proof -
  let ?st = "\<lparr>GRPC_MDKEY = ''grpc-status'', GRPC_MDVALUE = ''5'', user_data = None\<rparr>"
  let ?b = "\<lparr>mdlist = [\<lparr>GRPC_MDKEY = ''x'', GRPC_MDVALUE = ''y'', user_data = None\<rparr>, ?st,
                  \<lparr>GRPC_MDKEY = ''grpc-message'', GRPC_MDVALUE = ''boom'', user_data = None\<rparr>],
        deadline = Inf_future\<rparr>"
  let ?only = "\<lparr>mdlist = [?st], deadline = Inf_future\<rparr>"
  have n: "named ''grpc-status'' ?b = Some ?st" "named ''grpc-status'' ?only = Some ?st"
    by (simp_all add: named_def)
  have m: "named ''grpc-message'' ?b =
      Some \<lparr>GRPC_MDKEY = ''grpc-message'', GRPC_MDVALUE = ''boom'', user_data = None\<rparr>"
    "named ''grpc-message'' ?only = None"
    by (simp_all add: named_def)
  have r: "trailing_remainder ?b = [\<lparr>GRPC_MDKEY = ''x'', GRPC_MDVALUE = ''y'', user_data = None\<rparr>]"
    "trailing_remainder ?only = []"
    by (simp_all add: trailing_remainder_def named_def)
  have p: "parse_uint32 ''5'' = Some 5"
    by (simp add: parse_uint32_def)
  have g: "grpc_mdelem_get_user_data ?st destroy_status = 0"
    by (simp add: grpc_mdelem_get_user_data_def)
  have e: "grpc_parse_slice_to_uint32 test_env = parse_uint32"
    by (simp add: test_env_def)
  have s: "status server_call = (\<lambda>_. None)" "buffered_metadata server_call = (\<lambda>_. None)"
    "status client_call = (\<lambda>_. None)"
    by (simp_all add: server_call_def client_call_def zero_call_def)
  note t = recv_trailing_filter_records_status [of _ ?st test_env]
  from t [OF n(1), of server_call] have five: "fst (decode_status test_env ?st) = 5"
    by (simp add: g e p)
  have 1: "recv_trailing_filter test_env server_call ?b = Inl Null_dereference"
    using t [OF n(1), of server_call, THEN conjunct2] unfolding r s by (simp add: Let_def)
  have 2: "recv_trailing_filter test_env server_call ?only =
     Inr (server_call\<lparr>status := (\<lambda>_. None)
            (STATUS_FROM_WIRE :=
               Some (grpc_error_set_str
                       (grpc_error_set_int (GRPC_ERROR_CREATE ''Error received from peer'')
                          GRPC_ERROR_INT_GRPC_STATUS 5)
                       GRPC_ERROR_STR_GRPC_MESSAGE []))\<rparr>,
          \<lparr>mdlist = [], deadline = Inf_future\<rparr>)"
    using t [OF n(2), of server_call, THEN conjunct2] unfolding r s m five
    by (simp add: Let_def)
  have 3: "recv_trailing_filter test_env (client_call\<lparr>buffered_metadata := (\<lambda>_. Some [])\<rparr>) ?b =
     Inr (client_call\<lparr>buffered_metadata := (\<lambda>_. Some [])(True := Some [(''x'', ''y'')]),
            status := (\<lambda>_. None)
            (STATUS_FROM_WIRE :=
               Some (grpc_error_set_str
                       (grpc_error_set_int (GRPC_ERROR_CREATE ''Error received from peer'')
                          GRPC_ERROR_INT_GRPC_STATUS 5)
                       GRPC_ERROR_STR_GRPC_MESSAGE ''boom''))\<rparr>,
          \<lparr>mdlist = [\<lparr>GRPC_MDKEY = ''x'', GRPC_MDVALUE = ''y'', user_data = None\<rparr>],
           deadline = Inf_future\<rparr>)"
    using t [OF n(1), of "client_call\<lparr>buffered_metadata := (\<lambda>_. Some [])\<rparr>", THEN conjunct2]
    unfolding r m five by (simp add: Let_def s)
  from 1 2 3 show ?thesis by (intro conjI)
qed

subsection \<open>Batch completion\<close>

lemma consolidate_batch_errors_result:
  "consolidate_batch_errors bctl = Inr (err, bctl1) \<Longrightarrow>
     err = (if num_errors bctl = 0 then GRPC_ERROR_NONE
            else if num_errors bctl = 1 then errors bctl 0
            else GRPC_ERROR_CREATE_REFERENCING ''Call batch failed''
                   (map (errors bctl) [0 ..< num_errors bctl])) \<and>
     bctl_op bctl1 = bctl_op bctl \<and> is_closure bctl1 = is_closure bctl \<and>
     notify_tag bctl1 = notify_tag bctl \<and> num_errors bctl1 = num_errors bctl \<and>
     bctl_call bctl1 = bctl_call bctl \<and> steps_to_complete bctl1 = steps_to_complete bctl"
  by (auto simp: consolidate_batch_errors_def Let_def split: if_splits)

lemma cancel_children_frame:
  "cancel_children ring c = c\<lparr>trace := trace c @ map (Cancel_child \<circ> fst) (filter snd ring)\<rparr>"
  by (induction ring arbitrary: c) auto

lemma set_status_from_error_frame:
  "\<exists>st. set_status_from_error c src e = c\<lparr>status := st\<rparr>"
  by (auto simp: set_status_from_error_def intro: exI [of _ "status c"])

lemma publish_app_metadata_frame:
  "publish_app_metadata c b t = Inr c' \<Longrightarrow> \<exists>bm. c' = c\<lparr>buffered_metadata := bm\<rparr>"
  by (auto simp: publish_app_metadata_def split: if_splits option.splits
      intro: exI [of _ "buffered_metadata c"])

lemma recv_trailing_filter_frame:
  assumes "recv_trailing_filter env c b = Inr (c', b')"
  shows "\<exists>st bm. c' = c\<lparr>status := st, buffered_metadata := bm\<rparr>"
proof -
  obtain c2 b2 where c2: "publish_app_metadata c2 b2 True = Inr c'"
    and s: "c2 = c \<or> (\<exists>e. c2 = set_status_from_error c STATUS_FROM_WIRE e)"
    using assms
    by (auto simp: recv_trailing_filter_def Let_def bind_eq_Inr split: option.splits prod.splits)
  have "\<exists>st. c2 = c\<lparr>status := st\<rparr>"
  proof (cases "c2 = c")
    case True
    then show ?thesis by (auto intro: exI [of _ "status c"])
  next
    case False
    with s show ?thesis using set_status_from_error_frame [of c STATUS_FROM_WIRE] by auto
  qed
  then obtain st where st: "c2 = c\<lparr>status := st\<rparr>" ..
  from publish_app_metadata_frame [OF c2] st show ?thesis by auto
qed

lemma report_final_status_result:
  assumes "report_final_status env c = Inr c'"
  shows "trace c' = trace c" "status c' = status c" "is_client c' = is_client c"
    "send_deadline c' = send_deadline c" "active_batches c' = active_batches c"
    "recv_state c' = recv_state c"
    "if is_client c
     then final_op_client_status c' = Some (fst (get_final_status env c)) \<and>
          final_op_client_status_details c' =
            (case (final_op_client_status_details c, snd (get_final_status env c)) of
               (Some _, Some sl) \<Rightarrow> Some sl
             | _ \<Rightarrow> final_op_client_status_details c)
     else final_op_server_cancelled c' =
            Some (if fst (get_final_status env c) \<noteq> GRPC_STATUS_OK then 1 else 0)"
  using assms
  by (auto simp: report_final_status_def set_status_value_directly_def set_cancelled_value_def
      split: prod.splits if_splits option.splits)

lemma get_final_status_cong:
  "status c' = status c \<Longrightarrow> is_client c' = is_client c \<Longrightarrow> send_deadline c' = send_deadline c \<Longrightarrow>
   get_final_status env c' = get_final_status env c"
  by (simp add: get_final_status_refines)

lemmas final_status_exec =
  get_final_status_def status_sources_def unpack_received_status_def get_final_status_from_def
  test_env_def error_from_status_def

lemma consolidate_batch_errors_returns:
  "num_errors bctl \<le> MAX_ERRORS_PER_BATCH \<Longrightarrow> \<exists>r. consolidate_batch_errors bctl = Inr r"
  by (simp add: consolidate_batch_errors_def Let_def)

lemma recv_trailing_filter_returns:
  assumes "trailing_remainder b = [] \<or> buffered_metadata call True \<noteq> None"
  shows "\<exists>r. recv_trailing_filter env call b = Inr r"
proof (cases "named ''grpc-status'' b")
  case None
  with assms show ?thesis
    by (auto simp: recv_trailing_filter_def publish_app_metadata_def trailing_remainder_def)
next
  case (Some status_md)
  from assms show ?thesis
    unfolding recv_trailing_filter_unfold [OF Some] trailing_remainder_status [OF Some, symmetric]
    by (auto simp: publish_app_metadata_def)
qed

lemma report_final_status_returns:
  assumes "if is_client c then final_op_client_status c \<noteq> None
           else final_op_server_cancelled c \<noteq> None"
  shows "\<exists>c'. report_final_status env c = Inr c'"
  using assms by (auto simp: report_final_status_def split: prod.splits)

lemma post_batch_completion_returns:
  assumes slot: "active_batches call bctlp = Some bctl"
    and live: "bctl_call bctl"
    and bound: "num_errors bctl \<le> MAX_ERRORS_PER_BATCH"
    and out: "recv_trailing_metadata (bctl_op bctl) \<longrightarrow>
       (trailing_remainder (metadata_batch call True True) = [] \<or>
        buffered_metadata call True \<noteq> None) \<and>
       (if is_client call then final_op_client_status call \<noteq> None
        else final_op_server_cancelled call \<noteq> None)"
  shows "\<exists>call'. post_batch_completion env bctlp call = Inr call'"
proof -
  from consolidate_batch_errors_returns [OF bound] obtain err bctl1 where
    cons: "consolidate_batch_errors bctl = Inr (err, bctl1)" by auto
  note cr = consolidate_batch_errors_result [OF cons]
  define call2 where "call2 =
    (if send_message (bctl_op bctl1)
     then call\<lparr>active_batches := (active_batches call)(bctlp := Some bctl1),
               sending_message := False\<rparr>
     else call\<lparr>active_batches := (active_batches call)(bctlp := Some bctl1)\<rparr>)"
  have c2: "metadata_batch call2 = metadata_batch call"
    "buffered_metadata call2 = buffered_metadata call"
    "is_client call2 = is_client call"
    "final_op_client_status call2 = final_op_client_status call"
    "final_op_server_cancelled call2 = final_op_server_cancelled call"
    by (simp_all add: call2_def)
  have unf: "post_batch_completion env bctlp call =
     bind (if recv_trailing_metadata (bctl_op bctl1)
                  then
                    bind (recv_trailing_filter env call2 (metadata_batch call2 True True)) (\<lambda>(c, md).
                    bind (report_final_status env
                            (propagate_cancellation
                               (c\<lparr>metadata_batch := (metadata_batch c)
                                      (True := (metadata_batch c True)(True := md)),
                                    received_final_op_atm := 1\<rparr>)))
                      (\<lambda>c3. Inr (c3, GRPC_ERROR_NONE)))
                  else Inr (call2, err))
              (\<lambda>(call5, err1).
                 if is_closure bctl1
                 then Inr (call5\<lparr>active_batches := (active_batches call5)
                                    (bctlp := Some (bctl1\<lparr>bctl_call := False\<rparr>)),
                                  trace := trace call5 @ [Closure_run (notify_tag bctl1) err1]\<rparr>)
                 else Inr (call5\<lparr>trace := trace call5 @
                             [Cq_end_op (notify_tag bctl1) err1 (finish_batch_completion_of bctlp)]\<rparr>))"
    unfolding call2_def
    by (simp add: post_batch_completion_def slot live cons Let_def)
  show ?thesis
  proof (cases "recv_trailing_metadata (bctl_op bctl)")
    case False
    with cr show ?thesis unfolding unf by simp
  next
    case True
    with out c2 have "trailing_remainder (metadata_batch call2 True True) = [] \<or>
        buffered_metadata call2 True \<noteq> None"
      by simp
    from recv_trailing_filter_returns [OF this, of env] obtain c md where
      f: "recv_trailing_filter env call2 (metadata_batch call2 True True) = Inr (c, md)"
      by auto
    from recv_trailing_filter_frame [OF f] obtain st bm where
      c: "c = call2\<lparr>status := st, buffered_metadata := bm\<rparr>" by blast
    define c2' where "c2' = propagate_cancellation
                    (c\<lparr>metadata_batch := (metadata_batch c)
                           (True := (metadata_batch c True)(True := md)),
                         received_final_op_atm := 1\<rparr>)"
    have "is_client c2' = is_client call"
      "final_op_client_status c2' = final_op_client_status call"
      "final_op_server_cancelled c2' = final_op_server_cancelled call"
      by (simp_all add: c2'_def propagate_cancellation_def c c2 cancel_children_frame
          split: option.splits)
    with out True have "if is_client c2' then final_op_client_status c2' \<noteq> None
           else final_op_server_cancelled c2' \<noteq> None"
      by simp
    from report_final_status_returns [OF this, of env] obtain c3 where
      "report_final_status env c2' = Inr c3" by auto
    with f True cr show ?thesis
      unfolding unf c2'_def by simp
  qed
qed


lemma post_batch_completion_result:
  assumes run: "post_batch_completion env bctlp call = Inr call'"
    and slot: "active_batches call bctlp = Some bctl"
  shows "\<exists>err bctl1.
     consolidate_batch_errors bctl = Inr (err, bctl1) \<and>
     err = (if num_errors bctl = 0 then GRPC_ERROR_NONE
            else if num_errors bctl = 1 then errors bctl 0
            else GRPC_ERROR_CREATE_REFERENCING ''Call batch failed''
                   (map (errors bctl) [0 ..< num_errors bctl])) \<and>
     trace call' = trace call @
       (if recv_trailing_metadata (bctl_op bctl)
        then (case parent_call_atm call of
                None \<Rightarrow> []
              | Some ring \<Rightarrow> map (Cancel_child \<circ> fst) (filter snd ring))
        else []) @
       [if is_closure bctl
        then Closure_run (notify_tag bctl)
               (if recv_trailing_metadata (bctl_op bctl) then GRPC_ERROR_NONE else err)
        else Cq_end_op (notify_tag bctl)
               (if recv_trailing_metadata (bctl_op bctl) then GRPC_ERROR_NONE else err)
               (finish_batch_completion_of bctlp)] \<and>
     (if recv_trailing_metadata (bctl_op bctl)
      then (if is_client call
            then final_op_client_status call' = Some (fst (get_final_status env call')) \<and>
                 final_op_client_status_details call' =
                   (case (final_op_client_status_details call, snd (get_final_status env call')) of
                      (Some _, Some sl) \<Rightarrow> Some sl
                    | _ \<Rightarrow> final_op_client_status_details call)
            else final_op_server_cancelled call' =
                   Some (if fst (get_final_status env call') \<noteq> GRPC_STATUS_OK then 1 else 0))
      else final_op_client_status call' = final_op_client_status call \<and>
           final_op_client_status_details call' = final_op_client_status_details call \<and>
           final_op_server_cancelled call' = final_op_server_cancelled call)"
proof -
  from run slot obtain err bctl1 where cons: "consolidate_batch_errors bctl = Inr (err, bctl1)"
    by (auto simp: post_batch_completion_def bind_eq_Inr split: if_splits)
  note cr = consolidate_batch_errors_result [OF cons]
  define call2 where "call2 =
    (if send_message (bctl_op bctl1)
     then call\<lparr>active_batches := (active_batches call)(bctlp := Some bctl1),
               sending_message := False\<rparr>
     else call\<lparr>active_batches := (active_batches call)(bctlp := Some bctl1)\<rparr>)"
  have c2: "trace call2 = trace call" "parent_call_atm call2 = parent_call_atm call"
    "is_client call2 = is_client call" "send_deadline call2 = send_deadline call"
    "final_op_client_status call2 = final_op_client_status call"
    "final_op_client_status_details call2 = final_op_client_status_details call"
    "final_op_server_cancelled call2 = final_op_server_cancelled call"
    by (simp_all add: call2_def)
  show ?thesis
  proof (cases "recv_trailing_metadata (bctl_op bctl)")
    case False
    with run slot cons cr have "call' =
        (if is_closure bctl
         then call2\<lparr>active_batches := (active_batches call2)(bctlp := Some (bctl1\<lparr>bctl_call := False\<rparr>)),
                    trace := trace call2 @ [Closure_run (notify_tag bctl) err]\<rparr>
         else call2\<lparr>trace := trace call2 @
                 [Cq_end_op (notify_tag bctl) err (finish_batch_completion_of bctlp)]\<rparr>)"
      by (auto simp: post_batch_completion_def call2_def Let_def split: if_splits)
    with False cons cr c2 show ?thesis by auto
  next
    case True
    with run slot cons cr obtain c md c3 where
      f: "recv_trailing_filter env call2 (metadata_batch call2 True True) = Inr (c, md)"
      and c3: "report_final_status env
                 (propagate_cancellation
                    (c\<lparr>metadata_batch := (metadata_batch c)
                           (True := (metadata_batch c True)(True := md)),
                         received_final_op_atm := 1\<rparr>)) = Inr c3"
      and fin: "call' =
        (if is_closure bctl
         then c3\<lparr>active_batches := (active_batches c3)(bctlp := Some (bctl1\<lparr>bctl_call := False\<rparr>)),
                    trace := trace c3 @ [Closure_run (notify_tag bctl) GRPC_ERROR_NONE]\<rparr>
         else c3\<lparr>trace := trace c3 @
                 [Cq_end_op (notify_tag bctl) GRPC_ERROR_NONE (finish_batch_completion_of bctlp)]\<rparr>)"
      by (auto simp: post_batch_completion_def call2_def Let_def bind_eq_Inr split: if_splits prod.splits)
    from recv_trailing_filter_frame [OF f] obtain st bm where
      c: "c = call2\<lparr>status := st, buffered_metadata := bm\<rparr>" by blast
    define c2' where "c2' = propagate_cancellation
                    (c\<lparr>metadata_batch := (metadata_batch c)
                           (True := (metadata_batch c True)(True := md)),
                         received_final_op_atm := 1\<rparr>)"
    have c2'_sel: "trace c2' = trace call @ (case parent_call_atm call of
                None \<Rightarrow> []
              | Some ring \<Rightarrow> map (Cancel_child \<circ> fst) (filter snd ring))"
      "is_client c2' = is_client call"
      "final_op_client_status c2' = final_op_client_status call"
      "final_op_client_status_details c2' = final_op_client_status_details call"
      "final_op_server_cancelled c2' = final_op_server_cancelled call"
      by (simp_all add: c2'_def propagate_cancellation_def c c2 cancel_children_frame
          split: option.splits)
    note r = report_final_status_result [OF c3 [folded c2'_def]]
    have g: "get_final_status env call' = get_final_status env c2'"
    proof (rule get_final_status_cong)
      show "status call' = status c2'"
        using r fin by (auto split: if_splits)
      show "is_client call' = is_client c2'"
        using r fin by (auto split: if_splits)
      show "send_deadline call' = send_deadline c2'"
        using r fin by (auto split: if_splits)
    qed
    have out': "final_op_client_status call' = final_op_client_status c3"
      "final_op_client_status_details call' = final_op_client_status_details c3"
      "final_op_server_cancelled call' = final_op_server_cancelled c3"
      "trace call' = trace c3 @ [if is_closure bctl
        then Closure_run (notify_tag bctl) GRPC_ERROR_NONE
        else Cq_end_op (notify_tag bctl) GRPC_ERROR_NONE (finish_batch_completion_of bctlp)]"
      using fin by (auto split: if_splits)
    show ?thesis
      apply (rule exI [of _ err], rule exI [of _ bctl1])
      using True cons cr r out' c2'_sel g by (cases "is_client call") (simp_all split: option.splits)
  qed
qed

text \<open>
  C8. A batch whose control is in its slot with at most four errors completes:
  \<open>post_batch_completion\<close> returns, provided that, for a batch with
  recv-trailing-metadata, the output location of the final op is there and what the
  trailing filter leaves of the received trailing metadata is empty or has a
  destination. The errors of the batch are consolidated: none gives no error, one is
  passed on as it is, more give the composite error ''Call batch failed'' that refers to
  all of them. The completion (the closure run, or the event put on the completion
  queue) is the last thing handed out and carries that error, except that a batch with
  recv-trailing-metadata completes with no error; such a batch writes the final status
  of the call to the output locations: status (and details, when the selection gives one
  and the location is there) on a client, the cancelled flag (final status other than
  OK) on a server.
\<close>

theorem post_batch_completion_reports:
  assumes slot: "active_batches call bctlp = Some bctl"
    and live: "bctl_call bctl"
    and bound: "num_errors bctl \<le> MAX_ERRORS_PER_BATCH"
    and out: "recv_trailing_metadata (bctl_op bctl) \<longrightarrow>
       (trailing_remainder (metadata_batch call True True) = [] \<or>
        buffered_metadata call True \<noteq> None) \<and>
       (if is_client call then final_op_client_status call \<noteq> None
        else final_op_server_cancelled call \<noteq> None)"
  shows "\<exists>call' err bctl1.
     post_batch_completion env bctlp call = Inr call' \<and>
     consolidate_batch_errors bctl = Inr (err, bctl1) \<and>
     err = (if num_errors bctl = 0 then GRPC_ERROR_NONE
            else if num_errors bctl = 1 then errors bctl 0
            else GRPC_ERROR_CREATE_REFERENCING ''Call batch failed''
                   (map (errors bctl) [0 ..< num_errors bctl])) \<and>
     trace call' = trace call @
       (if recv_trailing_metadata (bctl_op bctl)
        then (case parent_call_atm call of
                None \<Rightarrow> []
              | Some ring \<Rightarrow> map (Cancel_child \<circ> fst) (filter snd ring))
        else []) @
       [if is_closure bctl
        then Closure_run (notify_tag bctl)
               (if recv_trailing_metadata (bctl_op bctl) then GRPC_ERROR_NONE else err)
        else Cq_end_op (notify_tag bctl)
               (if recv_trailing_metadata (bctl_op bctl) then GRPC_ERROR_NONE else err)
               (finish_batch_completion_of bctlp)] \<and>
     (if recv_trailing_metadata (bctl_op bctl)
      then (if is_client call
            then final_op_client_status call' = Some (fst (get_final_status env call')) \<and>
                 final_op_client_status_details call' =
                   (case (final_op_client_status_details call, snd (get_final_status env call')) of
                      (Some _, Some sl) \<Rightarrow> Some sl
                    | _ \<Rightarrow> final_op_client_status_details call)
            else final_op_server_cancelled call' =
                   Some (if fst (get_final_status env call') \<noteq> GRPC_STATUS_OK then 1 else 0))
      else final_op_client_status call' = final_op_client_status call \<and>
           final_op_client_status_details call' = final_op_client_status_details call \<and>
           final_op_server_cancelled call' = final_op_server_cancelled call)"
proof -
  from post_batch_completion_returns [OF slot live bound out, of env] obtain call' where
    run: "post_batch_completion env bctlp call = Inr call'" by blast
  from post_batch_completion_result [OF run slot] run show ?thesis by blast
qed


theorem post_batch_completion_reports_witness:
  "(\<exists>c'. post_batch_completion test_env 1
           (client_call\<lparr>active_batches := (\<lambda>_. None)
              (1 := Some (zero_bctl\<lparr>bctl_call := True, notify_tag := 7, num_errors := 2,
                            errors := (\<lambda>_. GRPC_ERROR_NONE)
                              (0 := GRPC_ERROR_CANCELLED, 1 := GRPC_ERROR_CREATE ''reset''),
                            bctl_op := zero_op\<lparr>send_message := True\<rparr>\<rparr>))\<rparr>) = Inr c' \<and>
         trace c' = [Cq_end_op 7
                       (GRPC_ERROR_CREATE_REFERENCING ''Call batch failed''
                          [GRPC_ERROR_CANCELLED, GRPC_ERROR_CREATE ''reset''])
                       (finish_batch_completion_of 1)]) \<and>
   (\<exists>c'. post_batch_completion test_env 5
           (client_call\<lparr>active_batches := (\<lambda>_. None)
              (5 := Some (zero_bctl\<lparr>bctl_call := True, notify_tag := 9, num_errors := 1,
                            errors := (\<lambda>_. GRPC_ERROR_NONE)(0 := GRPC_ERROR_CANCELLED),
                            bctl_op := zero_op\<lparr>recv_trailing_metadata := True\<rparr>\<rparr>)),
              status := (\<lambda>_. None)(STATUS_FROM_WIRE := Some (error_from_status 5 ''boom'')),
              final_op_client_status := Some 0,
              final_op_client_status_details := Some []\<rparr>) = Inr c' \<and>
         trace c' = [Cq_end_op 9 GRPC_ERROR_NONE (finish_batch_completion_of 5)] \<and>
         final_op_client_status c' = Some 5 \<and>
         final_op_client_status_details c' = Some ''boom'') \<and>
   (\<exists>c'. post_batch_completion test_env 5
           (server_call\<lparr>active_batches := (\<lambda>_. None)
              (5 := Some (zero_bctl\<lparr>bctl_call := True, notify_tag := 11, is_closure := True,
                            bctl_op := zero_op\<lparr>recv_trailing_metadata := True\<rparr>\<rparr>)),
              status := (\<lambda>_. None)(STATUS_FROM_CORE := Some GRPC_ERROR_CANCELLED),
              final_op_server_cancelled := Some 0\<rparr>) = Inr c' \<and>
         trace c' = [Closure_run 11 GRPC_ERROR_NONE] \<and>
         final_op_server_cancelled c' = Some 1)"
proof -
  let ?b1 = "zero_bctl\<lparr>bctl_call := True, notify_tag := 7, num_errors := 2,
                            errors := (\<lambda>_. GRPC_ERROR_NONE)
                              (0 := GRPC_ERROR_CANCELLED, 1 := GRPC_ERROR_CREATE ''reset''),
                            bctl_op := zero_op\<lparr>send_message := True\<rparr>\<rparr>"
  let ?c1 = "client_call\<lparr>active_batches := (\<lambda>_. None)(1 := Some ?b1)\<rparr>"
  let ?b2 = "zero_bctl\<lparr>bctl_call := True, notify_tag := 9, num_errors := 1,
                            errors := (\<lambda>_. GRPC_ERROR_NONE)(0 := GRPC_ERROR_CANCELLED),
                            bctl_op := zero_op\<lparr>recv_trailing_metadata := True\<rparr>\<rparr>"
  let ?c2 = "client_call\<lparr>active_batches := (\<lambda>_. None)(5 := Some ?b2),
              status := (\<lambda>_. None)(STATUS_FROM_WIRE := Some (error_from_status 5 ''boom'')),
              final_op_client_status := Some 0,
              final_op_client_status_details := Some []\<rparr>"
  let ?b3 = "zero_bctl\<lparr>bctl_call := True, notify_tag := 11, is_closure := True,
                            bctl_op := zero_op\<lparr>recv_trailing_metadata := True\<rparr>\<rparr>"
  let ?c3 = "server_call\<lparr>active_batches := (\<lambda>_. None)(5 := Some ?b3),
              status := (\<lambda>_. None)(STATUS_FROM_CORE := Some GRPC_ERROR_CANCELLED),
              final_op_server_cancelled := Some 0\<rparr>"
  have z: "[0..<2] = [0, Suc 0]"
    by (simp add: upt_rec)
  have pre: "bctl_call ?b1" "bctl_call ?b2" "bctl_call ?b3"
    "num_errors ?b1 \<le> MAX_ERRORS_PER_BATCH" "num_errors ?b2 \<le> MAX_ERRORS_PER_BATCH"
    "num_errors ?b3 \<le> MAX_ERRORS_PER_BATCH"
    by (simp_all add: zero_bctl_def)
  have ops: "\<not> recv_trailing_metadata (bctl_op ?b1)" "recv_trailing_metadata (bctl_op ?b2)"
    "recv_trailing_metadata (bctl_op ?b3)"
    by (simp_all add: zero_op_def)
  have t1: "trace ?c1 = []" "trace ?c2 = []" "parent_call_atm ?c2 = None" "is_client ?c2"
    "final_op_client_status_details ?c2 = Some []"
    "trace ?c3 = []" "parent_call_atm ?c3 = None" "\<not> is_client ?c3"
    by (simp_all add: client_call_def server_call_def zero_call_def)
  have tr: "trailing_remainder (metadata_batch ?c2 True True) = []"
    "trailing_remainder (metadata_batch ?c3 True True) = []"
    by (simp_all add: trailing_remainder_def named_def client_call_def server_call_def
        zero_call_def)
  have s1: "active_batches ?c1 1 = Some ?b1" and s2: "active_batches ?c2 5 = Some ?b2"
    and s3: "active_batches ?c3 5 = Some ?b3"
    by simp_all
  have o1: "recv_trailing_metadata (bctl_op ?b1) \<longrightarrow>
       (trailing_remainder (metadata_batch ?c1 True True) = [] \<or>
        buffered_metadata ?c1 True \<noteq> None) \<and>
       (if is_client ?c1 then final_op_client_status ?c1 \<noteq> None
        else final_op_server_cancelled ?c1 \<noteq> None)"
    using ops(1) by simp
  have o2: "recv_trailing_metadata (bctl_op ?b2) \<longrightarrow>
       (trailing_remainder (metadata_batch ?c2 True True) = [] \<or>
        buffered_metadata ?c2 True \<noteq> None) \<and>
       (if is_client ?c2 then final_op_client_status ?c2 \<noteq> None
        else final_op_server_cancelled ?c2 \<noteq> None)"
    unfolding tr by (simp add: client_call_def zero_call_def)
  have o3: "recv_trailing_metadata (bctl_op ?b3) \<longrightarrow>
       (trailing_remainder (metadata_batch ?c3 True True) = [] \<or>
        buffered_metadata ?c3 True \<noteq> None) \<and>
       (if is_client ?c3 then final_op_client_status ?c3 \<noteq> None
        else final_op_server_cancelled ?c3 \<noteq> None)"
    unfolding tr by (simp add: server_call_def client_call_def zero_call_def)
  note w1 = post_batch_completion_reports [OF s1 pre(1) pre(4) o1, of test_env]
  note w2 = post_batch_completion_reports [OF s2 pre(2) pre(5) o2, of test_env]
  note w3 = post_batch_completion_reports [OF s3 pre(3) pre(6) o3, of test_env]
  from w1 obtain c1' where r1: "post_batch_completion test_env 1 ?c1 = Inr c1'" by blast
  from w2 obtain c2' where r2: "post_batch_completion test_env 5 ?c2 = Inr c2'" by blast
  from w3 obtain c3' where r3: "post_batch_completion test_env 5 ?c3 = Inr c3'" by blast
  have st2: "status c2' = (\<lambda>_. None)(STATUS_FROM_WIRE := Some (error_from_status 5 ''boom''))"
    "is_client c2'" "send_deadline c2' = Inf_future"
    using r2
    by (auto simp add: post_batch_completion_def consolidate_batch_errors_def zero_bctl_def
        zero_op_def Let_def recv_trailing_filter_def named_def client_call_def zero_call_def
        publish_app_metadata_def report_final_status_def propagate_cancellation_def
        final_status_exec)
  have g2: "get_final_status test_env c2' = (5, Some ''boom'')"
    unfolding get_final_status_refines st2
    by (simp add: spec_final_status_def spec_select_def status_sources_def
        List.map_filter_simps acceptable_def test_env_def error_from_status_def)
  have st3: "status c3' = (\<lambda>_. None)(STATUS_FROM_CORE := Some GRPC_ERROR_CANCELLED)"
    "\<not> is_client c3'" "send_deadline c3' = Inf_future"
    using r3
    by (auto simp add: post_batch_completion_def consolidate_batch_errors_def zero_bctl_def
        zero_op_def Let_def recv_trailing_filter_def named_def client_call_def server_call_def
        zero_call_def
        publish_app_metadata_def report_final_status_def propagate_cancellation_def
        final_status_exec)
  have g3: "get_final_status test_env c3' = (GRPC_STATUS_CANCELLED, Some [])"
    unfolding get_final_status_refines st3
    by (simp add: spec_final_status_def spec_select_def status_sources_def
        List.map_filter_simps acceptable_def test_env_def)
  from w1 have 1: "trace c1' = [Cq_end_op 7
                       (GRPC_ERROR_CREATE_REFERENCING ''Call batch failed''
                          [GRPC_ERROR_CANCELLED, GRPC_ERROR_CREATE ''reset''])
                       (finish_batch_completion_of 1)]"
    unfolding r1 t1 by (auto simp: zero_bctl_def zero_op_def z)
  from w2 have 2: "trace c2' = [Cq_end_op 9 GRPC_ERROR_NONE (finish_batch_completion_of 5)] \<and>
         final_op_client_status c2' = Some 5 \<and>
         final_op_client_status_details c2' = Some ''boom''"
    unfolding r2 t1 by (auto simp: g2 zero_bctl_def zero_op_def client_call_def zero_call_def)
  from w3 have 3: "trace c3' = [Closure_run 11 GRPC_ERROR_NONE] \<and>
         final_op_server_cancelled c3' = Some 1"
    unfolding r3 t1 by (auto simp: g3 zero_bctl_def zero_op_def server_call_def client_call_def zero_call_def)
  from r1 1 r2 2 r3 3 show ?thesis by blast
qed

subsection \<open>Validation of the filtered metadata\<close>

declare decimal.simps [simp del]

lemma cancel_with_error_sel:
  "trace (cancel_with_error c src e) =
     trace c @ [Call_combiner_cancel e, Execute_batch (Cancel_state e) (zero_op\<lparr>cancel_stream := True\<rparr>)]"
  "status (cancel_with_error c src e) src' =
     (if src' = src \<and> status c src = None then Some e else status c src')"
  "is_client (cancel_with_error c src e) = is_client c"
  "send_deadline (cancel_with_error c src e) = send_deadline c"
  "active_batches (cancel_with_error c src e) = active_batches c"
  "recv_state (cancel_with_error c src e) = recv_state c"
  "receiving_stream (cancel_with_error c src e) = receiving_stream c"
  by (simp_all add: cancel_with_error_def execute_batch_def set_status_from_error_def
      pack_received_status_def Let_def)

lemma final_status_of_surface:
  assumes "status c STATUS_FROM_API_OVERRIDE = None" "status c STATUS_FROM_WIRE = None"
    "status c STATUS_FROM_CORE = None" "status c STATUS_FROM_SURFACE = Some e"
    "grpc_error_has_clear_grpc_status env e"
    "fst (grpc_error_get_status env e (send_deadline c)) \<noteq> GRPC_STATUS_OK"
  shows "fst (get_final_status env c) = fst (grpc_error_get_status env e (send_deadline c))"
  using assms unfolding get_final_status_refines
  by (simp add: spec_final_status_def spec_select_def status_sources_def
      List.map_filter_simps acceptable_def split: prod.splits)

text \<open>
  C7, as amended. When the filtered initial metadata has set a stream compression and a
  message compression that are both not the identity, \<open>validate_filtered_metadata\<close>
  cancels the call with source SURFACE and status INTERNAL: it tells the call combiner,
  records the error in the slot of SURFACE if that slot is not set yet, and hands a
  cancel_stream batch to the filter stack. The final status of the call is then INTERNAL
  when no status had been recorded from API_OVERRIDE, WIRE, CORE or SURFACE (and the
  error library reads INTERNAL off the error as its explicit status).
\<close>

theorem validate_filtered_metadata_both_compressions:
  assumes "incoming_stream_compression_algorithm call \<noteq> GRPC_STREAM_COMPRESS_NONE"
    and "incoming_message_compression_algorithm call \<noteq> GRPC_MESSAGE_COMPRESS_NONE"
    and "active_batches call bctlp = Some bctl"
    and "bctl_call bctl"
  shows "\<exists>call' description.
     validate_filtered_metadata env bctlp call = Inr call' \<and>
     trace call' = trace call @
       [Entered ''validate_filtered_metadata'',
        Call_combiner_cancel (error_from_status GRPC_STATUS_INTERNAL description),
        Execute_batch (Cancel_state (error_from_status GRPC_STATUS_INTERNAL description))
          (zero_op\<lparr>cancel_stream := True\<rparr>)] \<and>
     status call' STATUS_FROM_SURFACE =
       (if status call STATUS_FROM_SURFACE = None
        then Some (error_from_status GRPC_STATUS_INTERNAL description)
        else status call STATUS_FROM_SURFACE) \<and>
     (status call STATUS_FROM_API_OVERRIDE = None \<and> status call STATUS_FROM_WIRE = None \<and>
      status call STATUS_FROM_CORE = None \<and> status call STATUS_FROM_SURFACE = None \<and>
      grpc_error_has_clear_grpc_status env (error_from_status GRPC_STATUS_INTERNAL description) \<and>
      fst (grpc_error_get_status env (error_from_status GRPC_STATUS_INTERNAL description)
             (send_deadline call)) = GRPC_STATUS_INTERNAL \<longrightarrow>
      fst (get_final_status env call') = GRPC_STATUS_INTERNAL)"
proof -
  define d where "d = ''Incoming stream has both stream compression ('' @
                       decimal (incoming_stream_compression_algorithm call) @
                       '') and message compression ('' @
                       decimal (incoming_message_compression_algorithm call) @ '').''"
  define c where "c = cancel_with_status
              (call\<lparr>trace := trace call @ [Entered ''validate_filtered_metadata'']\<rparr>)
              STATUS_FROM_SURFACE GRPC_STATUS_INTERNAL d"
  have r: "validate_filtered_metadata env bctlp call = Inr c"
    using assms unfolding c_def d_def by (simp add: validate_filtered_metadata_def Let_def)
  have t: "trace c = trace call @
       [Entered ''validate_filtered_metadata'',
        Call_combiner_cancel (error_from_status GRPC_STATUS_INTERNAL d),
        Execute_batch (Cancel_state (error_from_status GRPC_STATUS_INTERNAL d))
          (zero_op\<lparr>cancel_stream := True\<rparr>)]"
    unfolding c_def by (simp add: cancel_with_status_def cancel_with_error_sel)
  have s: "status c src =
       (if src = STATUS_FROM_SURFACE \<and> status call STATUS_FROM_SURFACE = None
        then Some (error_from_status GRPC_STATUS_INTERNAL d)
        else status call src)" for src
    unfolding c_def by (simp add: cancel_with_status_def cancel_with_error_sel)
  have dl: "send_deadline c = send_deadline call"
    unfolding c_def by (simp add: cancel_with_status_def cancel_with_error_sel)
  have f: "fst (get_final_status env c) = GRPC_STATUS_INTERNAL"
    if "status call STATUS_FROM_API_OVERRIDE = None \<and> status call STATUS_FROM_WIRE = None \<and>
      status call STATUS_FROM_CORE = None \<and> status call STATUS_FROM_SURFACE = None \<and>
      grpc_error_has_clear_grpc_status env (error_from_status GRPC_STATUS_INTERNAL d) \<and>
      fst (grpc_error_get_status env (error_from_status GRPC_STATUS_INTERNAL d)
             (send_deadline call)) = GRPC_STATUS_INTERNAL"
    using final_status_of_surface [of c "error_from_status GRPC_STATUS_INTERNAL d" env] that
    by (simp add: s dl)
  show ?thesis
    apply (rule exI [of _ c], rule exI [of _ d])
    using r t s [of STATUS_FROM_SURFACE] f by simp
qed

theorem validate_filtered_metadata_both_compressions_witness:
  "\<exists>call'. validate_filtered_metadata test_env 3
      (client_call\<lparr>active_batches := (\<lambda>_. None)(3 := Some (zero_bctl\<lparr>bctl_call := True\<rparr>)),
         incoming_stream_compression_algorithm := 1,
         incoming_message_compression_algorithm := 2\<rparr>) = Inr call' \<and>
     dispatched (trace call') = 1 \<and>
     fst (get_final_status test_env call') = GRPC_STATUS_INTERNAL"
proof -
  let ?c = "client_call\<lparr>active_batches := (\<lambda>_. None)(3 := Some (zero_bctl\<lparr>bctl_call := True\<rparr>)),
         incoming_stream_compression_algorithm := 1,
         incoming_message_compression_algorithm := 2\<rparr>"
  have u: "status ?c = (\<lambda>_. None)" "trace ?c = []"
    by (simp_all add: client_call_def zero_call_def)
  have e: "grpc_error_has_clear_grpc_status test_env (error_from_status GRPC_STATUS_INTERNAL d)"
    "fst (grpc_error_get_status test_env (error_from_status GRPC_STATUS_INTERNAL d) dl) =
       GRPC_STATUS_INTERNAL" for d dl
    by (simp_all add: test_env_def error_from_status_def)
  from validate_filtered_metadata_both_compressions [of ?c 3 "zero_bctl\<lparr>bctl_call := True\<rparr>" test_env]
  obtain call' d where "validate_filtered_metadata test_env 3 ?c = Inr call'"
    "trace call' = trace ?c @
       [Entered ''validate_filtered_metadata'',
        Call_combiner_cancel (error_from_status GRPC_STATUS_INTERNAL d),
        Execute_batch (Cancel_state (error_from_status GRPC_STATUS_INTERNAL d))
          (zero_op\<lparr>cancel_stream := True\<rparr>)]"
    "fst (get_final_status test_env call') = GRPC_STATUS_INTERNAL"
    unfolding u by (auto simp: e zero_bctl_def)
  then show ?thesis
    unfolding u by (auto simp: dispatched_def)
qed

text \<open>
  The claim as stated fails: on a client call that the application has cancelled, the
  validation records INTERNAL for SURFACE, and the final status is CANCELLED.
\<close>

theorem validate_filtered_metadata_final_status_counterexample:
  "map_sum id (fst \<circ> get_final_status test_env)
     (validate_filtered_metadata test_env 3
        (cancel_with_error
           (client_call\<lparr>active_batches := (\<lambda>_. None)(3 := Some (zero_bctl\<lparr>bctl_call := True\<rparr>)),
              incoming_stream_compression_algorithm := 1,
              incoming_message_compression_algorithm := 2\<rparr>)
           STATUS_FROM_API_OVERRIDE GRPC_ERROR_CANCELLED)) = Inr GRPC_STATUS_CANCELLED"
  by (simp add: validate_filtered_metadata_def cancel_with_status_def cancel_with_error_def
      execute_batch_def set_status_from_error_def pack_received_status_def Let_def
      client_call_def zero_call_def zero_bctl_def final_status_exec)

subsection \<open>Call creation\<close>

lemma add_init_error_not_none:
  "new \<noteq> GRPC_ERROR_NONE \<Longrightarrow> add_init_error composite new \<noteq> GRPC_ERROR_NONE"
  "composite \<noteq> GRPC_ERROR_NONE \<Longrightarrow> add_init_error composite new \<noteq> GRPC_ERROR_NONE"
  by (simp_all add: add_init_error_def)

lemma store_extra_metadata_frame:
  "\<exists>m. store_extra_metadata mds i c = c\<lparr>send_extra_metadata := m\<rparr>"
proof (induction mds arbitrary: i c)
  case Nil
  show ?case by (auto intro: exI [of _ "send_extra_metadata c"])
next
  case (Cons md mds)
  from Cons [of "Suc i" "c\<lparr>send_extra_metadata := (send_extra_metadata c)(i := md)\<rparr>"]
  show ?case by auto
qed

lemma attach_to_parent_census:
  assumes "attach_to_parent env args self pa parent c0 dl0 = Inr (c, parent', err, dl, ic)"
    and "(propagation_mask args AND GRPC_PROPAGATE_CENSUS_STATS_CONTEXT env \<noteq> 0) \<noteq>
         (propagation_mask args AND GRPC_PROPAGATE_CENSUS_TRACING_CONTEXT env \<noteq> 0)"
  shows "err = grpc_error_add_child (GRPC_ERROR_CREATE ''Call creation failed'')
           (GRPC_ERROR_CREATE
              (if propagation_mask args AND GRPC_PROPAGATE_CENSUS_TRACING_CONTEXT env \<noteq> 0
               then ''Census tracing propagation requested without Census context propagation''
               else ''Census context propagation requested without Census tracing propagation''))"
    and "status c = status c0" and "trace c = trace c0"
  using assms
  by (auto simp: attach_to_parent_def Let_def bind_eq_Inr add_init_error_def
      split: if_splits prod.splits)

lemma create_before_parent_sel:
  assumes "create_before_parent args = Inr c"
  shows "status c = (\<lambda>_. None)" "trace c = []"
  using assms store_extra_metadata_frame [of "add_initial_metadata args" 0
      "zero_call\<lparr>cq := args_cq args,
                 encodings_accepted_by_peer := GPR_BITSET 0 (of_nat GRPC_MESSAGE_COMPRESS_NONE),
                 is_client := \<not> server_transport_data args\<rparr>"]
  by (auto simp: create_before_parent_def Let_def bind_eq_Inr zero_call_def split: if_splits)

lemma pollent_self: "\<exists>p. (c :: grpc_call) = c\<lparr>pollent := p\<rparr>"
  by (rule exI [of _ "pollent c"]) simp

lemma create_after_parent_sel:
  assumes "create_after_parent args stack_init c3 err0 dl ic = Inr (err, call)"
    and "err0 \<noteq> GRPC_ERROR_NONE"
  shows "err = add_init_error err0 stack_init \<and> err \<noteq> GRPC_ERROR_NONE \<and>
     status call STATUS_FROM_SURFACE =
       (if status c3 STATUS_FROM_SURFACE = None then Some err else status c3 STATUS_FROM_SURFACE) \<and>
     take 2 (drop (length (trace c3)) (trace call)) =
       [Call_combiner_cancel err,
        Execute_batch (Cancel_state err) (zero_op\<lparr>cancel_stream := True\<rparr>)]"
proof -
  define e where "e = add_init_error err0 stack_init"
  have ne: "e \<noteq> GRPC_ERROR_NONE"
    unfolding e_def using assms(2) by (rule add_init_error_not_none)
  define c6 where "c6 =
    (if ic then cancel_with_error (cancel_with_error (c3\<lparr>send_deadline := dl\<rparr>) STATUS_FROM_SURFACE e)
                  STATUS_FROM_API_OVERRIDE GRPC_ERROR_CANCELLED
     else cancel_with_error (c3\<lparr>send_deadline := dl\<rparr>) STATUS_FROM_SURFACE e)"
  have c6: "status c6 STATUS_FROM_SURFACE =
       (if status c3 STATUS_FROM_SURFACE = None then Some e else status c3 STATUS_FROM_SURFACE)"
    "take 2 (drop (length (trace c3)) (trace c6)) =
       [Call_combiner_cancel e,
        Execute_batch (Cancel_state e) (zero_op\<lparr>cancel_stream := True\<rparr>)]"
    by (simp_all add: c6_def cancel_with_error_sel)
  from assms(1) ne have "err = e \<and> (\<exists>p. call = c6\<lparr>pollent := p\<rparr>)"
    unfolding create_after_parent_def Let_def e_def [symmetric] c6_def
    by (auto simp: bind_eq_Inr pollent_self split: option.splits)
  with c6 ne show ?thesis
    unfolding e_def by auto
qed

text \<open>
  C10. When a call is created under a parent and the propagation mask asks for exactly
  one of the census stats context and the census tracing context, creation returns an
  error: the aggregate ''Call creation failed'' with the census error as child (and the
  error of the stack initialisation, if any, as a further child). The call is cancelled
  with that error from source SURFACE: the error is in the slot of SURFACE, the call
  combiner is told, and a cancel_stream batch goes to the filter stack. This holds for
  stats without tracing as it does for tracing without stats.
\<close>

theorem grpc_call_create_census_mask:
  assumes run: "grpc_call_create env args self stack_init = Inr (err, call, parent')"
    and parent: "parent_call args = Some (parent_addr, parent)"
    and one: "(propagation_mask args AND GRPC_PROPAGATE_CENSUS_STATS_CONTEXT env \<noteq> 0) \<noteq>
              (propagation_mask args AND GRPC_PROPAGATE_CENSUS_TRACING_CONTEXT env \<noteq> 0)"
  shows "err = add_init_error
           (grpc_error_add_child (GRPC_ERROR_CREATE ''Call creation failed'')
              (GRPC_ERROR_CREATE
                 (if propagation_mask args AND GRPC_PROPAGATE_CENSUS_TRACING_CONTEXT env \<noteq> 0
                  then ''Census tracing propagation requested without Census context propagation''
                  else ''Census context propagation requested without Census tracing propagation'')))
           stack_init \<and>
     err \<noteq> GRPC_ERROR_NONE \<and>
     status call STATUS_FROM_SURFACE = Some err \<and>
     take 2 (trace call) =
       [Call_combiner_cancel err,
        Execute_batch (Cancel_state err) (zero_op\<lparr>cancel_stream := True\<rparr>)]"
proof -
  from run parent obtain c2 c3 p1 err0 dl ic where
    b: "create_before_parent args = Inr c2"
    and a: "attach_to_parent env args self parent_addr parent c2 (args_send_deadline args) =
              Inr (c3, p1, err0, dl, ic)"
    and f: "create_after_parent args stack_init c3 err0 dl ic = Inr (err, call)"
    by (auto simp: grpc_call_create_def bind_eq_Inr)
  note c2 = create_before_parent_sel [OF b]
  note c3 = attach_to_parent_census [OF a one]
  have e0: "err0 \<noteq> GRPC_ERROR_NONE"
    unfolding c3(1) by simp
  have "err = add_init_error err0 stack_init \<and> err \<noteq> GRPC_ERROR_NONE \<and>
     status call STATUS_FROM_SURFACE = Some err \<and>
     take 2 (trace call) =
       [Call_combiner_cancel err,
        Execute_batch (Cancel_state err) (zero_op\<lparr>cancel_stream := True\<rparr>)]"
    using create_after_parent_sel [OF f e0] c2 c3(2,3) e0
    by (simp add: add_init_error_not_none)
  then show ?thesis
    unfolding c3(1) .
qed

theorem grpc_call_create_census_mask_witness:
  "\<exists>call parent'.
     grpc_call_create test_env
       \<lparr>args_cq = Some 0, pollset_set_alternative = None, server_transport_data = False,
        add_initial_metadata = [], args_send_deadline = Inf_future,
        propagation_mask = 2, parent_call = Some (1, server_call)\<rparr> 2 GRPC_ERROR_NONE =
       Inr (grpc_error_add_child (GRPC_ERROR_CREATE ''Call creation failed'')
              (GRPC_ERROR_CREATE
                 ''Census context propagation requested without Census tracing propagation''),
            call, parent') \<and>
     status call STATUS_FROM_SURFACE =
       Some (grpc_error_add_child (GRPC_ERROR_CREATE ''Call creation failed'')
               (GRPC_ERROR_CREATE
                  ''Census context propagation requested without Census tracing propagation'')) \<and>
     dispatched (take 2 (trace call)) = 1"
proof -
  let ?args = "\<lparr>args_cq = Some 0, pollset_set_alternative = None, server_transport_data = False,
        add_initial_metadata = [], args_send_deadline = Inf_future,
        propagation_mask = 2, parent_call = Some (1, server_call)\<rparr>"
  have m: "(propagation_mask ?args AND GRPC_PROPAGATE_CENSUS_STATS_CONTEXT test_env \<noteq> 0) \<noteq>
           (propagation_mask ?args AND GRPC_PROPAGATE_CENSUS_TRACING_CONTEXT test_env \<noteq> 0)"
    "propagation_mask ?args AND GRPC_PROPAGATE_CENSUS_TRACING_CONTEXT test_env = 0"
    by (simp_all add: test_env_def)
  have p: "parent_call ?args = Some (1, server_call)"
    by simp
  obtain err call parent' where
    r: "grpc_call_create test_env ?args 2 GRPC_ERROR_NONE = Inr (err, call, parent')"
    by (simp add: grpc_call_create_def create_before_parent_def create_after_parent_def
        attach_to_parent_def Let_def test_env_def server_call_def client_call_def zero_call_def
        add_init_error_def)
  from grpc_call_create_census_mask [OF r p m(1)] r show ?thesis
    unfolding m(2) by (auto simp: add_init_error_def dispatched_def)
qed

subsection \<open>Starting a batch\<close>

lemma prepare_application_metadata_frame:
  assumes "prepare_application_metadata env c mds t pre a = (ok, c')"
  shows "\<exists>mb k. c' = c\<lparr>metadata_batch := mb, send_extra_metadata_count := k\<rparr> \<and>
           (ok \<longrightarrow> k = 0)"
    and "ok = list_all (md_is_legal env) (mds @ a)"
proof -
  show "ok = list_all (md_is_legal env) (mds @ a)"
    using assms by (auto simp: prepare_application_metadata_def Let_def split: if_splits)
  show "\<exists>mb k. c' = c\<lparr>metadata_batch := mb, send_extra_metadata_count := k\<rparr> \<and>
           (ok \<longrightarrow> k = 0)"
  proof (cases ok)
    case True
    with assms show ?thesis
      unfolding prepare_application_metadata_def Let_def
      by (auto split: if_splits)
  next
    case False
    with assms have "c' = c"
      by (auto simp: prepare_application_metadata_def Let_def split: if_splits)
    then have "c' = c\<lparr>metadata_batch := metadata_batch c,
        send_extra_metadata_count := send_extra_metadata_count c\<rparr>"
      by simp
    with False show ?thesis by blast
  qed
qed


lemma done_with_error_flags:
  "sent_initial_metadata (done_with_error c stream_op) =
     (sent_initial_metadata c \<and> \<not> send_initial_metadata stream_op)"
  "sending_message (done_with_error c stream_op) =
     (sending_message c \<and> \<not> send_message stream_op)"
  "sent_final_op (done_with_error c stream_op) =
     (sent_final_op c \<and> \<not> send_trailing_metadata stream_op)"
  "received_initial_metadata (done_with_error c stream_op) =
     (received_initial_metadata c \<and> \<not> recv_initial_metadata stream_op)"
  "receiving_message (done_with_error c stream_op) =
     (receiving_message c \<and> \<not> recv_message stream_op)"
  "requested_final_op (done_with_error c stream_op) =
     (requested_final_op c \<and> \<not> recv_trailing_metadata stream_op)"
  by (simp_all add: done_with_error_def Let_def)

lemma done_with_error_frame:
  "trace (done_with_error c stream_op) = trace c"
  "active_batches (done_with_error c stream_op) = active_batches c"
  "is_client (done_with_error c stream_op) = is_client c"
  "cq (done_with_error c stream_op) = cq c"
  "status (done_with_error c stream_op) = status c"
  "recv_state (done_with_error c stream_op) = recv_state c"
  by (simp_all add: done_with_error_def Let_def)

lemma op_recv_initial_metadata_step:
  "op_step_ok GRPC_OP_RECV_INITIAL_METADATA c stream_op (op_recv_initial_metadata p c stream_op n)"
  by (simp add: op_step_ok_def op_recv_initial_metadata_def done_with_error_flags op_flags_def)

lemma op_recv_message_step:
  "op_step_ok GRPC_OP_RECV_MESSAGE c stream_op (op_recv_message p c stream_op n)"
  by (simp add: op_step_ok_def op_recv_message_def done_with_error_flags op_flags_def)

lemma op_recv_status_on_client_step:
  "op_step_ok GRPC_OP_RECV_STATUS_ON_CLIENT c stream_op (op_recv_status_on_client p c stream_op n)"
  by (simp add: op_step_ok_def op_recv_status_on_client_def done_with_error_flags op_flags_def)

lemma op_recv_close_on_server_step:
  "op_step_ok GRPC_OP_RECV_CLOSE_ON_SERVER c stream_op (op_recv_close_on_server p c stream_op n)"
  by (simp add: op_step_ok_def op_recv_close_on_server_def done_with_error_flags op_flags_def)

lemma op_send_close_from_client_step:
  "op_step_ok GRPC_OP_SEND_CLOSE_FROM_CLIENT c stream_op (op_send_close_from_client p c stream_op n)"
  by (simp add: op_step_ok_def op_send_close_from_client_def done_with_error_flags op_flags_def)

lemma op_send_message_step:
  "op_step_ok GRPC_OP_SEND_MESSAGE c stream_op (op_send_message env p c stream_op n)"
  by (simp add: op_step_ok_def op_send_message_def done_with_error_flags op_flags_def Let_def
      split: option.splits)


lemma prepare_application_metadata_snd:
  "\<exists>mb k. snd (prepare_application_metadata env c mds t pre a) =
             c\<lparr>metadata_batch := mb, send_extra_metadata_count := k\<rparr> \<and>
           (fst (prepare_application_metadata env c mds t pre a) \<longrightarrow> k = 0)"
  using prepare_application_metadata_frame(1) [of env c mds t pre a
      "fst (prepare_application_metadata env c mds t pre a)"
      "snd (prepare_application_metadata env c mds t pre a)"]
  by simp

lemma process_compression_level_frame:
  "\<exists>cm. fst (process_compression_level env p c) = c\<lparr>compression_md := cm\<rparr>"
  by (auto simp: process_compression_level_def Let_def split: option.splits)

lemma op_send_initial_metadata_step:
  "op_step_ok GRPC_OP_SEND_INITIAL_METADATA c stream_op
     (op_send_initial_metadata env p c stream_op n)"
proof -
  obtain cm where c2: "fst (process_compression_level env p c) = c\<lparr>compression_md := cm\<rparr>"
    using process_compression_level_frame by blast
  define prepared where "prepared = prepare_application_metadata env
      (c\<lparr>compression_md := cm\<rparr>\<lparr>sent_initial_metadata := True\<rparr>)
      (send_initial_metadata_metadata (data p)) False
      (is_client (c\<lparr>compression_md := cm\<rparr>\<lparr>sent_initial_metadata := True\<rparr>))
      (replicate (snd (process_compression_level env p c))
         (compression_md (c\<lparr>compression_md := cm\<rparr>\<lparr>sent_initial_metadata := True\<rparr>)))"
  obtain mb j where c4: "snd prepared =
      c\<lparr>compression_md := cm, sent_initial_metadata := True, metadata_batch := mb,
        send_extra_metadata_count := j\<rparr>" and j: "fst prepared \<longrightarrow> j = 0"
    unfolding prepared_def
    using prepare_application_metadata_snd [of env
        "c\<lparr>compression_md := cm\<rparr>\<lparr>sent_initial_metadata := True\<rparr>"
        "send_initial_metadata_metadata (data p)" False
        "is_client (c\<lparr>compression_md := cm\<rparr>\<lparr>sent_initial_metadata := True\<rparr>)"
        "replicate (snd (process_compression_level env p c))
           (compression_md (c\<lparr>compression_md := cm\<rparr>\<lparr>sent_initial_metadata := True\<rparr>))"]
    by blast
  show ?thesis
    unfolding op_step_ok_def op_send_initial_metadata_def Let_def c2 prepared_def [symmetric] c4
    using j by (simp add: done_with_error_flags op_flags_def)
qed

lemma op_send_status_from_server_step:
  assumes "op_send_status_from_server env p c stream_op n = Inr r"
  shows "op_step_ok GRPC_OP_SEND_STATUS_FROM_SERVER c stream_op r"
proof -
  define c3 where "c3 = (c\<lparr>sent_final_op := True\<rparr>)\<lparr>send_extra_metadata_count := 1,
                          send_extra_metadata := (send_extra_metadata (c\<lparr>sent_final_op := True\<rparr>))
                            (0 := grpc_channel_get_reffed_status_elem env (send_status (data p)))\<rparr>"
  define c4 where "c4 =
              (case send_status_details (data p) of
                 None \<Rightarrow> c3
               | Some details \<Rightarrow>
                   c3\<lparr>send_extra_metadata := (send_extra_metadata c3)
                            (1 := \<lparr>GRPC_MDKEY = GRPC_MDSTR_GRPC_MESSAGE, GRPC_MDVALUE = details,
                                   user_data = None\<rparr>),
                          send_extra_metadata_count := send_extra_metadata_count c3 + 1\<rparr>)"
  define oe where "oe =
              (case send_status_details (data p) of
                 None \<Rightarrow> (if send_status (data p) \<noteq> GRPC_STATUS_OK
                              then GRPC_ERROR_CREATE ''Error from server send status''
                              else GRPC_ERROR_NONE)
               | Some details \<Rightarrow>
                   grpc_error_set_str (if send_status (data p) \<noteq> GRPC_STATUS_OK
                              then GRPC_ERROR_CREATE ''Error from server send status''
                              else GRPC_ERROR_NONE) GRPC_ERROR_STR_GRPC_MESSAGE
                     (takeWhile (\<lambda>ch. ch \<noteq> CHR 0x00) details))"
  define prepared where "prepared = prepare_application_metadata env
      (set_status_from_error c4 STATUS_FROM_API_OVERRIDE oe) (trailing_metadata (data p))
      True True []"
  have "c4 = c\<lparr>sent_final_op := True, send_extra_metadata := send_extra_metadata c4,
      send_extra_metadata_count := send_extra_metadata_count c4\<rparr>"
    unfolding c4_def c3_def by (simp split: option.splits)
  then obtain m k where c4': "c4 = c\<lparr>sent_final_op := True, send_extra_metadata := m,
      send_extra_metadata_count := k\<rparr>" by blast
  obtain st where c5: "set_status_from_error (c\<lparr>sent_final_op := True, send_extra_metadata := m,
      send_extra_metadata_count := k\<rparr>) STATUS_FROM_API_OVERRIDE oe =
      c\<lparr>sent_final_op := True, send_extra_metadata := m,
      send_extra_metadata_count := k\<rparr>\<lparr>status := st\<rparr>"
    using set_status_from_error_frame by blast
  obtain mb j where c6: "snd prepared = c\<lparr>sent_final_op := True, send_extra_metadata := m,
      status := st, metadata_batch := mb, send_extra_metadata_count := j\<rparr>"
    and j: "fst prepared \<longrightarrow> j = 0"
    unfolding prepared_def c4' c5
    using prepare_application_metadata_snd [of env "c\<lparr>sent_final_op := True, send_extra_metadata := m,
      send_extra_metadata_count := k\<rparr>\<lparr>status := st\<rparr>" "trailing_metadata (data p)" True True "[]"]
    by auto
  have u: "op_send_status_from_server env p c stream_op n =
     (if flags p \<noteq> 0 then Inr (GRPC_CALL_ERROR_INVALID_FLAGS, c, stream_op, n)
      else if is_client c then Inr (GRPC_CALL_ERROR_NOT_ON_CLIENT, c, stream_op, n)
      else if sent_final_op c then Inr (GRPC_CALL_ERROR_TOO_MANY_OPERATIONS, c, stream_op, n)
      else if length (trailing_metadata (data p)) > INT_MAX
      then Inr (GRPC_CALL_ERROR_INVALID_METADATA, c, stream_op, n)
      else if send_extra_metadata_count c \<noteq> 0 then Inl Assert_failed
      else if \<not> fst prepared
           then Inr (GRPC_CALL_ERROR_INVALID_METADATA, (snd prepared)\<lparr>send_extra_metadata_count := 0\<rparr>,
                     stream_op\<lparr>send_trailing_metadata := True\<rparr>, n)
           else Inr (GRPC_CALL_OK, snd prepared, stream_op\<lparr>send_trailing_metadata := True\<rparr>, n))"
    unfolding op_send_status_from_server_def Let_def prepared_def oe_def c4_def c3_def
    by (simp add: GPR_ASSERT_def)
  show ?thesis
    using assms j unfolding u c6 op_step_ok_def
    by (auto simp: done_with_error_flags op_flags_def split: if_splits)
qed


lemma op_step_ok_reserved:
  "op_step_ok t c stream_op (GRPC_CALL_ERROR, c, stream_op, n)"
  by (simp add: op_step_ok_def op_flags_def)

lemma start_batch_op_step:
  assumes "start_batch_op env p c stream_op n = Inr r"
  shows "op_step_ok (op p) c stream_op r"
proof (cases "reserved p")
  case True
  with assms show ?thesis
    by (auto simp: start_batch_op_def op_step_ok_reserved)
next
  case False
  with assms show ?thesis
    by (cases "op p")
      (auto simp: start_batch_op_def op_send_initial_metadata_step op_send_message_step
        op_send_close_from_client_step op_send_status_from_server_step
        op_recv_initial_metadata_step op_recv_message_step op_recv_status_on_client_step
        op_recv_close_on_server_step)
qed

lemma flag_of_op_mono:
  "list_all2 (\<longrightarrow>) (op_flags c) (op_flags c') \<Longrightarrow> flag_of_op t c \<Longrightarrow> flag_of_op t c'"
  by (cases t) (simp_all add: op_flags_def)

lemma op_flags_mono_trans:
  "list_all2 (\<longrightarrow>) (op_flags c) (op_flags c1) \<Longrightarrow> list_all2 (\<longrightarrow>) (op_flags c1) (op_flags c2) \<Longrightarrow>
   list_all2 (\<longrightarrow>) (op_flags c) (op_flags c2)"
  by (simp add: op_flags_def)

lemma start_batch_ops_ok:
  assumes "start_batch_ops env ops c stream_op n = Inr (e, c', stream_op', n')"
  shows "op_flags (done_with_error c' stream_op') = op_flags (done_with_error c stream_op) \<and>
     trace c' = trace c \<and> active_batches c' = active_batches c \<and>
     is_client c' = is_client c \<and> cq c' = cq c \<and>
     encodings_accepted_by_peer c' = encodings_accepted_by_peer c \<and>
     (e = GRPC_CALL_OK \<longrightarrow> (\<forall>p \<in> set ops. flag_of_op (op p) c')) \<and>
     list_all2 (\<longrightarrow>) (op_flags c) (op_flags c') \<and>
     (e = GRPC_CALL_OK \<longrightarrow>
        (\<exists>p \<in> set ops. op p = GRPC_OP_SEND_INITIAL_METADATA) \<or> send_extra_metadata_count c = 0 \<longrightarrow>
        send_extra_metadata_count c' = 0)"
  using assms
proof (induction ops arbitrary: c stream_op n)
  case Nil
  then show ?case by (simp add: op_flags_def)
next
  case (Cons p ps)
  from Cons.prems obtain e1 c1 s1 n1 where
    step: "start_batch_op env p c stream_op n = Inr (e1, c1, s1, n1)"
    and rest: "(if e1 \<noteq> GRPC_CALL_OK then Inr (e1, c1, s1, n1)
                else start_batch_ops env ps c1 s1 n1) = Inr (e, c', stream_op', n')"
    by (auto simp: bind_eq_Inr)
  have s: "op_step_ok (op p) c stream_op (e1, c1, s1, n1)"
    using step by (rule start_batch_op_step)
  show ?case
  proof (cases "e1 = GRPC_CALL_OK")
    case False
    with rest have "e = e1" "c' = c1" "stream_op' = s1" by simp_all
    with s False show ?thesis by (simp add: op_step_ok_def)
  next
    case True
    with rest have r: "start_batch_ops env ps c1 s1 n1 = Inr (e, c', stream_op', n')" by simp
    note ih = Cons.IH [OF r]
    from s True have s': "op_flags (done_with_error c1 s1) = op_flags (done_with_error c stream_op)"
      "trace c1 = trace c" "active_batches c1 = active_batches c" "is_client c1 = is_client c"
      "cq c1 = cq c" "encodings_accepted_by_peer c1 = encodings_accepted_by_peer c"
      "flag_of_op (op p) c1" "list_all2 (\<longrightarrow>) (op_flags c) (op_flags c1)"
      "op p = GRPC_OP_SEND_INITIAL_METADATA \<or> send_extra_metadata_count c = 0 \<longrightarrow>
         send_extra_metadata_count c1 = 0"
      by (simp_all add: op_step_ok_def)
    have m: "list_all2 (\<longrightarrow>) (op_flags c) (op_flags c')"
      using s'(8) ih by (blast intro: op_flags_mono_trans)
    have f: "flag_of_op (op p) c'"
      using ih s'(7) by (blast intro: flag_of_op_mono)
    from ih s' m f show ?thesis by auto
  qed
qed

lemma allocate_batch_control_eq:
  "allocate_batch_control call ops =
     (if \<exists>b. active_batches call (batch_slot_for_op (op (hd ops))) = Some b \<and> bctl_call b
      then (call, None)
      else (call\<lparr>active_batches := (active_batches call)
              (batch_slot_for_op (op (hd ops)) := Some (zero_bctl\<lparr>bctl_call := True\<rparr>))\<rparr>,
            Some (batch_slot_for_op (op (hd ops)))))"
proof (cases "active_batches call (batch_slot_for_op (op (hd ops)))")
  case None
  have "\<not> bctl_call zero_bctl" by (simp add: zero_bctl_def)
  with None show ?thesis by (simp add: allocate_batch_control_def Let_def)
next
  case (Some b)
  then show ?thesis by (simp add: allocate_batch_control_def Let_def)
qed

lemma slot_in_use_iff:
  "(\<exists>b. active_batches call s = Some b \<and> bctl_call b) = slot_in_use call s"
  by (cases "active_batches call s") (simp_all add: slot_in_use_def)

lemma call_start_batch_busy:
  assumes "ops \<noteq> []" "slot_in_use call (batch_slot_for_op (op (hd ops)))"
  shows "call_start_batch env call ops tag cl = Inr (GRPC_CALL_ERROR_TOO_MANY_OPERATIONS, call)"
  using assms by (simp add: call_start_batch_def allocate_batch_control_eq slot_in_use_iff)

lemma call_start_batch_free:
  assumes run: "call_start_batch env call ops tag cl = Inr (e, call')"
    and ops: "ops \<noteq> []" and free: "\<not> slot_in_use call (batch_slot_for_op (op (hd ops)))"
  obtains c2 sop n c3 where
    "start_batch_ops env ops
       (call\<lparr>active_batches := (active_batches call)
          (batch_slot_for_op (op (hd ops)) := Some (zero_bctl\<lparr>bctl_call := True\<rparr>))\<rparr>)
       zero_op 1 = Inr (e, c2, sop, n)"
    "e \<noteq> GRPC_CALL_OK \<Longrightarrow>
       call' = done_with_error
         (c2\<lparr>active_batches := (active_batches c2)
            (batch_slot_for_op (op (hd ops)) :=
               Some (zero_bctl\<lparr>bctl_call := True, notify_tag := tag, is_closure := cl,
                              bctl_op := sop\<rparr>))\<rparr>) sop"
    "c3 = c2 \<or> c3 = c2\<lparr>trace := trace c2 @ [Cq_begin_op tag]\<rparr>"
    "e = GRPC_CALL_OK \<Longrightarrow>
       call' = execute_batch
         (c3\<lparr>active_batches := (active_batches c3)
            (batch_slot_for_op (op (hd ops)) :=
               Some (zero_bctl\<lparr>bctl_call := True, notify_tag := tag, is_closure := cl,
                              bctl_op := sop, steps_to_complete := n\<rparr>)),
             any_ops_sent_atm := 1\<rparr>) (Bctl (batch_slot_for_op (op (hd ops)))) sop"
proof -
  define c1 where "c1 = call\<lparr>active_batches := (active_batches call)
          (batch_slot_for_op (op (hd ops)) := Some (zero_bctl\<lparr>bctl_call := True\<rparr>))\<rparr>"
  from run ops free obtain r where
    loop: "start_batch_ops env ops c1 zero_op 1 = Inr r"
    unfolding call_start_batch_def allocate_batch_control_eq slot_in_use_iff c1_def
    by (cases "start_batch_ops env ops (call\<lparr>active_batches := (active_batches call)
          (batch_slot_for_op (op (hd ops)) := Some (zero_bctl\<lparr>bctl_call := True\<rparr>))\<rparr>) zero_op 1")
      simp_all
  obtain e1 c2 sop n where r: "r = (e1, c2, sop, n)" by (cases r)
  from run ops free loop have
    rest: "(if e1 \<noteq> GRPC_CALL_OK
              then Inr (e1, done_with_error
                            (c2\<lparr>active_batches := (active_batches c2)
                                      (batch_slot_for_op (op (hd ops)) :=
                Some (zero_bctl\<lparr>bctl_call := True, notify_tag := tag, is_closure := cl,
                              bctl_op := sop\<rparr>))\<rparr>) sop)
              else
                bind (if \<not> cl
                      then (case cq c2 of
                              None \<Rightarrow> Inl Null_dereference
                            | Some _ \<Rightarrow>
                                GPR_ASSERT (grpc_cq_begin_op env tag)
                                  (c2\<lparr>trace := trace c2 @ [Cq_begin_op tag]\<rparr>))
                      else Inr c2)
                  (\<lambda>call3.
                     Inr (GRPC_CALL_OK,
                          execute_batch
                            (call3\<lparr>active_batches := (active_batches call3)
                                      (batch_slot_for_op (op (hd ops)) := 
                Some (zero_bctl\<lparr>bctl_call := True, notify_tag := tag, is_closure := cl,
                              bctl_op := sop, steps_to_complete := n\<rparr>)),
                                    any_ops_sent_atm := 1\<rparr>)
                            (Bctl (batch_slot_for_op (op (hd ops)))) sop))) = Inr (e, call')"
    unfolding call_start_batch_def allocate_batch_control_eq slot_in_use_iff c1_def r
    by (simp add: Let_def)
  show thesis
  proof (cases "e1 = GRPC_CALL_OK")
    case False
    with rest have "e = e1" and c: "call' = done_with_error
                            (c2\<lparr>active_batches := (active_batches c2)
                                      (batch_slot_for_op (op (hd ops)) :=
                Some (zero_bctl\<lparr>bctl_call := True, notify_tag := tag, is_closure := cl,
                              bctl_op := sop\<rparr>))\<rparr>) sop"
      by simp_all
    with False loop r show thesis
      by (intro that [of c2 sop n c2]) (simp_all add: c1_def)
  next
    case True
    with rest obtain c3 where
      c3: "(if \<not> cl
                      then (case cq c2 of
                              None \<Rightarrow> Inl Null_dereference
                            | Some _ \<Rightarrow>
                                GPR_ASSERT (grpc_cq_begin_op env tag)
                                  (c2\<lparr>trace := trace c2 @ [Cq_begin_op tag]\<rparr>))
                      else Inr c2) = Inr c3"
      and res: "e = GRPC_CALL_OK" "call' = execute_batch
         (c3\<lparr>active_batches := (active_batches c3)
            (batch_slot_for_op (op (hd ops)) :=
               Some (zero_bctl\<lparr>bctl_call := True, notify_tag := tag, is_closure := cl,
                              bctl_op := sop, steps_to_complete := n\<rparr>)),
             any_ops_sent_atm := 1\<rparr>) (Bctl (batch_slot_for_op (op (hd ops)))) sop"
      by (auto simp: bind_eq_Inr)
    from c3 have "c3 = c2 \<or> c3 = c2\<lparr>trace := trace c2 @ [Cq_begin_op tag]\<rparr>"
      by (auto simp: GPR_ASSERT_eq_Inr split: if_splits option.splits)
    with True loop r res show thesis
      by (intro that [of c2 sop n c3]) (simp_all add: c1_def)
  qed
qed

lemma done_with_error_zero_op [simp]: "done_with_error c zero_op = c"
  by (simp add: done_with_error_def zero_op_def)

lemma flag_of_op_cong:
  "op_flags c = op_flags c' \<Longrightarrow> flag_of_op t c = flag_of_op t c'"
  by (cases t) (simp_all add: op_flags_def)

lemma call_start_batch_empty:
  assumes "call_start_batch env call [] tag cl = Inr (e, call')"
  shows "e = GRPC_CALL_OK" "op_flags call' = op_flags call"
    "active_batches call' = active_batches call"
    "dispatched (trace call') = dispatched (trace call)"
    "is_client call' = is_client call" "cq call' = cq call"
    "send_extra_metadata_count call' = send_extra_metadata_count call"
  using assms
  by (auto simp: call_start_batch_def bind_eq_Inr GPR_ASSERT_eq_Inr op_flags_def dispatched_def
      split: if_splits option.splits)

lemma call_start_batch_failed:
  assumes run: "call_start_batch env call ops tag cl = Inr (e, call')"
    and e: "e \<noteq> GRPC_CALL_OK"
  shows "ops \<noteq> []" "op_flags call' = op_flags call" "trace call' = trace call"
    "slot_in_use call' (batch_slot_for_op (op (hd ops)))"
    "\<forall>s. s \<noteq> batch_slot_for_op (op (hd ops)) \<longrightarrow> active_batches call' s = active_batches call s"
    "is_client call' = is_client call" "cq call' = cq call"
proof -
  show ops: "ops \<noteq> []"
    using run e call_start_batch_empty(1) by blast
  have "op_flags call' = op_flags call \<and> trace call' = trace call \<and>
    slot_in_use call' (batch_slot_for_op (op (hd ops))) \<and>
    (\<forall>s. s \<noteq> batch_slot_for_op (op (hd ops)) \<longrightarrow> active_batches call' s = active_batches call s) \<and>
    is_client call' = is_client call \<and> cq call' = cq call"
  proof (cases "slot_in_use call (batch_slot_for_op (op (hd ops)))")
    case True
    with run ops have "call' = call" by (simp add: call_start_batch_busy)
    with True show ?thesis by simp
  next
    case False
    obtain c2 sop n c3 where
      loop: "start_batch_ops env ops
       (call\<lparr>active_batches := (active_batches call)
          (batch_slot_for_op (op (hd ops)) := Some (zero_bctl\<lparr>bctl_call := True\<rparr>))\<rparr>)
       zero_op 1 = Inr (e, c2, sop, n)"
      and fin: "e \<noteq> GRPC_CALL_OK \<Longrightarrow>
       call' = done_with_error
         (c2\<lparr>active_batches := (active_batches c2)
            (batch_slot_for_op (op (hd ops)) :=
               Some (zero_bctl\<lparr>bctl_call := True, notify_tag := tag, is_closure := cl,
                              bctl_op := sop\<rparr>))\<rparr>) sop"
      by (rule call_start_batch_free [OF run ops False]) (rule that)
    note inv = start_batch_ops_ok [OF loop]
    from inv have f: "op_flags (done_with_error c2 sop) = op_flags call"
      by (simp add: op_flags_def)
    from inv have t: "trace c2 = trace call" "is_client c2 = is_client call" "cq c2 = cq call"
      and a: "active_batches c2 = (active_batches call)
          (batch_slot_for_op (op (hd ops)) := Some (zero_bctl\<lparr>bctl_call := True\<rparr>))"
      by simp_all
    have c: "call' = done_with_error
         (c2\<lparr>active_batches := (active_batches c2)
            (batch_slot_for_op (op (hd ops)) :=
               Some (zero_bctl\<lparr>bctl_call := True, notify_tag := tag, is_closure := cl,
                              bctl_op := sop\<rparr>))\<rparr>) sop"
      using fin e by simp
    have "op_flags call' = op_flags (done_with_error c2 sop)"
      unfolding c by (simp add: op_flags_def done_with_error_flags)
    with f have 1: "op_flags call' = op_flags call" by simp
    have 2: "trace call' = trace call" "is_client call' = is_client call" "cq call' = cq call"
      unfolding c using t by (simp_all add: done_with_error_frame)
    have 3: "active_batches call' = (active_batches c2)
            (batch_slot_for_op (op (hd ops)) :=
               Some (zero_bctl\<lparr>bctl_call := True, notify_tag := tag, is_closure := cl,
                              bctl_op := sop\<rparr>))"
      unfolding c by (simp add: done_with_error_frame)
    from 3 have 4: "slot_in_use call' (batch_slot_for_op (op (hd ops)))"
      by (simp add: slot_in_use_def)
    from 3 a have 5: "\<forall>s. s \<noteq> batch_slot_for_op (op (hd ops)) \<longrightarrow>
        active_batches call' s = active_batches call s"
      by simp
    from 1 2 4 5 show ?thesis by simp
  qed
  then show "op_flags call' = op_flags call" "trace call' = trace call"
    "slot_in_use call' (batch_slot_for_op (op (hd ops)))"
    "\<forall>s. s \<noteq> batch_slot_for_op (op (hd ops)) \<longrightarrow> active_batches call' s = active_batches call s"
    "is_client call' = is_client call" "cq call' = cq call"
    by simp_all
qed

lemma call_start_batch_succeeded:
  assumes run: "call_start_batch env call ops tag cl = Inr (GRPC_CALL_OK, call')"
    and ops: "ops \<noteq> []"
  shows "\<forall>p \<in> set ops. flag_of_op (op p) call'"
    "dispatched (trace call') = dispatched (trace call) + 1"
    "slot_in_use call' (batch_slot_for_op (op (hd ops)))"
    "\<forall>s. s \<noteq> batch_slot_for_op (op (hd ops)) \<longrightarrow> active_batches call' s = active_batches call s"
    "is_client call' = is_client call" "cq call' = cq call"
    "list_all2 (\<longrightarrow>) (op_flags call) (op_flags call')"
    "(\<exists>p \<in> set ops. op p = GRPC_OP_SEND_INITIAL_METADATA) \<or> send_extra_metadata_count call = 0 \<longrightarrow>
       send_extra_metadata_count call' = 0"
proof -
  have free: "\<not> slot_in_use call (batch_slot_for_op (op (hd ops)))"
    using run ops by (auto simp: call_start_batch_busy)
  obtain c2 sop n c3 where
    loop: "start_batch_ops env ops
       (call\<lparr>active_batches := (active_batches call)
          (batch_slot_for_op (op (hd ops)) := Some (zero_bctl\<lparr>bctl_call := True\<rparr>))\<rparr>)
       zero_op 1 = Inr (GRPC_CALL_OK, c2, sop, n)"
    and c3: "c3 = c2 \<or> c3 = c2\<lparr>trace := trace c2 @ [Cq_begin_op tag]\<rparr>"
    and fin: "GRPC_CALL_OK = GRPC_CALL_OK \<Longrightarrow>
       call' = execute_batch
         (c3\<lparr>active_batches := (active_batches c3)
            (batch_slot_for_op (op (hd ops)) :=
               Some (zero_bctl\<lparr>bctl_call := True, notify_tag := tag, is_closure := cl,
                              bctl_op := sop, steps_to_complete := n\<rparr>)),
             any_ops_sent_atm := 1\<rparr>) (Bctl (batch_slot_for_op (op (hd ops)))) sop"
    by (rule call_start_batch_free [OF run ops free]) (rule that)
  note inv = start_batch_ops_ok [OF loop]
  have c: "call' = execute_batch
         (c3\<lparr>active_batches := (active_batches c3)
            (batch_slot_for_op (op (hd ops)) :=
               Some (zero_bctl\<lparr>bctl_call := True, notify_tag := tag, is_closure := cl,
                              bctl_op := sop, steps_to_complete := n\<rparr>)),
             any_ops_sent_atm := 1\<rparr>) (Bctl (batch_slot_for_op (op (hd ops)))) sop"
    using fin by simp
  have f: "op_flags call' = op_flags c2"
    unfolding c using c3 by (auto simp: op_flags_def execute_batch_def)
  from inv have "\<forall>p \<in> set ops. flag_of_op (op p) c2" by simp
  then show "\<forall>p \<in> set ops. flag_of_op (op p) call'"
    using flag_of_op_cong [OF f] by simp
  from inv have t: "trace c2 = trace call" by simp
  show "dispatched (trace call') = dispatched (trace call) + 1"
    unfolding c using c3 t by (auto simp: execute_batch_def dispatched_def)
  have a: "active_batches call' = (active_batches c2)
            (batch_slot_for_op (op (hd ops)) :=
               Some (zero_bctl\<lparr>bctl_call := True, notify_tag := tag, is_closure := cl,
                              bctl_op := sop, steps_to_complete := n\<rparr>))"
    unfolding c using c3 by (auto simp: execute_batch_def)
  then show "slot_in_use call' (batch_slot_for_op (op (hd ops)))"
    by (simp add: slot_in_use_def)
  from inv have "active_batches c2 = (active_batches call)
          (batch_slot_for_op (op (hd ops)) := Some (zero_bctl\<lparr>bctl_call := True\<rparr>))"
    by simp
  with a show "\<forall>s. s \<noteq> batch_slot_for_op (op (hd ops)) \<longrightarrow>
      active_batches call' s = active_batches call s"
    by simp
  from inv have "is_client c2 = is_client call" "cq c2 = cq call" by simp_all
  then show "is_client call' = is_client call" "cq call' = cq call"
    unfolding c using c3 by (auto simp: execute_batch_def)
  from inv have "list_all2 (\<longrightarrow>) (op_flags call) (op_flags c2)" by (simp add: op_flags_def)
  with f show "list_all2 (\<longrightarrow>) (op_flags call) (op_flags call')" by simp
  have "send_extra_metadata_count call' = send_extra_metadata_count c2"
    unfolding c using c3 by (auto simp: execute_batch_def)
  with inv show "(\<exists>p \<in> set ops. op p = GRPC_OP_SEND_INITIAL_METADATA) \<or>
      send_extra_metadata_count call = 0 \<longrightarrow> send_extra_metadata_count call' = 0"
    by simp
qed

lemma recv_batch_started:
  "\<exists>c'. call_start_batch test_env client_call
          [plain_op GRPC_OP_RECV_INITIAL_METADATA, plain_op GRPC_OP_RECV_MESSAGE] 7 False =
        Inr (GRPC_CALL_OK, c')"
  by (simp add: call_start_batch_def allocate_batch_control_eq slot_in_use_iff slot_in_use_def
      start_batch_op_def op_recv_initial_metadata_def op_recv_message_def plain_op_def
      client_call_def zero_call_def test_env_def)

lemma recv_batch_rejected:
  "\<exists>c'. call_start_batch test_env client_call
          [plain_op GRPC_OP_RECV_INITIAL_METADATA, plain_op GRPC_OP_RECV_CLOSE_ON_SERVER] 7 False =
        Inr (GRPC_CALL_ERROR_NOT_ON_CLIENT, c')"
  by (simp add: call_start_batch_def allocate_batch_control_eq slot_in_use_iff slot_in_use_def
      start_batch_op_def op_recv_initial_metadata_def op_recv_close_on_server_def plain_op_def
      client_call_def zero_call_def test_env_def)




lemma call_start_batch_keeps_slot:
  assumes run: "call_start_batch env call ops tag cl = Inr (e, call')"
    and s: "slot_in_use call s"
  shows "slot_in_use call' s"
proof (cases "ops = []")
  case True
  with run have "active_batches call' = active_batches call"
    by (simp add: call_start_batch_empty(3))
  with s show ?thesis by (simp add: slot_in_use_def)
next
  case False
  have "slot_in_use call' (batch_slot_for_op (op (hd ops))) \<and>
    (\<forall>s. s \<noteq> batch_slot_for_op (op (hd ops)) \<longrightarrow> active_batches call' s = active_batches call s)"
  proof (cases "e = GRPC_CALL_OK")
    case True
    with run False show ?thesis
      using call_start_batch_succeeded(3) call_start_batch_succeeded(4) by blast
  next
    case False
    with run show ?thesis
      using call_start_batch_failed(4) call_start_batch_failed(5) by blast
  qed
  with s show ?thesis
    by (cases "s = batch_slot_for_op (op (hd ops))") (simp_all add: slot_in_use_def)
qed

lemma start_batches_keeps_slot:
  "start_batches env batches call = Inr call' \<Longrightarrow> slot_in_use call s \<Longrightarrow> slot_in_use call' s"
proof (induction batches arbitrary: call)
  case Nil
  then show ?case by simp
next
  case (Cons b bs)
  obtain ops tag cl where b: "b = (ops, tag, cl)" by (cases b)
  from Cons.prems(1) obtain e c1 where
    1: "call_start_batch env call ops tag cl = Inr (e, c1)"
    and 2: "start_batches env bs c1 = Inr call'"
    unfolding b by (auto simp: bind_eq_Inr)
  from 1 Cons.prems(2) have "slot_in_use c1 s" by (rule call_start_batch_keeps_slot)
  with 2 show ?case by (rule Cons.IH)
qed



subsection \<open>A second SEND\_INITIAL\_METADATA\<close>

lemma prepare_application_metadata_fst:
  "fst (prepare_application_metadata env c mds t pre a) = list_all (md_is_legal env) (mds @ a)"
  using prepare_application_metadata_frame(2) [of env c mds t pre a
      "fst (prepare_application_metadata env c mds t pre a)"
      "snd (prepare_application_metadata env c mds t pre a)"]
  by simp

lemma process_compression_level_cong:
  assumes "is_client c' = is_client c"
    "encodings_accepted_by_peer c' = encodings_accepted_by_peer c"
  shows "snd (process_compression_level env p c') = snd (process_compression_level env p c)"
    "compression_md (fst (process_compression_level env p c')) =
     compression_md (fst (process_compression_level env p c))"
  using assms
  by (simp_all add: process_compression_level_def compression_algorithm_for_level_locked_def
      Let_def split: option.splits)

lemma op_is_valid_cong:
  assumes "is_client c' = is_client c"
    "encodings_accepted_by_peer c' = encodings_accepted_by_peer c"
  shows "op_is_valid env c' p = op_is_valid env c p"
  unfolding op_is_valid_def process_compression_level_cong [OF assms] assms(1) ..

lemma compression_md_sent [simp]:
  "compression_md (c\<lparr>sent_initial_metadata := b\<rparr>) = compression_md c"
  by simp

lemma valid_send_initial_metadata:
  assumes "op_is_valid env c p" "op p = GRPC_OP_SEND_INITIAL_METADATA"
  shows "fst (op_send_initial_metadata env p c s n) = GRPC_CALL_OK \<or>
         fst (op_send_initial_metadata env p c s n) = GRPC_CALL_ERROR_TOO_MANY_OPERATIONS"
  using assms
  by (simp add: op_is_valid_def op_send_initial_metadata_def Let_def
      prepare_application_metadata_fst)

lemma valid_send_status_from_server:
  assumes "op_is_valid env c p" "op p = GRPC_OP_SEND_STATUS_FROM_SERVER"
    "send_extra_metadata_count c = 0"
  shows "\<exists>r. op_send_status_from_server env p c s n = Inr r \<and>
           (fst r = GRPC_CALL_OK \<or> fst r = GRPC_CALL_ERROR_TOO_MANY_OPERATIONS)"
  using assms
  by (simp add: op_is_valid_def op_send_status_from_server_def Let_def
      prepare_application_metadata_fst)

lemma valid_op_step:
  assumes "op_is_valid env c p" "send_extra_metadata_count c = 0"
  shows "\<exists>r. start_batch_op env p c s n = Inr r \<and>
           (fst r = GRPC_CALL_OK \<or> fst r = GRPC_CALL_ERROR_TOO_MANY_OPERATIONS)"
proof (cases "op p")
  case GRPC_OP_SEND_INITIAL_METADATA
  with assms valid_send_initial_metadata [OF assms(1), of s n] show ?thesis
    by (simp add: start_batch_op_def op_is_valid_def)
next
  case GRPC_OP_SEND_STATUS_FROM_SERVER
  with assms valid_send_status_from_server [OF assms(1) _ assms(2), of s n] show ?thesis
    by (simp add: start_batch_op_def op_is_valid_def)
qed (use assms in \<open>simp_all add: start_batch_op_def op_is_valid_def op_send_message_def
    op_send_close_from_client_def op_recv_initial_metadata_def op_recv_message_def
    op_recv_status_on_client_def op_recv_close_on_server_def Let_def split: option.splits\<close>)

lemma second_send_initial_metadata_step:
  assumes "start_batch_op env p c s n = Inr r" "op p = GRPC_OP_SEND_INITIAL_METADATA"
    "sent_initial_metadata c"
  shows "fst r \<noteq> GRPC_CALL_OK"
  using assms
  by (auto simp: start_batch_op_def op_send_initial_metadata_def split: if_splits)


lemma second_send_initial_metadata_loop:
  assumes "start_batch_ops env ops c s n = Inr (e, c', s', n')"
    and "sent_initial_metadata c" and "\<exists>p \<in> set ops. op p = GRPC_OP_SEND_INITIAL_METADATA"
  shows "e \<noteq> GRPC_CALL_OK"
  using assms
proof (induction ops arbitrary: c s n)
  case Nil
  then show ?case by simp
next
  case (Cons p ps)
  from Cons.prems(1) obtain e1 c1 s1 n1 where
    step: "start_batch_op env p c s n = Inr (e1, c1, s1, n1)"
    and rest: "(if e1 \<noteq> GRPC_CALL_OK then Inr (e1, c1, s1, n1)
                else start_batch_ops env ps c1 s1 n1) = Inr (e, c', s', n')"
    by (auto simp: bind_eq_Inr)
  show ?case
  proof (cases "e1 = GRPC_CALL_OK")
    case False
    with rest show ?thesis by simp
  next
    case True
    with rest have r: "start_batch_ops env ps c1 s1 n1 = Inr (e, c', s', n')" by simp
    from step True Cons.prems(2) have "op p \<noteq> GRPC_OP_SEND_INITIAL_METADATA"
      using second_send_initial_metadata_step by fastforce
    with Cons.prems(3) have ps: "\<exists>p \<in> set ps. op p = GRPC_OP_SEND_INITIAL_METADATA" by simp
    from start_batch_op_step [OF step] have "list_all2 (\<longrightarrow>) (op_flags c) (op_flags c1)"
      by (simp add: op_step_ok_def)
    with Cons.prems(2) have sent: "sent_initial_metadata c1" by (simp add: op_flags_def)
    from r sent ps show ?thesis by (rule Cons.IH)
  qed
qed

lemma valid_second_send_initial_metadata_loop:
  assumes "\<forall>p \<in> set ops. op_is_valid env c p" and "send_extra_metadata_count c = 0"
    and "sent_initial_metadata c" and "\<exists>p \<in> set ops. op p = GRPC_OP_SEND_INITIAL_METADATA"
  shows "\<exists>c' s' n'. start_batch_ops env ops c s n =
           Inr (GRPC_CALL_ERROR_TOO_MANY_OPERATIONS, c', s', n')"
  using assms
proof (induction ops arbitrary: c s n)
  case Nil
  then show ?case by simp
next
  case (Cons p ps)
  from Cons.prems(1) have "op_is_valid env c p" by simp
  from valid_op_step [OF this Cons.prems(2), of s n] obtain e1 c1 s1 n1 where
    step: "start_batch_op env p c s n = Inr (e1, c1, s1, n1)"
    and e1: "e1 = GRPC_CALL_OK \<or> e1 = GRPC_CALL_ERROR_TOO_MANY_OPERATIONS"
    by auto
  show ?case
  proof (cases "e1 = GRPC_CALL_OK")
    case False
    with e1 step show ?thesis by (simp add: bind_Inr)
  next
    case True
    from step True Cons.prems(3) have "op p \<noteq> GRPC_OP_SEND_INITIAL_METADATA"
      using second_send_initial_metadata_step by fastforce
    with Cons.prems(4) have ps: "\<exists>p \<in> set ps. op p = GRPC_OP_SEND_INITIAL_METADATA" by simp
    from start_batch_op_step [OF step] True have k: "list_all2 (\<longrightarrow>) (op_flags c) (op_flags c1)"
      "is_client c1 = is_client c" "encodings_accepted_by_peer c1 = encodings_accepted_by_peer c"
      "send_extra_metadata_count c = 0 \<longrightarrow> send_extra_metadata_count c1 = 0"
      by (simp_all add: op_step_ok_def)
    from k(1) Cons.prems(3) have sent: "sent_initial_metadata c1" by (simp add: op_flags_def)
    from Cons.prems(1) have valid: "\<forall>p \<in> set ps. op_is_valid env c1 p"
      by (simp add: op_is_valid_cong [OF k(2) k(3)])
    from k(4) Cons.prems(2) have count: "send_extra_metadata_count c1 = 0" by simp
    from Cons.IH [OF valid count sent ps, of s1 n1] step True show ?thesis
      by (simp add: bind_Inr)
  qed
qed

lemma call_start_batch_loop_failed:
  assumes "start_batch_ops env ops
       (call\<lparr>active_batches := (active_batches call)
          (batch_slot_for_op (op (hd ops)) := Some (zero_bctl\<lparr>bctl_call := True\<rparr>))\<rparr>)
       zero_op 1 = Inr (e, c2, sop, n)"
    and "e \<noteq> GRPC_CALL_OK" and "ops \<noteq> []"
    and "\<not> slot_in_use call (batch_slot_for_op (op (hd ops)))"
  shows "\<exists>call'. call_start_batch env call ops tag cl = Inr (e, call')"
  using assms
  by (simp add: call_start_batch_def allocate_batch_control_eq slot_in_use_iff Let_def bind_Inr)

lemma send_initial_metadata_batch_started:
  "\<exists>c'. call_start_batch test_env client_call [plain_op GRPC_OP_SEND_INITIAL_METADATA] 7 False =
        Inr (GRPC_CALL_OK, c')"
  by (simp add: call_start_batch_def allocate_batch_control_eq slot_in_use_iff slot_in_use_def
      start_batch_op_def op_send_initial_metadata_def process_compression_level_def
      prepare_application_metadata_def are_initial_metadata_flags_valid_def plain_op_def no_data_def
      client_call_def zero_call_def test_env_def Let_def INT_MAX_def)



subsection \<open>The callbacks of a batch\<close>

lemma entered_append [simp]: "entered (xs @ ys) = entered xs @ entered ys"
  by (induction xs rule: entered.induct) simp_all

lemma entered_cancel_children [simp]: "entered (map (Cancel_child \<circ> f) xs) = []"
  by (induction xs) simp_all

lemma advances_refl [simp]: "advances [] 0 c c"
  by (simp add: advances_def)

lemma advances_trans:
  "advances n1 k1 c c1 \<Longrightarrow> advances n2 k2 c1 c2 \<Longrightarrow> advances (n1 @ n2) (k1 + k2) c c2"
proof -
  assume a: "advances n1 k1 c c1" and b: "advances n2 k2 c1 c2"
  have "errors_at c2 s \<le> errors_at c s + (k1 + k2)" for s
  proof -
    from a have "errors_at c1 s \<le> errors_at c s + k1" by (simp add: advances_def)
    moreover from b have "errors_at c2 s \<le> errors_at c1 s + k2" by (simp add: advances_def)
    ultimately show ?thesis by linarith
  qed
  moreover have "entered (trace c2) = entered (trace c) @ n1 @ n2"
    using a b by (simp add: advances_def)
  ultimately show ?thesis by (simp add: advances_def)
qed

lemma advances_mono: "advances n k c c' \<Longrightarrow> k \<le> k' \<Longrightarrow> advances n k' c c'"
  unfolding advances_def by (auto intro: order_trans)

lemma advances_frame:
  "entered (trace c') = entered (trace c) @ n \<Longrightarrow> active_batches c' = active_batches c \<Longrightarrow>
   advances n 0 c c'"
  by (simp add: advances_def errors_at_def)

lemma advances_slot:
  assumes "entered (trace c') = entered (trace c) @ n"
    and "active_batches c b = Some bctl"
    and "active_batches c' = (active_batches c)(b := Some bctl')"
    and "num_errors bctl' \<le> num_errors bctl + k"
  shows "advances n k c c'"
  using assms by (simp add: advances_def errors_at_def)

lemma cancel_with_error_advances:
  "advances [] 0 c (cancel_with_error c src e)"
  by (rule advances_frame) (simp_all add: cancel_with_error_sel)

lemma add_batch_error_result:
  assumes "add_batch_error b err hc c = Inr c'"
  shows "recv_state c' = recv_state c"
    "advances [] (if err = GRPC_ERROR_NONE then 0 else 1) c c'"
    "receiving_stream c' = receiving_stream c"
proof -
  have "recv_state c' = recv_state c \<and>
    advances [] (if err = GRPC_ERROR_NONE then 0 else 1) c c' \<and>
    receiving_stream c' = receiving_stream c"
  proof (cases "err = GRPC_ERROR_NONE")
    case True
    with assms show ?thesis by (simp add: add_batch_error_def)
  next
    case False
    with assms obtain bctl where slot: "active_batches c b = Some bctl"
      by (auto simp: add_batch_error_def split: option.splits)
    define c1 where "c1 = c\<lparr>active_batches := (active_batches c)
                              (b := Some (bctl\<lparr>num_errors := num_errors bctl + 1\<rparr>))\<rparr>"
    define c2 where "c2 = (if num_errors bctl = 0 \<and> \<not> hc
                           then cancel_with_error c1 STATUS_FROM_CORE err else c1)"
    have c2: "trace c2 = trace c1 \<or> entered (trace c2) = entered (trace c1)"
      "active_batches c2 = active_batches c1" "recv_state c2 = recv_state c1"
      "receiving_stream c2 = receiving_stream c1"
      by (simp_all add: c2_def cancel_with_error_sel)
    from assms False slot have c': "c' = c2\<lparr>active_batches := (active_batches c2)
        (b := Some (bctl\<lparr>num_errors := num_errors bctl + 1,
                         errors := (errors bctl)(num_errors bctl := err)\<rparr>))\<rparr>"
      unfolding c2_def c1_def
      by (auto simp: add_batch_error_def Let_def bind_eq_Inr split: if_splits)
    have e: "entered (trace c') = entered (trace c) @ []"
      using c2(1) by (auto simp: c' c1_def)
    have a: "active_batches c' = (active_batches c)
        (b := Some (bctl\<lparr>num_errors := num_errors bctl + 1,
                         errors := (errors bctl)(num_errors bctl := err)\<rparr>))"
      by (simp add: c' c2(2) c1_def)
    have "advances [] 1 c c'"
      by (rule advances_slot [OF e slot a]) simp
    moreover have "recv_state c' = recv_state c" "receiving_stream c' = receiving_stream c"
      by (simp_all add: c' c2 c1_def)
    ultimately show ?thesis using False by simp
  qed
  then show "recv_state c' = recv_state c"
    "advances [] (if err = GRPC_ERROR_NONE then 0 else 1) c c'"
    "receiving_stream c' = receiving_stream c"
    by simp_all
qed


lemma post_batch_completion_quiet:
  assumes run: "post_batch_completion env bctlp call = Inr call'"
  shows "recv_state call' = recv_state call" "advances [] 0 call call'"
proof -
  from run obtain bctl where slot: "active_batches call bctlp = Some bctl"
    by (auto simp: post_batch_completion_def split: option.splits)
  from run slot obtain err bctl1 where cons: "consolidate_batch_errors bctl = Inr (err, bctl1)"
    by (auto simp: post_batch_completion_def bind_eq_Inr split: if_splits)
  note cr = consolidate_batch_errors_result [OF cons]
  define call2 where "call2 =
    (if send_message (bctl_op bctl1)
     then call\<lparr>active_batches := (active_batches call)(bctlp := Some bctl1),
               sending_message := False\<rparr>
     else call\<lparr>active_batches := (active_batches call)(bctlp := Some bctl1)\<rparr>)"
  have c2: "recv_state call2 = recv_state call"
    "active_batches call2 = (active_batches call)(bctlp := Some bctl1)"
    by (simp_all add: call2_def)
  have "\<exists>c5 e5. recv_state c5 = recv_state call2 \<and> active_batches c5 = active_batches call2 \<and>
     call' =
        (if is_closure bctl
         then c5\<lparr>active_batches := (active_batches c5)(bctlp := Some (bctl1\<lparr>bctl_call := False\<rparr>)),
                    trace := trace c5 @ [Closure_run (notify_tag bctl) e5]\<rparr>
         else c5\<lparr>trace := trace c5 @
                 [Cq_end_op (notify_tag bctl) e5 (finish_batch_completion_of bctlp)]\<rparr>)"
  proof (cases "recv_trailing_metadata (bctl_op bctl)")
    case False
    with run slot cons cr have "call' =
        (if is_closure bctl
         then call2\<lparr>active_batches := (active_batches call2)(bctlp := Some (bctl1\<lparr>bctl_call := False\<rparr>)),
                    trace := trace call2 @ [Closure_run (notify_tag bctl) err]\<rparr>
         else call2\<lparr>trace := trace call2 @
                 [Cq_end_op (notify_tag bctl) err (finish_batch_completion_of bctlp)]\<rparr>)"
      by (auto simp: post_batch_completion_def call2_def Let_def split: if_splits)
    then show ?thesis by blast
  next
    case True
    with run slot cons cr obtain c md c3 where
      f: "recv_trailing_filter env call2 (metadata_batch call2 True True) = Inr (c, md)"
      and c3: "report_final_status env
                 (propagate_cancellation
                    (c\<lparr>metadata_batch := (metadata_batch c)
                           (True := (metadata_batch c True)(True := md)),
                         received_final_op_atm := 1\<rparr>)) = Inr c3"
      and fin: "call' =
        (if is_closure bctl
         then c3\<lparr>active_batches := (active_batches c3)(bctlp := Some (bctl1\<lparr>bctl_call := False\<rparr>)),
                    trace := trace c3 @ [Closure_run (notify_tag bctl) GRPC_ERROR_NONE]\<rparr>
         else c3\<lparr>trace := trace c3 @
                 [Cq_end_op (notify_tag bctl) GRPC_ERROR_NONE (finish_batch_completion_of bctlp)]\<rparr>)"
      by (auto simp: post_batch_completion_def call2_def Let_def bind_eq_Inr split: if_splits prod.splits)
    from recv_trailing_filter_frame [OF f] obtain st bm where
      c: "c = call2\<lparr>status := st, buffered_metadata := bm\<rparr>" by blast
    define c2' where "c2' = propagate_cancellation
                    (c\<lparr>metadata_batch := (metadata_batch c)
                           (True := (metadata_batch c True)(True := md)),
                         received_final_op_atm := 1\<rparr>)"
    have "recv_state c2' = recv_state call2" "active_batches c2' = active_batches call2"
      by (simp_all add: c2'_def propagate_cancellation_def c cancel_children_frame
          split: option.splits)
    with report_final_status_result(5,6) [OF c3 [folded c2'_def]]
    have "recv_state c3 = recv_state call2" "active_batches c3 = active_batches call2"
      by simp_all
    with fin show ?thesis by blast
  qed
  then obtain c5 e5 where c5: "recv_state c5 = recv_state call2"
    "active_batches c5 = active_batches call2"
    and fin: "call' =
        (if is_closure bctl
         then c5\<lparr>active_batches := (active_batches c5)(bctlp := Some (bctl1\<lparr>bctl_call := False\<rparr>)),
                    trace := trace c5 @ [Closure_run (notify_tag bctl) e5]\<rparr>
         else c5\<lparr>trace := trace c5 @
                 [Cq_end_op (notify_tag bctl) e5 (finish_batch_completion_of bctlp)]\<rparr>)"
    by blast
  show "recv_state call' = recv_state call"
    using fin c5 c2 by (simp split: if_splits)
  from post_batch_completion_result [OF run slot]
  have e: "entered (trace call') = entered (trace call) @ []"
    by (auto split: option.splits)
  have "\<exists>b'. active_batches call' = (active_batches call)(bctlp := Some b') \<and>
     num_errors b' \<le> num_errors bctl + 0"
  proof (cases "is_closure bctl")
    case True
    with fin c5 c2 have "active_batches call' =
        (active_batches call)(bctlp := Some (bctl1\<lparr>bctl_call := False\<rparr>))"
      by simp
    with cr show ?thesis by auto
  next
    case False
    with fin c5 c2 have "active_batches call' = (active_batches call)(bctlp := Some bctl1)"
      by simp
    with cr show ?thesis by auto
  qed
  then obtain b' where "active_batches call' = (active_batches call)(bctlp := Some b')"
    "num_errors b' \<le> num_errors bctl + 0" by blast
  with e slot show "advances [] 0 call call'"
    by (rule advances_slot)
qed


lemma advances_after_touch:
  assumes "trace c0 = trace c @ evs" "entered evs = names" "active_batches c0 = active_batches c"
    and "advances n k c0 c'"
  shows "advances (names @ n) k c c'"
  using assms by (simp add: advances_def errors_at_def)

lemma advances_after_frame:
  assumes "advances n k c0 c'"
    and "trace c0 = trace c" "active_batches c0 = active_batches c"
  shows "advances n k c c'"
  using assms by (simp add: advances_def errors_at_def)

lemma finish_batch_step_quiet:
  assumes run: "finish_batch_step env b c = Inr c'"
  shows "recv_state c' = recv_state c" "advances [] 0 c c'"
proof -
  from run obtain bctl where slot: "active_batches c b = Some bctl"
    by (auto simp: finish_batch_step_def split: option.splits)
  define c1 where "c1 = c\<lparr>active_batches := (active_batches c)
      (b := Some (bctl\<lparr>steps_to_complete := steps_to_complete bctl - 1\<rparr>))\<rparr>"
  have c1: "recv_state c1 = recv_state c" "advances [] 0 c c1"
    by (simp_all add: c1_def advances_def errors_at_def slot)
  from run slot have "c' = c1 \<or> post_batch_completion env b c1 = Inr c'"
    by (auto simp: finish_batch_step_def c1_def Let_def split: if_splits)
  then have "recv_state c' = recv_state c1 \<and> advances [] 0 c1 c'"
    using post_batch_completion_quiet by auto
  with c1 show "recv_state c' = recv_state c" "advances [] 0 c c'"
    using advances_trans [of "[]" 0 c c1 "[]" 0 c'] by simp_all
qed

declare continue_receiving_slices_loop.simps [simp del]

lemma continue_receiving_slices_loop_quiet:
  "continue_receiving_slices_loop env b ans c = Inr c' \<Longrightarrow>
   recv_state c' = recv_state c \<and> advances [] 0 c c'"
proof (induction ans arbitrary: c)
  case Nil
  then have "finish_batch_step env b (c\<lparr>receiving_message := False, receiving_stream := None\<rparr>) = Inr c'
      \<or> c' = c"
    by (subst (asm) continue_receiving_slices_loop.simps)
      (auto simp: Let_def split: option.splits if_splits)
  then show ?case
  proof
    assume "finish_batch_step env b (c\<lparr>receiving_message := False, receiving_stream := None\<rparr>) = Inr c'"
    note q = finish_batch_step_quiet [OF this]
    from advances_after_frame [OF q(2), of c] q(1) show ?thesis by simp
  qed simp
next
  case (Cons a rest)
  from Cons.prems obtain rs bb where
    rs: "receiving_stream c = Some rs" "receiving_buffer c = Some (Some bb)"
    by (subst (asm) continue_receiving_slices_loop.simps) (auto split: option.splits)
  from Cons.prems rs have body:
    "(if (of_nat (stream_length rs) - of_nat (slice_buffer_length bb) :: 64 word) = 0
      then finish_batch_step env b (c\<lparr>receiving_message := False, receiving_stream := None\<rparr>)
      else (case a of
              None \<Rightarrow> Inr (c\<lparr>receiving_stream := Some (rs\<lparr>answers := rest\<rparr>)\<rparr>)
            | Some (Inr sl) \<Rightarrow>
                continue_receiving_slices_loop env b rest
                  (c\<lparr>receiving_stream := Some (rs\<lparr>answers := rest\<rparr>),
                     receiving_buffer :=
                       Some (Some (bb\<lparr>slice_buffer := slice_buffer bb @ [sl]\<rparr>))\<rparr>)
            | Some (Inl e) \<Rightarrow>
                finish_batch_step env b
                  (c\<lparr>receiving_stream := None, receiving_buffer := Some None,
                     receiving_message := False\<rparr>))) = Inr c'"
    by (subst (asm) continue_receiving_slices_loop.simps) (simp add: Let_def split: if_splits)
  consider
    (finished) "finish_batch_step env b (c\<lparr>receiving_message := False, receiving_stream := None\<rparr>) = Inr c'"
    | (wait) "c' = c\<lparr>receiving_stream := Some (rs\<lparr>answers := rest\<rparr>)\<rparr>"
    | (slice) sl where "continue_receiving_slices_loop env b rest
        (c\<lparr>receiving_stream := Some (rs\<lparr>answers := rest\<rparr>),
           receiving_buffer := Some (Some (bb\<lparr>slice_buffer := slice_buffer bb @ [sl]\<rparr>))\<rparr>) = Inr c'"
    | (failed) "finish_batch_step env b
        (c\<lparr>receiving_stream := None, receiving_buffer := Some None,
           receiving_message := False\<rparr>) = Inr c'"
  proof (cases "(of_nat (stream_length rs) - of_nat (slice_buffer_length bb) :: 64 word) = 0")
    case True
    with body show ?thesis by (simp add: finished)
  next
    case False
    show ?thesis
    proof (cases a)
      case None
      with body False show ?thesis by (simp add: wait)
    next
      case (Some r)
      with body False show ?thesis by (cases r) (simp_all add: slice failed)
    qed
  qed
  then show ?case
  proof cases
    case finished
    note q = finish_batch_step_quiet [OF this]
    from advances_after_frame [OF q(2), of c] q(1) show ?thesis by simp
  next
    case wait
    then show ?thesis by (simp add: advances_def errors_at_def)
  next
    case slice
    note q = Cons.IH [OF this]
    from advances_after_frame [OF q [THEN conjunct2], of c] q [THEN conjunct1]
    show ?thesis by simp
  next
    case failed
    note q = finish_batch_step_quiet [OF this]
    from advances_after_frame [OF q(2), of c] q(1) show ?thesis by simp
  qed
qed

lemma continue_receiving_slices_quiet:
  assumes "continue_receiving_slices env b c = Inr c'"
  shows "recv_state c' = recv_state c" "advances [] 0 c c'"
  using assms continue_receiving_slices_loop_quiet
  by (auto simp: continue_receiving_slices_def split: option.splits if_splits)

lemma process_data_after_md_result:
  assumes run: "process_data_after_md env b c = Inr c'"
  shows "recv_state c' = recv_state c" "advances [''process_data_after_md''] 0 c c'"
proof -
  define c0 where "c0 = c\<lparr>trace := trace c @ [Entered ''process_data_after_md'']\<rparr>"
  from run consider
    (none) "finish_batch_step env b (c0\<lparr>receiving_buffer := Some None, receiving_message := False\<rparr>) = Inr c'"
    | (some) rs bb where "receiving_stream c = Some rs"
        "continue_receiving_slices env b
           (c0\<lparr>test_only_last_message_flags := stream_flags rs,
               receiving_buffer := Some (Some bb)\<rparr>) = Inr c'"
    unfolding c0_def
    by (auto simp: process_data_after_md_def Let_def bind_eq_Inr
        split: option.splits if_splits)
  then have "recv_state c' = recv_state c0 \<and> advances [] 0 c0 c'"
  proof cases
    case none
    note q = finish_batch_step_quiet [OF this]
    from advances_after_frame [OF q(2), of c0] q(1) show ?thesis by simp
  next
    case some
    note q = continue_receiving_slices_quiet [OF some(2)]
    from advances_after_frame [OF q(2), of c0] q(1) show ?thesis by simp
  qed
  then show "recv_state c' = recv_state c" "advances [''process_data_after_md''] 0 c c'"
    using advances_after_touch [of c0 c "[Entered ''process_data_after_md'']"
        "[''process_data_after_md'']" "[]" 0 c']
    by (simp_all add: c0_def)
qed


lemma advances_chain:
  assumes "advances n1 k1 c c1" "advances n2 k2 c1 c2" "n = n1 @ n2" "k1 + k2 \<le> k"
  shows "advances n k c c2"
  using advances_mono [OF advances_trans [OF assms(1) assms(2)] assms(4)] assms(3) by simp

lemma receiving_stream_ready_result:
  assumes run: "receiving_stream_ready env b err c = Inr c'"
  shows "if err = GRPC_ERROR_NONE \<and> receiving_stream c \<noteq> None \<and> recv_state c = RECV_NONE
         then c' = c\<lparr>recv_state := Recv_bctl b\<rparr>
         else recv_state c' = recv_state c \<and>
              advances [''process_data_after_md''] (if err = GRPC_ERROR_NONE then 0 else 1) c c'"
proof (cases "err = GRPC_ERROR_NONE")
  case True
  with run have r: "(if receiving_stream c = None then process_data_after_md env b c
     else if recv_state c = RECV_NONE then Inr (c\<lparr>recv_state := Recv_bctl b\<rparr>)
     else process_data_after_md env b c) = Inr c'"
    by (auto simp: receiving_stream_ready_def split: option.splits if_splits)
  show ?thesis
  proof (cases "receiving_stream c \<noteq> None \<and> recv_state c = RECV_NONE")
    case True
    with r \<open>err = GRPC_ERROR_NONE\<close> show ?thesis by auto
  next
    case False
    with r have "process_data_after_md env b c = Inr c'" by (auto split: if_splits)
    from process_data_after_md_result [OF this] False True show ?thesis by auto
  qed
next
  case False
  with run obtain c1 where
    a: "add_batch_error b err True (c\<lparr>receiving_stream := None\<rparr>) = Inr c1"
    and p: "process_data_after_md env b (cancel_with_error c1 STATUS_FROM_SURFACE err) = Inr c'"
    by (auto simp: receiving_stream_ready_def bind_eq_Inr split: option.splits if_splits)
  note ar = add_batch_error_result [OF a]
  note pr = process_data_after_md_result [OF p]
  from ar(2) False have 1: "advances [] 1 c c1"
    by (auto elim: advances_after_frame)
  have 2: "advances [] 0 c1 (cancel_with_error c1 STATUS_FROM_SURFACE err)"
    by (rule cancel_with_error_advances)
  have "advances [''process_data_after_md''] 1 c c'"
    by (rule advances_chain [OF advances_chain [OF 1 2 refl order_refl] pr(2)]) simp_all
  moreover have "recv_state c' = recv_state c"
    using pr(1) ar(1) by (simp add: cancel_with_error_sel)
  ultimately show ?thesis using False by simp
qed

lemma recv_initial_filter_result:
  assumes run: "recv_initial_filter env c b0 = Inr (c', md)"
  shows "recv_state c' = recv_state c" "advances [''recv_initial_filter''] 0 c c'"
proof -
  from run have "trace c' = trace c @ [Entered ''recv_initial_filter''] \<and>
    active_batches c' = active_batches c \<and> recv_state c' = recv_state c"
    by (auto simp: recv_initial_filter_def Let_def bind_eq_Inr
        set_incoming_stream_compression_algorithm_def
        set_incoming_message_compression_algorithm_def
        split: option.splits prod.splits dest!: publish_app_metadata_frame)
  then show "recv_state c' = recv_state c" "advances [''recv_initial_filter''] 0 c c'"
    by (simp_all add: advances_def errors_at_def)
qed

lemma validate_filtered_metadata_result:
  assumes run: "validate_filtered_metadata env b c = Inr c'"
  shows "recv_state c' = recv_state c" "advances [''validate_filtered_metadata''] 0 c c'"
proof -
  define c0 where "c0 = c\<lparr>trace := trace c @ [Entered ''validate_filtered_metadata'']\<rparr>"
  from run have "c' = c0 \<or> (\<exists>src e. c' = cancel_with_error c0 src e)"
    unfolding c0_def
    by (auto simp: validate_filtered_metadata_def Let_def cancel_with_status_def
        split: option.splits if_splits)
  then have "entered (trace c') = entered (trace c) @ [''validate_filtered_metadata''] \<and>
    active_batches c' = active_batches c \<and> recv_state c' = recv_state c"
    by (auto simp: c0_def cancel_with_error_sel)
  then show "recv_state c' = recv_state c" "advances [''validate_filtered_metadata''] 0 c c'"
    by (simp_all add: advances_def errors_at_def)
qed


lemma receiving_initial_metadata_ready_result:
  assumes run: "receiving_initial_metadata_ready env b err c = Inr c'"
  shows "case recv_state c of
           RECV_NONE \<Rightarrow>
             recv_state c' = RECV_INITIAL_METADATA_FIRST \<and>
             advances (if err = GRPC_ERROR_NONE
                       then [''recv_initial_filter'', ''validate_filtered_metadata''] else [])
               (if err = GRPC_ERROR_NONE then 0 else 1) c c'
         | RECV_INITIAL_METADATA_FIRST \<Rightarrow> False
         | Recv_bctl r \<Rightarrow>
             recv_state c' = Recv_bctl r \<and>
             advances ((if err = GRPC_ERROR_NONE
                        then [''recv_initial_filter'', ''validate_filtered_metadata''] else []) @
                       [''process_data_after_md''])
               (if err = GRPC_ERROR_NONE then 0 else 2) c c'"
proof -
  let ?F = "if err = GRPC_ERROR_NONE
            then [''recv_initial_filter'', ''validate_filtered_metadata''] else []"
  let ?k = "if err = GRPC_ERROR_NONE then 0 else 1 :: nat"
  define c0 where
    "c0 = c\<lparr>trace := trace c @ [Call_combiner_stop ''recv_initial_metadata_ready'']\<rparr>"
  define mid where "mid = (\<lambda>call1.
     if err = GRPC_ERROR_NONE
     then
       bind (recv_initial_filter env call1 (metadata_batch call1 True False)) (\<lambda>(c, md).
       bind (validate_filtered_metadata env b
               (c\<lparr>metadata_batch := (metadata_batch c)
                     (True := (metadata_batch c True)(False := md))\<rparr>))
         (\<lambda>c1. Inr (if deadline md \<noteq> Inf_future \<and> \<not> is_client c1
                     then c1\<lparr>send_deadline := deadline md\<rparr> else c1)))
     else Inr call1)"
  define rsr where "rsr = (\<lambda>call2.
     case recv_state call2 of
       RECV_INITIAL_METADATA_FIRST \<Rightarrow> Inl Assert_failed
     | RECV_NONE \<Rightarrow> Inr (call2\<lparr>recv_state := RECV_INITIAL_METADATA_FIRST\<rparr>)
     | Recv_bctl rsr_bctlp \<Rightarrow> receiving_stream_ready env rsr_bctlp err call2)"
  obtain bctl where slot: "active_batches c b = Some bctl"
    using run by (cases "active_batches c b") (simp_all add: receiving_initial_metadata_ready_def)
  have live: "bctl_call bctl"
    using run slot by (cases "bctl_call bctl") (simp_all add: receiving_initial_metadata_ready_def)
  have unf: "receiving_initial_metadata_ready env b err c =
     bind (add_batch_error b err False c0) (\<lambda>call1.
     bind (mid call1) (\<lambda>call2. bind (rsr call2) (finish_batch_step env b)))"
    using slot live by (simp add: receiving_initial_metadata_ready_def mid_def rsr_def c0_def)
  from run [unfolded unf] obtain call1 call2 call3 where
    a: "add_batch_error b err False c0 = Inr call1"
    and m: "mid call1 = Inr call2"
    and s: "rsr call2 = Inr call3"
    and f: "finish_batch_step env b call3 = Inr c'"
    by (auto simp: bind_eq_Inr)
  note ar = add_batch_error_result [OF a]
  have 1: "advances [] ?k c call1" "recv_state call1 = recv_state c"
    using advances_after_touch [OF _ _ _ ar(2),
        of c "[Call_combiner_stop ''recv_initial_metadata_ready'']" "[]"] ar(1)
    by (simp_all add: c0_def)
  have 2: "advances ?F 0 call1 call2 \<and> recv_state call2 = recv_state call1"
  proof (cases "err = GRPC_ERROR_NONE")
    case False
    with m show ?thesis by (simp add: mid_def)
  next
    case True
    with m obtain cf md c1 where
      rif: "recv_initial_filter env call1 (metadata_batch call1 True False) = Inr (cf, md)"
      and v: "validate_filtered_metadata env b
               (cf\<lparr>metadata_batch := (metadata_batch cf)
                     (True := (metadata_batch cf True)(False := md))\<rparr>) = Inr c1"
      and c2: "call2 = (if deadline md \<noteq> Inf_future \<and> \<not> is_client c1
                     then c1\<lparr>send_deadline := deadline md\<rparr> else c1)"
      by (auto simp: mid_def bind_eq_Inr split: prod.splits)
    note r1 = recv_initial_filter_result [OF rif]
    note r2 = validate_filtered_metadata_result [OF v]
    have "advances [''validate_filtered_metadata''] 0 cf c1"
      using advances_after_frame [OF r2(2), of cf] by simp
    with r1(2) have "advances [''recv_initial_filter'', ''validate_filtered_metadata''] 0 call1 c1"
      by (rule advances_chain) simp_all
    moreover have "advances [] 0 c1 call2"
      by (simp add: c2 advances_def errors_at_def)
    ultimately have "advances [''recv_initial_filter'', ''validate_filtered_metadata''] 0 call1 call2"
      by (rule advances_chain) simp_all
    moreover have "recv_state call2 = recv_state call1"
      using r1(1) r2(1) by (simp add: c2)
    ultimately show ?thesis using True by simp
  qed
  note fr = finish_batch_step_quiet [OF f]
  have 12: "advances ?F ?k c call2"
    by (rule advances_chain [OF 1(1) 2 [THEN conjunct1]]) simp_all
  show ?thesis
  proof (cases "recv_state c")
    case RECV_NONE
    with 1 2 s have c3: "call3 = call2\<lparr>recv_state := RECV_INITIAL_METADATA_FIRST\<rparr>"
      by (simp add: rsr_def)
    then have "advances [] 0 call2 call3" by (simp add: advances_def errors_at_def)
    then have "advances [] 0 call2 c'" using fr(2) by (rule advances_chain) simp_all
    with 12 have "advances ?F ?k c c'" by (rule advances_chain) simp_all
    moreover have "recv_state c' = RECV_INITIAL_METADATA_FIRST" using fr(1) c3 by simp
    ultimately show ?thesis using RECV_NONE by simp
  next
    case RECV_INITIAL_METADATA_FIRST
    with 1 2 s show ?thesis by (simp add: rsr_def)
  next
    case (Recv_bctl r)
    with 1 2 have rs2: "recv_state call2 = Recv_bctl r" by simp
    with s have rr: "receiving_stream_ready env r err call2 = Inr call3"
      by (simp add: rsr_def)
    from receiving_stream_ready_result [OF rr] rs2
    have 3: "recv_state call3 = Recv_bctl r"
      "advances [''process_data_after_md''] ?k call2 call3"
      by simp_all
    from 3(2) fr(2) have "advances [''process_data_after_md''] ?k call2 c'"
      by (rule advances_chain) simp_all
    with 12 have "advances (?F @ [''process_data_after_md'']) (if err = GRPC_ERROR_NONE then 0 else 2) c c'"
      by (rule advances_chain) simp_all
    moreover have "recv_state c' = Recv_bctl r" using fr(1) 3(1) by simp
    ultimately show ?thesis using Recv_bctl by simp
  qed
qed

lemma finish_batch_result:
  assumes run: "finish_batch env b err c = Inr c'"
  shows "recv_state c' = recv_state c"
    "advances [] (if err = GRPC_ERROR_NONE then 0 else 1) c c'"
proof -
  from run obtain c1 where
    a: "add_batch_error b err False
          (c\<lparr>trace := trace c @ [Call_combiner_stop ''on_complete'']\<rparr>) = Inr c1"
    and f: "finish_batch_step env b c1 = Inr c'"
    by (auto simp: finish_batch_def bind_eq_Inr split: option.splits if_splits)
  note ar = add_batch_error_result [OF a]
  note fr = finish_batch_step_quiet [OF f]
  have "advances [] (if err = GRPC_ERROR_NONE then 0 else 1) c c1"
    using advances_after_touch [OF _ _ _ ar(2), of c "[Call_combiner_stop ''on_complete'']" "[]"]
    by simp
  then show "advances [] (if err = GRPC_ERROR_NONE then 0 else 1) c c'"
    using fr(2) by (rule advances_chain) simp_all
  show "recv_state c' = recv_state c" using ar(1) fr(1) by simp
qed

lemma message_ready_result:
  assumes run: "message_ready env b stream err c = Inr c'"
  shows "if err = GRPC_ERROR_NONE \<and> stream \<noteq> None \<and> recv_state c = RECV_NONE
         then recv_state c' = Recv_bctl b \<and> advances [] 0 c c'
         else recv_state c' = recv_state c \<and>
              advances [''process_data_after_md''] (if err = GRPC_ERROR_NONE then 0 else 1) c c'"
proof -
  define c0 where "c0 = c\<lparr>receiving_stream := stream,
    trace := trace c @ [Call_combiner_stop ''recv_message_ready'']\<rparr>"
  from run have r: "receiving_stream_ready env b err c0 = Inr c'"
    by (auto simp: message_ready_def receiving_stream_ready_in_call_combiner_def c0_def
        split: option.splits if_splits)
  have c0: "recv_state c0 = recv_state c" "receiving_stream c0 = stream"
    by (simp_all add: c0_def)
  show ?thesis
  proof (cases "err = GRPC_ERROR_NONE \<and> stream \<noteq> None \<and> recv_state c = RECV_NONE")
    case True
    with receiving_stream_ready_result [OF r] c0 have "c' = c0\<lparr>recv_state := Recv_bctl b\<rparr>"
      by simp
    with True show ?thesis by (simp add: c0_def advances_def errors_at_def)
  next
    case False
    with receiving_stream_ready_result [OF r] c0 have q: "recv_state c' = recv_state c0"
      "advances [''process_data_after_md''] (if err = GRPC_ERROR_NONE then 0 else 1) c0 c'"
      by auto
    from advances_after_touch [OF _ _ _ q(2), of c "[Call_combiner_stop ''recv_message_ready'']" "[]"]
      q(1) False show ?thesis
      by (simp add: c0_def)
  qed
qed

lemmas batch_start_exec =
  call_start_batch_def allocate_batch_control_eq slot_in_use_iff slot_in_use_def
  start_batch_op_def op_recv_initial_metadata_def op_recv_message_def plain_op_def
  client_call_def zero_call_def test_env_def no_data_def execute_batch_def zero_bctl_def
  zero_op_def

lemmas callback_exec =
  message_ready_def receiving_stream_ready_in_call_combiner_def receiving_stream_ready_def
  receiving_initial_metadata_ready_def add_batch_error_def process_data_after_md_def
  finish_batch_step_def recv_initial_filter_def validate_filtered_metadata_def
  publish_app_metadata_def named_def Let_def

text \<open>
  C3. Let \<open>recv_state\<close> be RECV\_NONE, and let the two callbacks of the batch run one
  after the other, in either order, and return. Then \<open>process_data_after_md\<close> is entered
  exactly once. When the initial metadata arrives first, it is entered after
  \<open>recv_initial_filter\<close> and \<open>validate_filtered_metadata\<close>, which run when the initial
  metadata arrives without an error. When the message arrives first with a stream and
  without an error, it is deferred and entered after the two, in the callback of the
  initial metadata. When the message arrives first with an error or without a stream,
  it is entered at once, before the initial metadata is filtered and validated.
\<close>

theorem inbound_race_processing_once:
  assumes "recv_state c = RECV_NONE"
  shows "(\<forall>c'. run_callbacks env b
                 [Recv_initial_metadata_ready md_err, Recv_message_ready stream msg_err] c = Inr c' \<longrightarrow>
            entered (trace c') = entered (trace c) @
              (if md_err = GRPC_ERROR_NONE
               then [''recv_initial_filter'', ''validate_filtered_metadata''] else []) @
              [''process_data_after_md'']) \<and>
         (\<forall>c'. run_callbacks env b
                 [Recv_message_ready stream msg_err, Recv_initial_metadata_ready md_err] c = Inr c' \<longrightarrow>
            entered (trace c') = entered (trace c) @
              (if msg_err = GRPC_ERROR_NONE \<and> stream \<noteq> None
               then (if md_err = GRPC_ERROR_NONE
                     then [''recv_initial_filter'', ''validate_filtered_metadata''] else []) @
                    [''process_data_after_md'']
               else [''process_data_after_md''] @
                    (if md_err = GRPC_ERROR_NONE
                     then [''recv_initial_filter'', ''validate_filtered_metadata''] else [])))"
proof (intro conjI allI impI)
  let ?F = "if md_err = GRPC_ERROR_NONE
            then [''recv_initial_filter'', ''validate_filtered_metadata''] else []"
  fix c'
  assume "run_callbacks env b
            [Recv_initial_metadata_ready md_err, Recv_message_ready stream msg_err] c = Inr c'"
  then obtain c1 where 1: "receiving_initial_metadata_ready env b md_err c = Inr c1"
    and 2: "message_ready env b stream msg_err c1 = Inr c'"
    by (auto simp: bind_eq_Inr)
  from receiving_initial_metadata_ready_result [OF 1] assms
  have a: "recv_state c1 = RECV_INITIAL_METADATA_FIRST"
    "entered (trace c1) = entered (trace c) @ ?F"
    by (simp_all add: advances_def)
  from message_ready_result [OF 2] a(1)
  have "entered (trace c') = entered (trace c1) @ [''process_data_after_md'']"
    by (simp add: advances_def)
  with a(2) show "entered (trace c') = entered (trace c) @ ?F @ [''process_data_after_md'']"
    by simp
next
  let ?F = "if md_err = GRPC_ERROR_NONE
            then [''recv_initial_filter'', ''validate_filtered_metadata''] else []"
  fix c'
  assume "run_callbacks env b
            [Recv_message_ready stream msg_err, Recv_initial_metadata_ready md_err] c = Inr c'"
  then obtain c1 where 1: "message_ready env b stream msg_err c = Inr c1"
    and 2: "receiving_initial_metadata_ready env b md_err c1 = Inr c'"
    by (auto simp: bind_eq_Inr)
  show "entered (trace c') = entered (trace c) @
              (if msg_err = GRPC_ERROR_NONE \<and> stream \<noteq> None
               then ?F @ [''process_data_after_md'']
               else [''process_data_after_md''] @ ?F)"
  proof (cases "msg_err = GRPC_ERROR_NONE \<and> stream \<noteq> None")
    case True
    with message_ready_result [OF 1] assms
    have a: "recv_state c1 = Recv_bctl b" "entered (trace c1) = entered (trace c)"
      by (simp_all add: advances_def)
    from receiving_initial_metadata_ready_result [OF 2] a(1)
    have "entered (trace c') = entered (trace c1) @ ?F @ [''process_data_after_md'']"
      by (simp add: advances_def)
    with a(2) True show ?thesis by simp
  next
    case False
    with message_ready_result [OF 1] assms
    have a: "recv_state c1 = RECV_NONE"
      "entered (trace c1) = entered (trace c) @ [''process_data_after_md'']"
      by (auto simp: advances_def)
    from receiving_initial_metadata_ready_result [OF 2] a(1)
    have "entered (trace c') = entered (trace c1) @ ?F"
      by (simp add: advances_def)
    with a(2) False show ?thesis by simp
  qed
qed

theorem inbound_race_processing_once_witness:
  "\<exists>c. call_start_batch test_env client_call
          [plain_op GRPC_OP_RECV_INITIAL_METADATA, plain_op GRPC_OP_RECV_MESSAGE] 7 False =
          Inr (GRPC_CALL_OK, c) \<and>
        recv_state c = RECV_NONE \<and>
        (\<exists>c'. run_callbacks test_env 3
                 [Recv_initial_metadata_ready GRPC_ERROR_NONE,
                  Recv_message_ready
                    (Some \<lparr>stream_length = 7, stream_flags = 0,
                           answers = [Some (Inr ''1234567'')]\<rparr>) GRPC_ERROR_NONE] c = Inr c' \<and>
               entered (trace c') =
                 [''recv_initial_filter'', ''validate_filtered_metadata'',
                  ''process_data_after_md''] \<and>
               receiving_buffer c' = Some (Some \<lparr>compression = 0, slice_buffer = [''1234567'']\<rparr>)) \<and>
        (\<exists>c'. run_callbacks test_env 3
                 [Recv_message_ready
                    (Some \<lparr>stream_length = 7, stream_flags = 0,
                           answers = [Some (Inr ''1234567'')]\<rparr>) GRPC_ERROR_NONE,
                  Recv_initial_metadata_ready GRPC_ERROR_NONE] c = Inr c' \<and>
               entered (trace c') =
                 [''recv_initial_filter'', ''validate_filtered_metadata'',
                  ''process_data_after_md''] \<and>
               receiving_buffer c' = Some (Some \<lparr>compression = 0, slice_buffer = [''1234567'']\<rparr>))"
proof -
  let ?s = "Some \<lparr>stream_length = 7, stream_flags = 0, answers = [Some (Inr ''1234567'')]\<rparr>"
  have "\<exists>c. call_start_batch test_env client_call
          [plain_op GRPC_OP_RECV_INITIAL_METADATA, plain_op GRPC_OP_RECV_MESSAGE] 7 False =
          Inr (GRPC_CALL_OK, c) \<and>
        recv_state c = RECV_NONE \<and> entered (trace c) = [] \<and>
        (\<exists>c'. run_callbacks test_env 3
                 [Recv_initial_metadata_ready GRPC_ERROR_NONE,
                  Recv_message_ready ?s GRPC_ERROR_NONE] c = Inr c' \<and>
               receiving_buffer c' = Some (Some \<lparr>compression = 0, slice_buffer = [''1234567'']\<rparr>)) \<and>
        (\<exists>c'. run_callbacks test_env 3
                 [Recv_message_ready ?s GRPC_ERROR_NONE,
                  Recv_initial_metadata_ready GRPC_ERROR_NONE] c = Inr c' \<and>
               receiving_buffer c' = Some (Some \<lparr>compression = 0, slice_buffer = [''1234567'']\<rparr>))"
    by (simp add: batch_start_exec callback_exec continue_receiving_slices_def
        continue_receiving_slices_loop.simps grpc_raw_byte_buffer_create_def
        grpc_raw_compressed_byte_buffer_create_def slice_buffer_length_def)
  then obtain c c1 c2 where
    c: "call_start_batch test_env client_call
          [plain_op GRPC_OP_RECV_INITIAL_METADATA, plain_op GRPC_OP_RECV_MESSAGE] 7 False =
          Inr (GRPC_CALL_OK, c)"
    and n: "recv_state c = RECV_NONE" and e: "entered (trace c) = []"
    and 1: "run_callbacks test_env 3
                 [Recv_initial_metadata_ready GRPC_ERROR_NONE,
                  Recv_message_ready ?s GRPC_ERROR_NONE] c = Inr c1"
      "receiving_buffer c1 = Some (Some \<lparr>compression = 0, slice_buffer = [''1234567'']\<rparr>)"
    and 2: "run_callbacks test_env 3
                 [Recv_message_ready ?s GRPC_ERROR_NONE,
                  Recv_initial_metadata_ready GRPC_ERROR_NONE] c = Inr c2"
      "receiving_buffer c2 = Some (Some \<lparr>compression = 0, slice_buffer = [''1234567'']\<rparr>)"
    by blast
  note t = inbound_race_processing_once [OF n, of test_env 3 GRPC_ERROR_NONE ?s GRPC_ERROR_NONE]
  from t [THEN conjunct1, rule_format, OF 1(1)] e
  have e1: "entered (trace c1) =
      [''recv_initial_filter'', ''validate_filtered_metadata'', ''process_data_after_md'']"
    by simp
  from t [THEN conjunct2, rule_format, OF 2(1)] e
  have e2: "entered (trace c2) =
      [''recv_initial_filter'', ''validate_filtered_metadata'', ''process_data_after_md'']"
    by simp
  from c n 1 2 e1 e2 show ?thesis by blast
qed

text \<open>
  The message arrives first and without a stream, on a call that has started a batch
  with RECV\_INITIAL\_METADATA and RECV\_MESSAGE: \<open>process_data_after_md\<close> is entered
  before the initial metadata has arrived.
\<close>

theorem message_first_counterexample:
  "map_sum id (entered \<circ> trace)
     (bind (call_start_batch test_env client_call
              [plain_op GRPC_OP_RECV_INITIAL_METADATA, plain_op GRPC_OP_RECV_MESSAGE] 7 False)
        (run_callbacks test_env 3
           [Recv_message_ready None GRPC_ERROR_NONE, Recv_initial_metadata_ready GRPC_ERROR_NONE]
         \<circ> snd)) =
   Inr [''process_data_after_md'', ''recv_initial_filter'', ''validate_filtered_metadata'']"
  by (simp add: batch_start_exec callback_exec)

end
